theory Spec2Isabelle
  imports Main
begin

section \<open>The broker client wrapper (src/hooks/useMQTT.ts)\<close>

text \<open>
  The hook keeps one \<open>MQTTState\<close> value and a broker client. The client is a library
  object; what the hook does to it is recorded here: the subscriptions it requests and
  the messages it hands to \<open>client.publish\<close>, each with its quality of service.
\<close>

datatype connectionStatus = Connecting | Connected | Disconnected | Reconnecting | Error

record lastMessage =
  lm_topic :: string
  lm_message :: string
  lm_timestamp :: string

record MQTTState =
  mqtt_client :: bool
  mqtt_isConnected :: bool
  mqtt_connectionStatus :: connectionStatus
  mqtt_error :: "string option"
  mqtt_lastMessage :: "lastMessage option"

text \<open>
  \<open>mqtt_client\<close> is \<open>True\<close> when \<open>state.client\<close> holds the client object and
  \<open>False\<close> when it is \<open>null\<close>.
\<close>

record hook =
  state :: MQTTState
  subscribed :: "(string \<times> nat) list"
  published :: "(string \<times> string \<times> nat) list"

definition useState_init :: MQTTState where
  "useState_init =
     \<lparr>mqtt_client = False, mqtt_isConnected = False, mqtt_connectionStatus = Disconnected,
      mqtt_error = None, mqtt_lastMessage = None\<rparr>"

definition hook_init :: hook where
  "hook_init = \<lparr>state = useState_init, subscribed = [], published = []\<rparr>"

text \<open>
  \<open>connectToMQTT\<close> runs once when the component mounts. \<open>mqtt.connect\<close> either
  returns the client or throws; the \<open>catch\<close> branch keeps the thrown error's message,
  or a fixed text when the thrown value is not an \<open>Error\<close>.
\<close>

datatype thrown = ThrownError string | ThrownOther

definition connectToMQTT :: "thrown option \<Rightarrow> hook \<Rightarrow> hook" where
  "connectToMQTT t h =
     (case t of
        None \<Rightarrow> h\<lparr>state := (state h)\<lparr>mqtt_client := True, mqtt_connectionStatus := Connecting\<rparr>\<rparr>
      | Some e \<Rightarrow>
          h\<lparr>state := (state h)\<lparr>mqtt_connectionStatus := Error,
                 mqtt_error := Some (case e of ThrownError m \<Rightarrow> m
                                     | ThrownOther \<Rightarrow> ''Connection initialization failed'')\<rparr>\<rparr>)"

definition subscriptionTopics :: "string list" where
  "subscriptionTopics = [''userxyz/device/cam/stream'', ''userxyz/device/cam/capture'']"

text \<open>
  The events the client emits. \<open>OnMessage\<close> carries the topic, the payload already in
  its base64 form (\<open>message.toString('base64')\<close>) and the time stamp the handler reads.
\<close>

datatype mqtt_event =
    OnConnect
  | OnMessage string string string
  | OnError string
  | OnDisconnect
  | OnReconnect
  | OnClose
  | OnOffline

fun client_on :: "mqtt_event \<Rightarrow> hook \<Rightarrow> hook" where
  "client_on OnConnect h =
     h\<lparr>state := (state h)\<lparr>mqtt_client := True, mqtt_isConnected := True,
               mqtt_connectionStatus := Connected, mqtt_error := None\<rparr>,
       subscribed := subscribed h @ map (\<lambda>topic. (topic, 1)) subscriptionTopics\<rparr>"
| "client_on (OnMessage topic base64Image ts) h =
     (if topic = ''userxyz/device/cam/stream'' \<or> topic = ''userxyz/device/cam/capture''
      then h\<lparr>state := (state h)\<lparr>mqtt_lastMessage :=
                 Some \<lparr>lm_topic = topic, lm_message = base64Image, lm_timestamp = ts\<rparr>\<rparr>\<rparr>
      else h)"
| "client_on (OnError m) h =
     h\<lparr>state := (state h)\<lparr>mqtt_connectionStatus := Error,
               mqtt_error := Some (''Connection failed: '' @ m), mqtt_isConnected := False\<rparr>\<rparr>"
| "client_on OnDisconnect h =
     h\<lparr>state := (state h)\<lparr>mqtt_connectionStatus := Disconnected, mqtt_isConnected := False\<rparr>\<rparr>"
| "client_on OnReconnect h =
     h\<lparr>state := (state h)\<lparr>mqtt_connectionStatus := Reconnecting\<rparr>\<rparr>"
| "client_on OnClose h = h"
| "client_on OnOffline h =
     h\<lparr>state := (state h)\<lparr>mqtt_connectionStatus := Disconnected, mqtt_isConnected := False\<rparr>\<rparr>"

fun client_run :: "mqtt_event list \<Rightarrow> hook \<Rightarrow> hook" where
  "client_run [] h = h"
| "client_run (e # es) h = client_run es (client_on e h)"

text \<open>
  \<open>publishMessage\<close> returns a boolean and, on the connected branch, hands the message to
  the client at quality of service 1. Its callback only logs. The function has no
  \<open>throw\<close> and no \<open>await\<close>: it is total.
\<close>

definition publishMessage :: "hook \<Rightarrow> string \<Rightarrow> string \<Rightarrow> bool \<times> hook" where
  "publishMessage h topic message =
     (if mqtt_client (state h) \<and> mqtt_isConnected (state h)
      then (True, h\<lparr>published := published h @ [(topic, message, 1)]\<rparr>)
      else (False, h))"

text \<open>
  The order in which the broker library emits its events is not part of this repository.
  The library announces a lost connection with \<open>offline\<close> before it starts its retry
  timer, and every \<open>reconnect\<close> comes from that timer; \<open>connect\<close> ends the retries.
  \<open>library_order online es\<close> says that the event list \<open>es\<close> respects this, starting
  from a client that is online or not.
\<close>

fun library_order :: "bool \<Rightarrow> mqtt_event list \<Rightarrow> bool" where
  "library_order online [] = True"
| "library_order online (OnConnect # es) = library_order True es"
| "library_order online (OnOffline # es) = library_order False es"
| "library_order online (OnReconnect # es) = (\<not> online \<and> library_order online es)"
| "library_order online (OnMessage t m ts # es) = library_order online es"
| "library_order online (OnError m # es) = library_order online es"
| "library_order online (OnDisconnect # es) = library_order online es"
| "library_order online (OnClose # es) = library_order online es"

section \<open>The vehicle control page (src/pages/Index.tsx)\<close>

record page =
  mqtt :: hook
  activeControls :: "string set"

definition page_init :: page where
  "page_init = \<lparr>mqtt = connectToMQTT None hook_init, activeControls = {}\<rparr>"

definition handleControlPress :: "string \<Rightarrow> page \<Rightarrow> page" where
  "handleControlPress direction p =
     (let topic = ''userxyz/device/control/'' @ direction;
          (ok, h) = publishMessage (mqtt p) topic ''1''
      in if ok then p\<lparr>mqtt := h, activeControls := insert direction (activeControls p)\<rparr>
         else p\<lparr>mqtt := h\<rparr>)"

definition handleControlRelease :: "string \<Rightarrow> page \<Rightarrow> page" where
  "handleControlRelease direction p =
     (let topic = ''userxyz/device/control/'' @ direction;
          (ok, h) = publishMessage (mqtt p) topic ''0''
      in if ok then p\<lparr>mqtt := h, activeControls := activeControls p - {direction}\<rparr>
         else p\<lparr>mqtt := h\<rparr>)"

definition handleCapture :: "page \<Rightarrow> page" where
  "handleCapture p = p\<lparr>mqtt := snd (publishMessage (mqtt p) ''userxyz/device/cam/capture'' ''1'')\<rparr>"

text \<open>The broker events reach the page through the hook.\<close>

definition page_on :: "mqtt_event \<Rightarrow> page \<Rightarrow> page" where
  "page_on e p = p\<lparr>mqtt := client_on e (mqtt p)\<rparr>"

text \<open>The invariant of the hook's state along the library's event order, and a page
  on which a control was pressed before the broker went offline.\<close>

definition reach_inv :: "bool \<Rightarrow> hook \<Rightarrow> bool" where
  "reach_inv online h \<longleftrightarrow>
     (mqtt_isConnected (state h) \<longrightarrow> online \<and> mqtt_client (state h)) \<and>
     (mqtt_connectionStatus (state h) = Connected \<longleftrightarrow> mqtt_isConnected (state h))"

definition pressed_then_offline :: page where
  "pressed_then_offline =
     page_on OnOffline (handleControlPress ''forward'' (page_on OnConnect page_init))"

text \<open>
  What happens on the page: a control is pressed or released, the capture button is
  clicked, or the broker client emits an event.
\<close>

datatype page_event = Press string | Release string | Capture | Broker mqtt_event

fun page_step :: "page_event \<Rightarrow> page \<Rightarrow> page" where
  "page_step (Press d) p = handleControlPress d p"
| "page_step (Release d) p = handleControlRelease d p"
| "page_step Capture p = handleCapture p"
| "page_step (Broker e) p = page_on e p"

fun page_run :: "page_event list \<Rightarrow> page \<Rightarrow> page" where
  "page_run [] p = p"
| "page_run (e # es) p = page_run es (page_step e p)"

text \<open>
  The directions that the messages handed to the broker client leave active: a message
  on a control topic with payload \<open>1\<close> switches its direction on, one with payload \<open>0\<close>
  switches it off, every other message changes nothing.
\<close>

definition control_of :: "string \<Rightarrow> string option" where
  "control_of topic =
     (if take 23 topic = ''userxyz/device/control/'' then Some (drop 23 topic) else None)"

definition switch :: "string \<times> string \<times> nat \<Rightarrow> string set \<Rightarrow> string set" where
  "switch m S =
     (case control_of (fst m) of
        None \<Rightarrow> S
      | Some d \<Rightarrow> if fst (snd m) = ''1'' then insert d S
                  else if fst (snd m) = ''0'' then S - {d} else S)"

definition switched_on :: "(string \<times> string \<times> nat) list \<Rightarrow> string set" where
  "switched_on log = foldl (\<lambda>S m. switch m S) {} log"

section \<open>The stream viewers\<close>

text \<open>
  The repository has two viewer components with the same operations:
  \<open>StreamViewer\<close> (src/components/StreamViewer.tsx) and \<open>WebcamViewer\<close> (the second
  viewer file). Their definitions carry the suffixes \<open>_sv\<close> and \<open>_wv\<close>. Both keep
  their state in the same kind of record; \<open>StreamViewer\<close> has no \<open>signalingWsRef\<close>
  and no \<open>connectionType\<close> and leaves those fields alone.
\<close>

subsection \<open>Strings\<close>

text \<open>
  A string is a list of code units below 256. \<open>String.prototype.trim\<close> removes white
  space and line terminators from both ends; in this range they are tab, line feed,
  vertical tab, form feed, carriage return, space and the no-break space.
\<close>

definition isWhiteSpace :: "char \<Rightarrow> bool" where
  "isWhiteSpace c \<longleftrightarrow> of_char c \<in> {9, 10, 11, 12, 13, 32, 160 :: nat}"

definition trim :: "string \<Rightarrow> string" where
  "trim s = rev (dropWhile isWhiteSpace (rev (dropWhile isWhiteSpace s)))"

text \<open>\<open>truthy\<close> is the test \<open>error &&\<close> of the views, \<open>orElse\<close> the operator \<open>||\<close> on
  an optional string: an absent and an empty string are both falsy.\<close>

definition truthy :: "string option \<Rightarrow> bool" where
  "truthy e \<longleftrightarrow> e \<noteq> None \<and> e \<noteq> Some []"

definition orElse :: "string option \<Rightarrow> string \<Rightarrow> string" where
  "orElse v d = (case v of None \<Rightarrow> d | Some x \<Rightarrow> if x = [] then d else x)"

definition orZero :: "int option \<Rightarrow> int" where
  "orZero v = (case v of None \<Rightarrow> 0 | Some n \<Rightarrow> n)"

text \<open>
  A count is a number of the language, a double; the counts here are its integer values.
  Below \<open>2 ^ 53\<close> in magnitude adding one is exact. From there on the doubles are two or
  more apart and the sum is rounded to the nearest of them, to the one with the even
  significand when it lies half way.
\<close>

definition js_inc :: "int \<Rightarrow> int" where
  "js_inc n =
     (if - (2 ^ 53) \<le> n \<and> n < 2 ^ 53 then n + 1
      else if \<bar>n\<bar> < 2 ^ 54 then (if (\<bar>n\<bar> div 2) mod 2 = 0 then n else n + 2)
      else n)"

subsection \<open>Transports\<close>

text \<open>
  A WebSocket has a URL, a ready state and the messages the component sent on it.
  \<open>send\<close> transmits only on an open socket. \<open>close\<close> starts the closing handshake
  unless the socket is already closing or closed.
\<close>

datatype readyState = CONNECTING | OPEN | CLOSING | CLOSED

type_synonym sdp = string
type_synonym cand = string

datatype answer = AnswerTo sdp

datatype out_msg =
    JoinStream string
  | AnswerMsg answer string
  | IceCandidateMsg cand string

record socket =
  url :: string
  readyState :: readyState
  sent :: "out_msg list"

text \<open>
  \<open>getWebSocketUrl\<close> takes the page's host name, replaces the first part of it that
  matches \<open>--\\d+--\<close> by the port between the same dashes, and puts \<open>ws://\<close> before it
  and the path behind. A host name without such a part stays as it is, and the port
  appears nowhere in the address.
\<close>

definition isDigit :: "char \<Rightarrow> bool" where
  "isDigit c \<longleftrightarrow> c \<in> set ''0123456789''"

definition match_port :: "string \<Rightarrow> string option" where
  "match_port t =
     (if take 2 t = ''--'' \<and> takeWhile isDigit (drop 2 t) \<noteq> []
         \<and> take 2 (dropWhile isDigit (drop 2 t)) = ''--''
      then Some (drop 2 (dropWhile isDigit (drop 2 t))) else None)"

fun replace_port :: "string \<Rightarrow> string \<Rightarrow> string" where
  "replace_port [] r = []"
| "replace_port (c # cs) r =
     (case match_port (c # cs) of Some rest \<Rightarrow> r @ rest | None \<Rightarrow> c # replace_port cs r)"

definition digit :: "nat \<Rightarrow> char" where
  "digit d = ''0123456789'' ! d"

function show_nat :: "nat \<Rightarrow> string" where
  "show_nat n = (if n < 10 then [digit n] else show_nat (n div 10) @ [digit (n mod 10)])"
  by pat_completeness auto
termination
  by (relation "measure (\<lambda>n. n)") auto

declare show_nat.simps [simp del]

definition getWebSocketUrl :: "string \<Rightarrow> nat \<Rightarrow> string \<Rightarrow> string" where
  "getWebSocketUrl host port path =
     ''ws://'' @ replace_port host (''--'' @ show_nat port @ ''--'') @ path"

text \<open>
  The constructor throws when the address has a fragment, which begins at the first
  \<open>#\<close>, and when the page was loaded over https, since every address here is a
  \<open>ws:\<close> one. What it throws is kept by its name. Otherwise it returns a socket that is
  connecting.
\<close>

definition new_WebSocket :: "bool \<Rightarrow> string \<Rightarrow> string + socket" where
  "new_WebSocket secure u =
     (if CHR ''#'' \<in> set u then Inl ''SyntaxError''
      else if secure then Inl ''SecurityError''
      else Inr \<lparr>url = u, readyState = CONNECTING, sent = []\<rparr>)"

definition send :: "out_msg \<Rightarrow> socket \<Rightarrow> socket" where
  "send m w = (if readyState w = OPEN then w\<lparr>sent := sent w @ [m]\<rparr> else w)"

definition ws_close :: "socket \<Rightarrow> socket" where
  "ws_close w =
     (if readyState w = CLOSING \<or> readyState w = CLOSED then w else w\<lparr>readyState := CLOSING\<rparr>)"

definition ws_live :: "socket \<Rightarrow> bool" where
  "ws_live w \<longleftrightarrow> readyState w = CONNECTING \<or> readyState w = OPEN"

text \<open>
  A peer connection is open until \<open>close\<close> is called on it. The calls the component
  makes on it are kept in order. The answer that \<open>createAnswer\<close> yields after the remote
  description \<open>offer\<close> was set is written \<open>AnswerTo offer\<close>.
\<close>

datatype pc_call =
    SetRemoteDescription sdp
  | CreateAnswer
  | SetLocalDescription answer
  | AddIceCandidate "cand option"

record peer =
  pc_closed :: bool
  pc_calls :: "pc_call list"

definition new_RTCPeerConnection :: peer where
  "new_RTCPeerConnection = \<lparr>pc_closed = False, pc_calls = []\<rparr>"

definition pc_close :: "peer \<Rightarrow> peer" where
  "pc_close p = p\<lparr>pc_closed := True\<rparr>"

definition pc_call :: "pc_call \<Rightarrow> peer \<Rightarrow> peer" where
  "pc_call c p = p\<lparr>pc_calls := pc_calls p @ [c]\<rparr>"

subsection \<open>Connection attempts\<close>

text \<open>
  Every call of \<open>connectToStream\<close> that passes the blank test runs \<open>connectWebRTC\<close>,
  which creates a signaling socket and a peer connection and installs handlers on them,
  unless the socket's constructor throws.
  The handlers are closures: they keep the \<open>broadcastId\<close> and \<open>isConnected\<close> of the
  render in which \<open>connectToStream\<close> was called, the two transports, the timer and the
  promise's \<open>resolve\<close> and \<open>reject\<close>. An \<open>attempt\<close> is that closure. The closure of
  \<open>connectWebSocket\<close>, a \<open>frame_socket\<close> with the fallback socket, its timer and its
  promise, is added to the attempt when \<open>connectWebSocket\<close> runs after the attempt's
  promise was rejected. When the constructor of the signaling socket threw there is no
  attempt, and the closure of \<open>connectWebSocket\<close> stands alone.
  A timer field holds the delay in milliseconds while the timer is armed and is
  \<open>None\<close> when no timer was set or it was cleared or has fired.
  A promise settles once: later calls of \<open>resolve\<close> or \<open>reject\<close> do nothing.
\<close>

datatype promise = Pending | Fulfilled | Rejected string

record frame_socket =
  ws :: socket
  wsTimeout :: "nat option"
  wsPromise :: promise

record attempt =
  broadcastId_c :: string
  isConnected_c :: bool
  signalingWs :: socket
  connectionTimeout :: "nat option"
  peerConnection :: peer
  webrtc :: promise
  fallback :: "frame_socket option"

datatype slot = OfAttempt nat | Lone nat

record video =
  srcObject :: "nat option"
  src :: string

record viewer =
  hostname :: string
  pageSecure :: bool
  broadcastId :: string
  isConnecting :: bool
  isConnected :: bool
  error :: "string option"
  viewerCount :: int
  streamQuality :: string
  connectionType :: "string option"
  videoRef :: "video option"
  peerConnectionRef :: "nat option"
  websocketRef :: "slot option"
  signalingWsRef :: "nat option"
  attempts :: "attempt list"
  lones :: "frame_socket list"

text \<open>
  \<open>hostname\<close> and \<open>pageSecure\<close> are the host name and the protocol of the page.
  \<open>peerConnectionRef\<close> and \<open>signalingWsRef\<close> hold the number of the attempt whose peer
  connection or signaling socket they point to, \<open>websocketRef\<close> the place of the fallback
  socket it points to. \<open>videoRef\<close> is set while the video element is mounted.
\<close>

definition viewer_mount :: "string \<Rightarrow> bool \<Rightarrow> viewer" where
  "viewer_mount host secure =
     \<lparr>hostname = host, pageSecure = secure,
      broadcastId = [], isConnecting = False, isConnected = False, error = None,
      viewerCount = 0, streamQuality = ''HD'', connectionType = None,
      videoRef = Some \<lparr>srcObject = None, src = []\<rparr>,
      peerConnectionRef = None, websocketRef = None, signalingWsRef = None, attempts = [],
      lones = []\<rparr>"

definition viewer_init :: viewer where
  "viewer_init = viewer_mount ''app--5173--local.webcontainer.io'' False"

definition att_upd :: "nat \<Rightarrow> (attempt \<Rightarrow> attempt) \<Rightarrow> viewer \<Rightarrow> viewer" where
  "att_upd a f s = s\<lparr>attempts := (attempts s)[a := f (attempts s ! a)]\<rparr>"

definition setBroadcastId :: "string \<Rightarrow> viewer \<Rightarrow> viewer" where
  "setBroadcastId v s = s\<lparr>broadcastId := v\<rparr>"

text \<open>The closure of \<open>connectWebSocket\<close> at a place, if there is one, and its update.\<close>

definition fb_get :: "slot \<Rightarrow> viewer \<Rightarrow> frame_socket option" where
  "fb_get sl s =
     (case sl of
        OfAttempt a \<Rightarrow> if a < length (attempts s) then fallback (attempts s ! a) else None
      | Lone n \<Rightarrow> if n < length (lones s) then Some (lones s ! n) else None)"

definition fb_upd :: "slot \<Rightarrow> (frame_socket \<Rightarrow> frame_socket) \<Rightarrow> viewer \<Rightarrow> viewer" where
  "fb_upd sl f s =
     (case sl of
        OfAttempt a \<Rightarrow> att_upd a (\<lambda>x. x\<lparr>fallback := map_option f (fallback x)\<rparr>) s
      | Lone n \<Rightarrow> s\<lparr>lones := (lones s)[n := f (lones s ! n)]\<rparr>)"

text \<open>The transports that are still live: peer connections not closed, sockets connecting
  or open. Each is named by its attempt.\<close>

datatype transport = PeerOf nat | SignalingOf nat | StreamOf slot

definition live_of :: "nat \<Rightarrow> attempt \<Rightarrow> transport list" where
  "live_of a x =
     (if pc_closed (peerConnection x) then [] else [PeerOf a]) @
     (if ws_live (signalingWs x) then [SignalingOf a] else []) @
     (case fallback x of None \<Rightarrow> []
      | Some f \<Rightarrow> if ws_live (ws f) then [StreamOf (OfAttempt a)] else [])"

definition live_lone :: "nat \<Rightarrow> frame_socket \<Rightarrow> transport list" where
  "live_lone n f = (if ws_live (ws f) then [StreamOf (Lone n)] else [])"

definition live_transports :: "viewer \<Rightarrow> transport list" where
  "live_transports s =
     concat (map (\<lambda>(a, x). live_of a x) (enumerate 0 (attempts s))) @
     concat (map (\<lambda>(n, f). live_lone n f) (enumerate 0 (lones s)))"

text \<open>The status the views display (\<open>getStatusText\<close>).\<close>

datatype statusText = StatusError | StatusConnected | StatusConnecting | StatusDisconnected

definition getStatusText :: "viewer \<Rightarrow> statusText" where
  "getStatusText s =
     (if truthy (error s) then StatusError
      else if isConnected s then StatusConnected
      else if isConnecting s then StatusConnecting
      else StatusDisconnected)"

subsection \<open>Events\<close>

text \<open>
  Everything runs on one event loop. An event is a user action, an error of the video
  element, or a callback of a transport or timer, named by the attempt's number or the
  fallback socket's place. A signaling message is
  given by its \<open>type\<close> and the fields the handlers read; a message of another type, and a
  text that is not JSON, are \<open>OtherType\<close> and \<open>NotJson\<close>.
\<close>

datatype sig_msg =
    Offer sdp
  | IceCandidate "cand option"
  | StreamInfo "int option" "string option"
  | ErrorMsg "string option"
  | StreamEnded
  | StreamNotFound
  | OtherType
  | NotJson

datatype ws_data = Blob string | Text sig_msg

datatype pc_state = PcNew | PcConnecting | PcConnected | PcDisconnected | PcFailed | PcClosed

datatype event =
    SigOpen nat
  | SigError nat
  | SigTimeout nat
  | SigMessage nat sig_msg
  | SigClose nat
  | Track nat "nat option"
  | LocalCandidate nat "cand option"
  | ConnectionStateChange nat pc_state
  | WsOpen slot
  | WsError slot
  | WsTimeout slot
  | WsMessage slot ws_data
  | WsClose slot nat
  | VideoError
  | Input string
  | ClickConnect
  | ClickDisconnect
  | ClickTryAgain
  | KeyEnter
  | Unmount

text \<open>\<open>Input\<close> carries the value the view passes to \<open>setBroadcastId\<close>. The event of a
  transport changes its ready state before the handler runs.\<close>

definition set_signaling :: "nat \<Rightarrow> readyState \<Rightarrow> viewer \<Rightarrow> viewer" where
  "set_signaling a r s = att_upd a (\<lambda>x. x\<lparr>signalingWs := (signalingWs x)\<lparr>readyState := r\<rparr>\<rparr>) s"

definition set_ws :: "slot \<Rightarrow> readyState \<Rightarrow> viewer \<Rightarrow> viewer" where
  "set_ws sl r s = fb_upd sl (\<lambda>f. f\<lparr>ws := (ws f)\<lparr>readyState := r\<rparr>\<rparr>) s"

definition has_ws :: "slot \<Rightarrow> viewer \<Rightarrow> bool" where
  "has_ws sl s \<longleftrightarrow> fb_get sl s \<noteq> None"

definition ws_pending :: "slot \<Rightarrow> viewer \<Rightarrow> bool" where
  "ws_pending sl s \<longleftrightarrow> map_option wsPromise (fb_get sl s) = Some Pending"

definition ws_armed :: "slot \<Rightarrow> viewer \<Rightarrow> bool" where
  "ws_armed sl s \<longleftrightarrow> (case fb_get sl s of None \<Rightarrow> False | Some f \<Rightarrow> wsTimeout f \<noteq> None)"

subsection \<open>WebcamViewer\<close>

text \<open>
  \<open>disconnect\<close> closes what the three refs hold, clears the video element and resets
  the state.
\<close>

definition disconnect_wv :: "viewer \<Rightarrow> viewer" where
  "disconnect_wv s =
     (let s1 = (case peerConnectionRef s of None \<Rightarrow> s
                | Some a \<Rightarrow> (att_upd a (\<lambda>x. x\<lparr>peerConnection := pc_close (peerConnection x)\<rparr>) s)
                             \<lparr>peerConnectionRef := None\<rparr>);
          s2 = (case signalingWsRef s1 of None \<Rightarrow> s1
                | Some a \<Rightarrow> (att_upd a (\<lambda>x. x\<lparr>signalingWs := ws_close (signalingWs x)\<rparr>) s1)
                             \<lparr>signalingWsRef := None\<rparr>);
          s3 = (case websocketRef s2 of None \<Rightarrow> s2
                | Some sl \<Rightarrow> (fb_upd sl (\<lambda>f. f\<lparr>ws := ws_close (ws f)\<rparr>) s2)
                              \<lparr>websocketRef := None\<rparr>);
          s4 = s3\<lparr>videoRef := map_option (\<lambda>v. v\<lparr>srcObject := None, src := []\<rparr>) (videoRef s3)\<rparr>
      in s4\<lparr>isConnected := False, isConnecting := False, error := None, viewerCount := 0,
            connectionType := None\<rparr>)"

text \<open>
  What the second \<open>catch\<close> of \<open>connectToStream\<close> does when the promise of
  \<open>connectWebSocket\<close> is rejected: it sets the error and ends the connecting state.
\<close>

definition catch_wsError_wv :: "viewer \<Rightarrow> viewer" where
  "catch_wsError_wv s =
     s\<lparr>error := Some ''Unable to connect to stream. Please check the Broadcast ID and ensure the broadcaster is active.'',
       isConnecting := False\<rparr>"

text \<open>
  \<open>connectWebSocket\<close>, called in the render whose id is \<open>bid\<close>, after the promise of
  attempt \<open>a\<close> was rejected when \<open>owner\<close> is \<open>Some a\<close>, and after the constructor of the
  signaling socket threw when it is \<open>None\<close>. It makes a new socket to the stream address
  of the trimmed id, holds it in \<open>websocketRef\<close> and sets a timer of 10000 ms. When the
  constructor throws, the \<open>catch\<close> rejects the promise at once: no socket, no timer, and
  \<open>websocketRef\<close> keeps what it held.
\<close>

definition connectWebSocket_wv :: "nat option \<Rightarrow> string \<Rightarrow> viewer \<Rightarrow> viewer" where
  "connectWebSocket_wv owner bid s =
     (case new_WebSocket (pageSecure s)
             (getWebSocketUrl (hostname s) 8081 (''/stream/'' @ trim bid)) of
        Inl e \<Rightarrow> catch_wsError_wv s
      | Inr w \<Rightarrow>
          (case owner of
             Some a \<Rightarrow>
               (att_upd a (\<lambda>x. x\<lparr>fallback :=
                   Some \<lparr>ws = w, wsTimeout = Some 10000, wsPromise = Pending\<rparr>\<rparr>) s)
               \<lparr>websocketRef := Some (OfAttempt a)\<rparr>
           | None \<Rightarrow>
               s\<lparr>lones := lones s @ [\<lparr>ws = w, wsTimeout = Some 10000, wsPromise = Pending\<rparr>],
                 websocketRef := Some (Lone (length (lones s)))\<rparr>))"

text \<open>
  What \<open>connectToStream\<close> does after each \<open>await\<close>. When the promise of
  \<open>connectWebRTC\<close> is fulfilled it sets the connection type; when it is rejected it runs
  \<open>connectWebSocket\<close>; when that promise is fulfilled it sets the connection type, and
  when it is rejected too it sets the error and ends the connecting state.
\<close>

definition resolve_connectWebSocket_wv :: "slot \<Rightarrow> viewer \<Rightarrow> viewer" where
  "resolve_connectWebSocket_wv sl s =
     (if ws_pending sl s
      then (fb_upd sl (\<lambda>f. f\<lparr>wsPromise := Fulfilled\<rparr>) s)\<lparr>connectionType := Some ''WebSocket''\<rparr>
      else s)"

definition reject_connectWebSocket_wv :: "slot \<Rightarrow> string \<Rightarrow> viewer \<Rightarrow> viewer" where
  "reject_connectWebSocket_wv sl reason s =
     (if ws_pending sl s
      then catch_wsError_wv (fb_upd sl (\<lambda>f. f\<lparr>wsPromise := Rejected reason\<rparr>) s)
      else s)"

definition resolve_connectWebRTC_wv :: "nat \<Rightarrow> viewer \<Rightarrow> viewer" where
  "resolve_connectWebRTC_wv a s =
     (if webrtc (attempts s ! a) = Pending
      then (att_upd a (\<lambda>x. x\<lparr>webrtc := Fulfilled\<rparr>) s)\<lparr>connectionType := Some ''WebRTC''\<rparr>
      else s)"

definition reject_connectWebRTC_wv :: "nat \<Rightarrow> string \<Rightarrow> viewer \<Rightarrow> viewer" where
  "reject_connectWebRTC_wv a reason s =
     (if webrtc (attempts s ! a) = Pending
      then connectWebSocket_wv (Some a) (broadcastId_c (attempts s ! a))
             (att_upd a (\<lambda>x. x\<lparr>webrtc := Rejected reason\<rparr>) s)
      else s)"

text \<open>
  \<open>connectWebRTC\<close>: a new signaling socket to the address of the id as entered, held in
  \<open>signalingWsRef\<close>, a timer of 10000 ms, and a new peer connection, held in
  \<open>peerConnectionRef\<close>. When the socket's constructor throws, the \<open>catch\<close> rejects the
  promise before a timer is set or a peer connection made, the refs keep what they
  held, and \<open>connectToStream\<close> goes on to \<open>connectWebSocket\<close>.
\<close>

definition connectWebRTC_wv :: "viewer \<Rightarrow> viewer" where
  "connectWebRTC_wv s =
     (case new_WebSocket (pageSecure s)
             (getWebSocketUrl (hostname s) 8080 (''/signaling/viewer/'' @ broadcastId s)) of
        Inl e \<Rightarrow> connectWebSocket_wv None (broadcastId s) s
      | Inr w \<Rightarrow>
          s\<lparr>attempts := attempts s @
               [\<lparr>broadcastId_c = broadcastId s, isConnected_c = isConnected s,
                 signalingWs = w,
                 connectionTimeout = Some 10000,
                 peerConnection = new_RTCPeerConnection,
                 webrtc = Pending, fallback = None\<rparr>],
            signalingWsRef := Some (length (attempts s)),
            peerConnectionRef := Some (length (attempts s))\<rparr>)"

definition connectToStream_wv :: "viewer \<Rightarrow> viewer" where
  "connectToStream_wv s =
     (if trim (broadcastId s) = [] then s\<lparr>error := Some ''Please enter a valid Broadcast ID''\<rparr>
      else connectWebRTC_wv (s\<lparr>isConnecting := True, error := None, connectionType := None\<rparr>))"

text \<open>The handlers of the signaling socket and its timer.\<close>

definition connectionTimeout_fired_wv :: "nat \<Rightarrow> viewer \<Rightarrow> viewer" where
  "connectionTimeout_fired_wv a s = reject_connectWebRTC_wv a ''Signaling connection timeout'' s"

definition signalingWs_onopen_wv :: "nat \<Rightarrow> viewer \<Rightarrow> viewer" where
  "signalingWs_onopen_wv a s =
     att_upd a (\<lambda>x. x\<lparr>connectionTimeout := None,
                       signalingWs := send (JoinStream (trim (broadcastId_c x))) (signalingWs x)\<rparr>) s"

definition signalingWs_onerror_wv :: "nat \<Rightarrow> viewer \<Rightarrow> viewer" where
  "signalingWs_onerror_wv a s =
     reject_connectWebRTC_wv a ''Signaling server connection failed''
       (att_upd a (\<lambda>x. x\<lparr>connectionTimeout := None\<rparr>) s)"

text \<open>
  The message handler. On an offer it sets the remote description, creates the answer,
  sets it as local description and sends it; a closed peer connection rejects the first
  call, which ends the handler inside its \<open>try\<close>. On a candidate it calls
  \<open>addIceCandidate\<close> at once when the message has one. Each \<open>await\<close> of the handler is
  taken to complete before the next event.
\<close>

definition signalingWs_onmessage_wv :: "nat \<Rightarrow> sig_msg \<Rightarrow> viewer \<Rightarrow> viewer" where
  "signalingWs_onmessage_wv a m s =
     (case m of
        Offer offer \<Rightarrow>
          (if pc_closed (peerConnection (attempts s ! a))
           then att_upd a (\<lambda>x. x\<lparr>peerConnection :=
                                    pc_call (SetRemoteDescription offer) (peerConnection x)\<rparr>) s
           else att_upd a (\<lambda>x. x\<lparr>peerConnection :=
                                    pc_call (SetLocalDescription (AnswerTo offer))
                                      (pc_call CreateAnswer
                                        (pc_call (SetRemoteDescription offer) (peerConnection x))),
                                  signalingWs := send (AnswerMsg (AnswerTo offer)
                                                         (trim (broadcastId_c x)))
                                                   (signalingWs x)\<rparr>) s)
      | IceCandidate c \<Rightarrow>
          (case c of
             None \<Rightarrow> s
           | Some candidate \<Rightarrow>
               att_upd a (\<lambda>x. x\<lparr>peerConnection :=
                                   pc_call (AddIceCandidate (Some candidate)) (peerConnection x)\<rparr>) s)
      | StreamInfo v q \<Rightarrow> s\<lparr>viewerCount := orZero v, streamQuality := orElse q ''HD''\<rparr>
      | ErrorMsg msg \<Rightarrow> reject_connectWebRTC_wv a (orElse msg ''Stream connection failed'') s
      | StreamEnded \<Rightarrow> disconnect_wv (s\<lparr>error := Some ''Stream has ended''\<rparr>)
      | StreamNotFound \<Rightarrow>
          reject_connectWebRTC_wv a
            ''Broadcast ID not found. Please check the ID and try again.'' s
      | OtherType \<Rightarrow> s
      | NotJson \<Rightarrow> s)"

definition signalingWs_onclose_wv :: "nat \<Rightarrow> viewer \<Rightarrow> viewer" where
  "signalingWs_onclose_wv a s =
     (if isConnected_c (attempts s ! a) then s\<lparr>error := Some ''Signaling connection lost''\<rparr>
      else s)"

text \<open>The handlers of the peer connection.\<close>

definition ontrack_wv :: "nat \<Rightarrow> nat option \<Rightarrow> viewer \<Rightarrow> viewer" where
  "ontrack_wv a stream s =
     (case (videoRef s, stream) of
        (Some v, Some st) \<Rightarrow>
          resolve_connectWebRTC_wv a
            (s\<lparr>videoRef := Some (v\<lparr>srcObject := Some st\<rparr>),
               isConnected := True, isConnecting := False,
               viewerCount := js_inc (viewerCount s)\<rparr>)
      | _ \<Rightarrow> s)"

definition onicecandidate_wv :: "nat \<Rightarrow> cand option \<Rightarrow> viewer \<Rightarrow> viewer" where
  "onicecandidate_wv a c s =
     (case c of
        None \<Rightarrow> s
      | Some candidate \<Rightarrow>
          if readyState (signalingWs (attempts s ! a)) = OPEN
          then att_upd a (\<lambda>x. x\<lparr>signalingWs :=
                                   send (IceCandidateMsg candidate (trim (broadcastId_c x)))
                                     (signalingWs x)\<rparr>) s
          else s)"

definition onconnectionstatechange_wv :: "nat \<Rightarrow> pc_state \<Rightarrow> viewer \<Rightarrow> viewer" where
  "onconnectionstatechange_wv a st s =
     (case st of
        PcConnected \<Rightarrow> s\<lparr>isConnected := True, isConnecting := False\<rparr>
      | PcDisconnected \<Rightarrow> s\<lparr>error := Some ''Connection lost or failed'', isConnected := False\<rparr>
      | PcFailed \<Rightarrow> s\<lparr>error := Some ''Connection lost or failed'', isConnected := False\<rparr>
      | PcClosed \<Rightarrow> s\<lparr>isConnected := False\<rparr>
      | _ \<Rightarrow> s)"

text \<open>The handlers of the fallback socket and its timer.\<close>

definition wsTimeout_fired_wv :: "slot \<Rightarrow> viewer \<Rightarrow> viewer" where
  "wsTimeout_fired_wv a s = reject_connectWebSocket_wv a ''WebSocket connection timeout'' s"

definition ws_onopen_wv :: "slot \<Rightarrow> viewer \<Rightarrow> viewer" where
  "ws_onopen_wv a s =
     resolve_connectWebSocket_wv a
       ((fb_upd a (\<lambda>f. f\<lparr>wsTimeout := None\<rparr>) s)\<lparr>isConnected := True, isConnecting := False\<rparr>)"

definition ws_onmessage_wv :: "slot \<Rightarrow> ws_data \<Rightarrow> viewer \<Rightarrow> viewer" where
  "ws_onmessage_wv a d s =
     (case d of
        Blob u \<Rightarrow> (case videoRef s of None \<Rightarrow> s | Some v \<Rightarrow> s\<lparr>videoRef := Some (v\<lparr>src := u\<rparr>)\<rparr>)
      | Text m \<Rightarrow>
          (case m of
             StreamInfo v q \<Rightarrow> s\<lparr>viewerCount := orZero v, streamQuality := orElse q ''HD''\<rparr>
           | ErrorMsg msg \<Rightarrow>
               reject_connectWebSocket_wv a (case msg of None \<Rightarrow> [] | Some t \<Rightarrow> t)
                 (s\<lparr>error := msg\<rparr>)
           | StreamEnded \<Rightarrow> disconnect_wv (s\<lparr>error := Some ''Stream has ended''\<rparr>)
           | _ \<Rightarrow> s))"

definition ws_onerror_wv :: "slot \<Rightarrow> viewer \<Rightarrow> viewer" where
  "ws_onerror_wv a s =
     reject_connectWebSocket_wv a ''WebSocket connection failed''
       (fb_upd a (\<lambda>f. f\<lparr>wsTimeout := None\<rparr>) s)"

text \<open>The close handler reads the code of the close event. A socket closed by a call of
  \<open>close\<close> without a code, as \<open>disconnect\<close> makes it, delivers the code 1005.\<close>

definition ws_onclose_wv :: "slot \<Rightarrow> nat \<Rightarrow> viewer \<Rightarrow> viewer" where
  "ws_onclose_wv a code s =
     (let s1 = s\<lparr>isConnected := False\<rparr>
      in if code \<noteq> 1000 then s1\<lparr>error := Some ''Connection lost''\<rparr> else s1)"

text \<open>The error handler of the video element.\<close>

definition video_onerror_wv :: "viewer \<Rightarrow> viewer" where
  "video_onerror_wv s = s\<lparr>error := Some ''Video playback error occurred''\<rparr>"

text \<open>The view: which handler a user action reaches, and when.\<close>

definition handleKeyPress_wv :: "viewer \<Rightarrow> viewer" where
  "handleKeyPress_wv s =
     (if \<not> isConnecting s \<and> trim (broadcastId s) \<noteq> [] then connectToStream_wv s else s)"

definition click_connect_wv :: "viewer \<Rightarrow> viewer" where
  "click_connect_wv s =
     (if \<not> isConnected s \<and> \<not> (isConnecting s \<or> trim (broadcastId s) = [])
      then connectToStream_wv s else s)"

definition click_disconnect_wv :: "viewer \<Rightarrow> viewer" where
  "click_disconnect_wv s = (if isConnected s then disconnect_wv s else s)"

definition click_try_again_wv :: "viewer \<Rightarrow> viewer" where
  "click_try_again_wv s =
     (if truthy (error s)
      then (if trim (broadcastId s) \<noteq> [] then connectToStream_wv (s\<lparr>error := None\<rparr>)
            else s\<lparr>error := None\<rparr>)
      else s)"

text \<open>
  One turn of the event loop. A transport's event first changes the transport (an open
  socket is \<open>OPEN\<close>; a socket that failed or closed is \<open>CLOSED\<close>), then runs the handler.
  An event of an attempt that does not exist, of a fallback socket that was not created,
  of a timer that is not armed or of a video element that is not mounted does not occur.
  A timer fires once. Unmounting detaches the video element from \<open>videoRef\<close> before the
  cleanup runs \<open>disconnect\<close>.
\<close>

fun step_wv :: "event \<Rightarrow> viewer \<Rightarrow> viewer" where
  "step_wv (SigOpen a) s =
     (if a < length (attempts s) then signalingWs_onopen_wv a (set_signaling a OPEN s) else s)"
| "step_wv (SigError a) s =
     (if a < length (attempts s) then signalingWs_onerror_wv a (set_signaling a CLOSED s) else s)"
| "step_wv (SigTimeout a) s =
     (if a < length (attempts s) \<and> connectionTimeout (attempts s ! a) \<noteq> None
      then connectionTimeout_fired_wv a (att_upd a (\<lambda>x. x\<lparr>connectionTimeout := None\<rparr>) s)
      else s)"
| "step_wv (SigMessage a m) s =
     (if a < length (attempts s) then signalingWs_onmessage_wv a m s else s)"
| "step_wv (SigClose a) s =
     (if a < length (attempts s) then signalingWs_onclose_wv a (set_signaling a CLOSED s) else s)"
| "step_wv (Track a stream) s =
     (if a < length (attempts s) then ontrack_wv a stream s else s)"
| "step_wv (LocalCandidate a c) s =
     (if a < length (attempts s) then onicecandidate_wv a c s else s)"
| "step_wv (ConnectionStateChange a st) s =
     (if a < length (attempts s) then onconnectionstatechange_wv a st s else s)"
| "step_wv (WsOpen a) s = (if has_ws a s then ws_onopen_wv a (set_ws a OPEN s) else s)"
| "step_wv (WsError a) s = (if has_ws a s then ws_onerror_wv a (set_ws a CLOSED s) else s)"
| "step_wv (WsTimeout a) s =
     (if ws_armed a s
      then wsTimeout_fired_wv a (fb_upd a (\<lambda>f. f\<lparr>wsTimeout := None\<rparr>) s)
      else s)"
| "step_wv (WsMessage a d) s = (if has_ws a s then ws_onmessage_wv a d s else s)"
| "step_wv (WsClose a code) s =
     (if has_ws a s then ws_onclose_wv a code (set_ws a CLOSED s) else s)"
| "step_wv VideoError s = (if videoRef s \<noteq> None then video_onerror_wv s else s)"
| "step_wv (Input v) s = (if isConnecting s then s else setBroadcastId v s)"
| "step_wv ClickConnect s = click_connect_wv s"
| "step_wv ClickDisconnect s = click_disconnect_wv s"
| "step_wv ClickTryAgain s = click_try_again_wv s"
| "step_wv KeyEnter s = (if isConnecting s then s else handleKeyPress_wv s)"
| "step_wv Unmount s = disconnect_wv (s\<lparr>videoRef := None\<rparr>)"

fun run_wv :: "event list \<Rightarrow> viewer \<Rightarrow> viewer" where
  "run_wv [] s = s"
| "run_wv (e # es) s = run_wv es (step_wv e s)"

subsection \<open>StreamViewer\<close>

text \<open>
  \<open>disconnect\<close> closes what \<open>peerConnectionRef\<close> and \<open>websocketRef\<close> hold, clears the
  video element and resets the state. This component keeps its signaling socket in a
  local variable of \<open>connectWebRTC\<close> only.
\<close>

definition disconnect_sv :: "viewer \<Rightarrow> viewer" where
  "disconnect_sv s =
     (let s1 = (case peerConnectionRef s of None \<Rightarrow> s
                | Some a \<Rightarrow> (att_upd a (\<lambda>x. x\<lparr>peerConnection := pc_close (peerConnection x)\<rparr>) s)
                             \<lparr>peerConnectionRef := None\<rparr>);
          s3 = (case websocketRef s1 of None \<Rightarrow> s1
                | Some sl \<Rightarrow> (fb_upd sl (\<lambda>f. f\<lparr>ws := ws_close (ws f)\<rparr>) s1)
                              \<lparr>websocketRef := None\<rparr>);
          s4 = s3\<lparr>videoRef := map_option (\<lambda>v. v\<lparr>srcObject := None, src := []\<rparr>) (videoRef s3)\<rparr>
      in s4\<lparr>isConnected := False, isConnecting := False, error := None, viewerCount := 0\<rparr>)"

text \<open>What the second \<open>catch\<close> of \<open>connectToStream\<close> does when the promise of
  \<open>connectWebSocket\<close> is rejected.\<close>

definition catch_wsError_sv :: "viewer \<Rightarrow> viewer" where
  "catch_wsError_sv s =
     s\<lparr>error := Some ''Failed to connect to stream. Please check the Broadcast ID and try again.'',
       isConnecting := False\<rparr>"

text \<open>\<open>connectWebSocket\<close>: a new socket to the stream address of the id as entered, held
  in \<open>websocketRef\<close>. There is no timer. When the constructor throws, the \<open>catch\<close>
  rejects the promise at once and no socket exists.\<close>

definition connectWebSocket_sv :: "nat option \<Rightarrow> string \<Rightarrow> viewer \<Rightarrow> viewer" where
  "connectWebSocket_sv owner bid s =
     (case new_WebSocket (pageSecure s)
             (getWebSocketUrl (hostname s) 8081 (''/stream/'' @ bid)) of
        Inl e \<Rightarrow> catch_wsError_sv s
      | Inr w \<Rightarrow>
          (case owner of
             Some a \<Rightarrow>
               (att_upd a (\<lambda>x. x\<lparr>fallback :=
                   Some \<lparr>ws = w, wsTimeout = None, wsPromise = Pending\<rparr>\<rparr>) s)
               \<lparr>websocketRef := Some (OfAttempt a)\<rparr>
           | None \<Rightarrow>
               s\<lparr>lones := lones s @ [\<lparr>ws = w, wsTimeout = None, wsPromise = Pending\<rparr>],
                 websocketRef := Some (Lone (length (lones s)))\<rparr>))"

definition resolve_connectWebSocket_sv :: "slot \<Rightarrow> viewer \<Rightarrow> viewer" where
  "resolve_connectWebSocket_sv sl s =
     (if ws_pending sl s then fb_upd sl (\<lambda>f. f\<lparr>wsPromise := Fulfilled\<rparr>) s else s)"

definition reject_connectWebSocket_sv :: "slot \<Rightarrow> string \<Rightarrow> viewer \<Rightarrow> viewer" where
  "reject_connectWebSocket_sv sl reason s =
     (if ws_pending sl s
      then catch_wsError_sv (fb_upd sl (\<lambda>f. f\<lparr>wsPromise := Rejected reason\<rparr>) s)
      else s)"

definition resolve_connectWebRTC_sv :: "nat \<Rightarrow> viewer \<Rightarrow> viewer" where
  "resolve_connectWebRTC_sv a s =
     (if webrtc (attempts s ! a) = Pending
      then att_upd a (\<lambda>x. x\<lparr>webrtc := Fulfilled\<rparr>) s
      else s)"

definition reject_connectWebRTC_sv :: "nat \<Rightarrow> string \<Rightarrow> viewer \<Rightarrow> viewer" where
  "reject_connectWebRTC_sv a reason s =
     (if webrtc (attempts s ! a) = Pending
      then connectWebSocket_sv (Some a) (broadcastId_c (attempts s ! a))
             (att_upd a (\<lambda>x. x\<lparr>webrtc := Rejected reason\<rparr>) s)
      else s)"

text \<open>\<open>connectWebRTC\<close>: a new signaling socket and a new peer connection, the latter
  held in \<open>peerConnectionRef\<close>. No timer is set. When the socket's constructor throws,
  the \<open>catch\<close> rejects the promise before a peer connection is made, and
  \<open>connectToStream\<close> goes on to \<open>connectWebSocket\<close>.\<close>

definition connectWebRTC_sv :: "viewer \<Rightarrow> viewer" where
  "connectWebRTC_sv s =
     (case new_WebSocket (pageSecure s)
             (getWebSocketUrl (hostname s) 8080 (''/signaling/viewer/'' @ broadcastId s)) of
        Inl e \<Rightarrow> connectWebSocket_sv None (broadcastId s) s
      | Inr w \<Rightarrow>
          s\<lparr>attempts := attempts s @
               [\<lparr>broadcastId_c = broadcastId s, isConnected_c = isConnected s,
                 signalingWs = w,
                 connectionTimeout = None,
                 peerConnection = new_RTCPeerConnection,
                 webrtc = Pending, fallback = None\<rparr>],
            peerConnectionRef := Some (length (attempts s))\<rparr>)"

definition connectToStream_sv :: "viewer \<Rightarrow> viewer" where
  "connectToStream_sv s =
     (if trim (broadcastId s) = [] then s\<lparr>error := Some ''Please enter a valid Broadcast ID''\<rparr>
      else connectWebRTC_sv (s\<lparr>isConnecting := True, error := None\<rparr>))"

text \<open>The handlers of the signaling socket. The second assignment to \<open>onopen\<close> replaces
  the first, which only logs.\<close>

definition signalingWs_onopen_sv :: "nat \<Rightarrow> viewer \<Rightarrow> viewer" where
  "signalingWs_onopen_sv a s =
     att_upd a (\<lambda>x. x\<lparr>signalingWs := send (JoinStream (broadcastId_c x)) (signalingWs x)\<rparr>) s"

definition signalingWs_onerror_sv :: "nat \<Rightarrow> viewer \<Rightarrow> viewer" where
  "signalingWs_onerror_sv a s = reject_connectWebRTC_sv a ''Signaling connection failed'' s"

text \<open>
  The message handler parses outside any \<open>try\<close>: a text that is not JSON throws out of
  the handler and changes nothing. A candidate message calls \<open>addIceCandidate\<close> at once
  with whatever the message holds. There is no case for \<open>stream-not-found\<close>.
\<close>

definition signalingWs_onmessage_sv :: "nat \<Rightarrow> sig_msg \<Rightarrow> viewer \<Rightarrow> viewer" where
  "signalingWs_onmessage_sv a m s =
     (case m of
        Offer offer \<Rightarrow>
          (if pc_closed (peerConnection (attempts s ! a))
           then att_upd a (\<lambda>x. x\<lparr>peerConnection :=
                                    pc_call (SetRemoteDescription offer) (peerConnection x)\<rparr>) s
           else att_upd a (\<lambda>x. x\<lparr>peerConnection :=
                                    pc_call (SetLocalDescription (AnswerTo offer))
                                      (pc_call CreateAnswer
                                        (pc_call (SetRemoteDescription offer) (peerConnection x))),
                                  signalingWs := send (AnswerMsg (AnswerTo offer) (broadcastId_c x))
                                                   (signalingWs x)\<rparr>) s)
      | IceCandidate c \<Rightarrow>
          att_upd a (\<lambda>x. x\<lparr>peerConnection := pc_call (AddIceCandidate c) (peerConnection x)\<rparr>) s
      | StreamInfo v q \<Rightarrow> s\<lparr>viewerCount := orZero v, streamQuality := orElse q ''HD''\<rparr>
      | ErrorMsg msg \<Rightarrow> reject_connectWebRTC_sv a (orElse msg ''Stream connection failed'') s
      | StreamEnded \<Rightarrow> disconnect_sv (s\<lparr>error := Some ''Stream has ended''\<rparr>)
      | StreamNotFound \<Rightarrow> s
      | OtherType \<Rightarrow> s
      | NotJson \<Rightarrow> s)"

text \<open>The handlers of the peer connection.\<close>

definition ontrack_sv :: "nat \<Rightarrow> nat option \<Rightarrow> viewer \<Rightarrow> viewer" where
  "ontrack_sv a stream s =
     (case (videoRef s, stream) of
        (Some v, Some st) \<Rightarrow>
          resolve_connectWebRTC_sv a
            (s\<lparr>videoRef := Some (v\<lparr>srcObject := Some st\<rparr>),
               isConnected := True, isConnecting := False\<rparr>)
      | _ \<Rightarrow> s)"

definition onicecandidate_sv :: "nat \<Rightarrow> cand option \<Rightarrow> viewer \<Rightarrow> viewer" where
  "onicecandidate_sv a c s =
     (case c of
        None \<Rightarrow> s
      | Some candidate \<Rightarrow>
          att_upd a (\<lambda>x. x\<lparr>signalingWs :=
                              send (IceCandidateMsg candidate (broadcastId_c x)) (signalingWs x)\<rparr>) s)"

definition onconnectionstatechange_sv :: "nat \<Rightarrow> pc_state \<Rightarrow> viewer \<Rightarrow> viewer" where
  "onconnectionstatechange_sv a st s =
     (if st = PcFailed then reject_connectWebRTC_sv a ''WebRTC connection failed'' s else s)"

text \<open>The handlers of the fallback socket.\<close>

definition ws_onopen_sv :: "slot \<Rightarrow> viewer \<Rightarrow> viewer" where
  "ws_onopen_sv a s =
     resolve_connectWebSocket_sv a (s\<lparr>isConnected := True, isConnecting := False\<rparr>)"

definition ws_onmessage_sv :: "slot \<Rightarrow> ws_data \<Rightarrow> viewer \<Rightarrow> viewer" where
  "ws_onmessage_sv a d s =
     (case d of
        Blob u \<Rightarrow> (case videoRef s of None \<Rightarrow> s | Some v \<Rightarrow> s\<lparr>videoRef := Some (v\<lparr>src := u\<rparr>)\<rparr>)
      | Text m \<Rightarrow>
          (case m of
             StreamInfo v q \<Rightarrow> s\<lparr>viewerCount := orZero v, streamQuality := orElse q ''HD''\<rparr>
           | ErrorMsg msg \<Rightarrow>
               reject_connectWebSocket_sv a (case msg of None \<Rightarrow> [] | Some t \<Rightarrow> t)
                 (s\<lparr>error := msg\<rparr>)
           | _ \<Rightarrow> s))"

definition ws_onerror_sv :: "slot \<Rightarrow> viewer \<Rightarrow> viewer" where
  "ws_onerror_sv a s = reject_connectWebSocket_sv a ''WebSocket connection failed'' s"

definition ws_onclose_sv :: "slot \<Rightarrow> nat \<Rightarrow> viewer \<Rightarrow> viewer" where
  "ws_onclose_sv a code s = s\<lparr>isConnected := False, error := Some ''Connection lost''\<rparr>"

text \<open>The error handler of the video element.\<close>

definition video_onerror_sv :: "viewer \<Rightarrow> viewer" where
  "video_onerror_sv s = s\<lparr>error := Some ''Video playback error''\<rparr>"

text \<open>The view. The connection form, with the input and the connect button, is shown
  only while not connected; the retry button of the error panel disconnects.\<close>

definition click_connect_sv :: "viewer \<Rightarrow> viewer" where
  "click_connect_sv s =
     (if \<not> isConnected s \<and> \<not> (isConnecting s \<or> trim (broadcastId s) = [])
      then connectToStream_sv s else s)"

definition click_disconnect_sv :: "viewer \<Rightarrow> viewer" where
  "click_disconnect_sv s = (if isConnected s then disconnect_sv s else s)"

definition click_try_again_sv :: "viewer \<Rightarrow> viewer" where
  "click_try_again_sv s = (if truthy (error s) then disconnect_sv (s\<lparr>error := None\<rparr>) else s)"

text \<open>One turn of the event loop. This component sets no timer and has no handler for
  the closing of the signaling socket or for the enter key. Unmounting detaches the
  video element from \<open>videoRef\<close> before the cleanup runs \<open>disconnect\<close>.\<close>

fun step_sv :: "event \<Rightarrow> viewer \<Rightarrow> viewer" where
  "step_sv (SigOpen a) s =
     (if a < length (attempts s) then signalingWs_onopen_sv a (set_signaling a OPEN s) else s)"
| "step_sv (SigError a) s =
     (if a < length (attempts s) then signalingWs_onerror_sv a (set_signaling a CLOSED s) else s)"
| "step_sv (SigTimeout a) s = s"
| "step_sv (SigMessage a m) s =
     (if a < length (attempts s) then signalingWs_onmessage_sv a m s else s)"
| "step_sv (SigClose a) s =
     (if a < length (attempts s) then set_signaling a CLOSED s else s)"
| "step_sv (Track a stream) s =
     (if a < length (attempts s) then ontrack_sv a stream s else s)"
| "step_sv (LocalCandidate a c) s =
     (if a < length (attempts s) then onicecandidate_sv a c s else s)"
| "step_sv (ConnectionStateChange a st) s =
     (if a < length (attempts s) then onconnectionstatechange_sv a st s else s)"
| "step_sv (WsOpen a) s = (if has_ws a s then ws_onopen_sv a (set_ws a OPEN s) else s)"
| "step_sv (WsError a) s = (if has_ws a s then ws_onerror_sv a (set_ws a CLOSED s) else s)"
| "step_sv (WsTimeout a) s = s"
| "step_sv (WsMessage a d) s = (if has_ws a s then ws_onmessage_sv a d s else s)"
| "step_sv (WsClose a code) s =
     (if has_ws a s then ws_onclose_sv a code (set_ws a CLOSED s) else s)"
| "step_sv VideoError s = (if videoRef s \<noteq> None then video_onerror_sv s else s)"
| "step_sv (Input v) s = (if isConnected s \<or> isConnecting s then s else setBroadcastId v s)"
| "step_sv ClickConnect s = click_connect_sv s"
| "step_sv ClickDisconnect s = click_disconnect_sv s"
| "step_sv ClickTryAgain s = click_try_again_sv s"
| "step_sv KeyEnter s = s"
| "step_sv Unmount s = disconnect_sv (s\<lparr>videoRef := None\<rparr>)"

fun run_sv :: "event list \<Rightarrow> viewer \<Rightarrow> viewer" where
  "run_sv [] s = s"
| "run_sv (e # es) s = run_sv es (step_sv e s)"

subsection \<open>States used as examples\<close>

text \<open>\<open>StreamViewer\<close> just after a click on the connect button, and \<open>WebcamViewer\<close>
  connected through the fallback socket after its signaling socket failed.\<close>

definition connecting_sv :: viewer where
  "connecting_sv = run_sv [Input ''A'', ClickConnect] viewer_init"

definition fallback_connected_wv :: viewer where
  "fallback_connected_wv =
     run_wv [Input ''A'', ClickConnect, SigError 0, WsOpen (OfAttempt 0)] viewer_init"

text \<open>\<open>WebcamViewer\<close> after both transports failed to open, and \<open>StreamViewer\<close>
  connected through the fallback socket and then disconnected by the user.\<close>

definition both_failed_wv :: viewer where
  "both_failed_wv =
     run_wv [Input ''A'', ClickConnect, SigError 0, WsError (OfAttempt 0)] viewer_init"

definition user_disconnected_sv :: viewer where
  "user_disconnected_sv =
     run_sv [Input ''A'', ClickConnect, SigError 0, WsOpen (OfAttempt 0), ClickDisconnect]
       viewer_init"

text \<open>The messages the two viewers show when both transports failed.\<close>

definition unable_wv :: string where
  "unable_wv = ''Unable to connect to stream. Please check the Broadcast ID and ensure the broadcaster is active.''"

definition failed_sv :: string where
  "failed_sv = ''Failed to connect to stream. Please check the Broadcast ID and try again.''"

text \<open>\<open>WebcamViewer\<close> after both timers fired, and the viewers after the user entered an
  id with spaces around it.\<close>

definition both_timed_out_wv :: viewer where
  "both_timed_out_wv =
     run_wv [Input ''A'', ClickConnect, SigTimeout 0, WsTimeout (OfAttempt 0)] viewer_init"

definition entered :: viewer where
  "entered = setBroadcastId '' A '' viewer_init"

text \<open>\<open>WebcamViewer\<close> with a negotiation whose peer connection has failed, and
  connected over the peer connection.\<close>

definition ice_failed_wv :: viewer where
  "ice_failed_wv =
     run_wv [Input ''A'', ClickConnect, SigOpen 0, SigMessage 0 (Offer ''o''),
             ConnectionStateChange 0 PcConnecting, ConnectionStateChange 0 PcFailed] viewer_init"

definition webrtc_connected_wv :: viewer where
  "webrtc_connected_wv =
     run_wv [Input ''A'', ClickConnect, SigOpen 0, SigMessage 0 (Offer ''o''),
             Track 0 (Some 1), ConnectionStateChange 0 PcConnected] viewer_init"

definition webrtc_connected_sv :: viewer where
  "webrtc_connected_sv =
     run_sv [Input ''A'', ClickConnect, SigOpen 0, SigMessage 0 (Offer ''o''),
             Track 0 (Some 1)] viewer_init"

text \<open>One call of \<open>connectToStream\<close> for the id \<open>A\<close>, and two calls in a row, for the
  ids \<open>A\<close> and then \<open>B\<close>.\<close>

definition connect_once_wv :: "string \<Rightarrow> viewer" where
  "connect_once_wv A = connectToStream_wv (setBroadcastId A viewer_init)"

definition connect_once_sv :: "string \<Rightarrow> viewer" where
  "connect_once_sv A = connectToStream_sv (setBroadcastId A viewer_init)"

definition connect_twice_wv :: "string \<Rightarrow> string \<Rightarrow> viewer" where
  "connect_twice_wv A B =
     connectToStream_wv (setBroadcastId B (connectToStream_wv (setBroadcastId A viewer_init)))"

definition connect_twice_sv :: "string \<Rightarrow> string \<Rightarrow> viewer" where
  "connect_twice_sv A B =
     connectToStream_sv (setBroadcastId B (connectToStream_sv (setBroadcastId A viewer_init)))"

text \<open>The connection state a viewer displays, the attempt whose transport, timer or
  promise an event belongs to, and the place of the fallback socket of an event.\<close>

definition display ::
  "viewer \<Rightarrow> bool \<times> bool \<times> string option \<times> int \<times> string \<times> string option \<times> video option" where
  "display s =
     (isConnecting s, isConnected s, error s, viewerCount s, streamQuality s,
      connectionType s, videoRef s)"

fun owner :: "event \<Rightarrow> nat option" where
  "owner (SigOpen a) = Some a"
| "owner (SigError a) = Some a"
| "owner (SigTimeout a) = Some a"
| "owner (SigMessage a m) = Some a"
| "owner (SigClose a) = Some a"
| "owner (Track a st) = Some a"
| "owner (LocalCandidate a c) = Some a"
| "owner (ConnectionStateChange a st) = Some a"
| "owner (WsOpen (OfAttempt a)) = Some a"
| "owner (WsError (OfAttempt a)) = Some a"
| "owner (WsTimeout (OfAttempt a)) = Some a"
| "owner (WsMessage (OfAttempt a) d) = Some a"
| "owner (WsClose (OfAttempt a) code) = Some a"
| "owner e = None"

fun ws_slot :: "event \<Rightarrow> slot option" where
  "ws_slot (WsOpen sl) = Some sl"
| "ws_slot (WsError sl) = Some sl"
| "ws_slot (WsTimeout sl) = Some sl"
| "ws_slot (WsMessage sl d) = Some sl"
| "ws_slot (WsClose sl code) = Some sl"
| "ws_slot e = None"

text \<open>What the handlers of an attempt read of their own closure when they decide what to
  write to the displayed state: the id and the flag they captured, the timers and the
  promises, and whether the fallback socket exists.\<close>

definition closure_of :: "attempt \<Rightarrow>
    string \<times> bool \<times> nat option \<times> promise \<times> bool \<times> nat option option \<times> promise option" where
  "closure_of x =
     (broadcastId_c x, isConnected_c x, connectionTimeout x, webrtc x, fallback x \<noteq> None,
      map_option wsTimeout (fallback x), map_option wsPromise (fallback x))"

text \<open>Two states in which attempt \<open>a\<close> exists and which agree on the page, on what is
  displayed and on what the handlers of attempt \<open>a\<close> read of their closure. The other
  attempts, the refs and the transports may differ.\<close>

definition same_for :: "nat \<Rightarrow> viewer \<Rightarrow> viewer \<Rightarrow> bool" where
  "same_for a s t \<longleftrightarrow>
     a < length (attempts s) \<and> a < length (attempts t) \<and>
     hostname s = hostname t \<and> pageSecure s = pageSecure t \<and>
     display s = display t \<and>
     closure_of (attempts s ! a) = closure_of (attempts t ! a)"

text \<open>The candidates handed to \<open>addIceCandidate\<close> in a list of calls, and the candidates
  that a list of signaling messages makes each viewer hand over.\<close>

fun ice_calls :: "pc_call list \<Rightarrow> cand option list" where
  "ice_calls [] = []"
| "ice_calls (AddIceCandidate c # cs) = c # ice_calls cs"
| "ice_calls (x # cs) = ice_calls cs"

fun candidates_wv :: "sig_msg list \<Rightarrow> cand option list" where
  "candidates_wv [] = []"
| "candidates_wv (IceCandidate (Some c) # ms) = Some c # candidates_wv ms"
| "candidates_wv (m # ms) = candidates_wv ms"

fun candidates_sv :: "sig_msg list \<Rightarrow> cand option list" where
  "candidates_sv [] = []"
| "candidates_sv (IceCandidate c # ms) = c # candidates_sv ms"
| "candidates_sv (m # ms) = candidates_sv ms"

section \<open>Properties of the broker client wrapper and the control page\<close>

lemma client_on_inv:
  "library_order online (e # es) \<Longrightarrow> reach_inv online h \<Longrightarrow>
   \<exists>online'. library_order online' es \<and> reach_inv online' (client_on e h)"
proof (cases e)
  case OnConnect
  assume "library_order online (e # es)" "reach_inv online h"
  with OnConnect have "library_order True es \<and> reach_inv True (client_on e h)"
    by (simp add: reach_inv_def)
  then show ?thesis by blast
next
  case OnOffline
  assume "library_order online (e # es)" "reach_inv online h"
  with OnOffline have "library_order False es \<and> reach_inv False (client_on e h)"
    by (simp add: reach_inv_def)
  then show ?thesis by blast
next
  case OnReconnect
  assume "library_order online (e # es)" "reach_inv online h"
  with OnReconnect have "library_order online es \<and> reach_inv online (client_on e h)"
    by (auto simp add: reach_inv_def)
  then show ?thesis by blast
next
  case (OnMessage t m ts)
  assume "library_order online (e # es)" "reach_inv online h"
  with OnMessage have "library_order online es \<and> reach_inv online (client_on e h)"
    by (simp add: reach_inv_def)
  then show ?thesis by blast
next
  case (OnError m)
  assume "library_order online (e # es)" "reach_inv online h"
  with OnError have "library_order online es \<and> reach_inv online (client_on e h)"
    by (simp add: reach_inv_def)
  then show ?thesis by blast
next
  case OnDisconnect
  assume "library_order online (e # es)" "reach_inv online h"
  with OnDisconnect have "library_order online es \<and> reach_inv online (client_on e h)"
    by (simp add: reach_inv_def)
  then show ?thesis by blast
next
  case OnClose
  assume "library_order online (e # es)" "reach_inv online h"
  with OnClose have "library_order online es \<and> reach_inv online (client_on e h)"
    by simp
  then show ?thesis by blast
qed

lemma client_run_inv:
  "library_order online es \<Longrightarrow> reach_inv online h \<Longrightarrow>
   \<exists>online'. reach_inv online' (client_run es h)"
proof (induction es arbitrary: online h)
  case Nil
  then show ?case by auto
next
  case (Cons e es)
  from client_on_inv [OF Cons.prems] obtain online'
    where "library_order online' es" "reach_inv online' (client_on e h)" by blast
  from Cons.IH [OF this] show ?case by simp
qed

lemma connectToMQTT_inv: "reach_inv False (connectToMQTT t hook_init)"
  by (simp add: reach_inv_def connectToMQTT_def hook_init_def useState_init_def split: option.splits)

text \<open>
  Claim C6. For every topic and payload, \<open>publishMessage\<close> publishes and returns
  \<open>True\<close> when the hook holds a client and is connected, and otherwise publishes
  nothing and returns \<open>False\<close>; no path throws. After any events in the library's
  order, starting from the mounted hook, it publishes exactly when the status is
  \<open>Connected\<close>: in particular it returns \<open>False\<close> while \<open>Reconnecting\<close>.
\<close>

theorem publishMessage_only_when_connected:
  "publishMessage h topic message =
     (if mqtt_client (state h) \<and> mqtt_isConnected (state h)
      then (True, h\<lparr>published := published h @ [(topic, message, 1)]\<rparr>) else (False, h))
   \<and> (library_order False es \<longrightarrow>
        (let r = client_run es (connectToMQTT t hook_init)
         in publishMessage r topic message =
              (if mqtt_connectionStatus (state r) = Connected
               then (True, r\<lparr>published := published r @ [(topic, message, 1)]\<rparr>)
               else (False, r))))"
proof (intro conjI impI)
  show "publishMessage h topic message =
     (if mqtt_client (state h) \<and> mqtt_isConnected (state h)
      then (True, h\<lparr>published := published h @ [(topic, message, 1)]\<rparr>) else (False, h))"
    by (simp add: publishMessage_def)
next
  assume "library_order False es"
  then obtain online' where "reach_inv online' (client_run es (connectToMQTT t hook_init))"
    using client_run_inv connectToMQTT_inv by blast
  then show "let r = client_run es (connectToMQTT t hook_init)
         in publishMessage r topic message =
              (if mqtt_connectionStatus (state r) = Connected
               then (True, r\<lparr>published := published r @ [(topic, message, 1)]\<rparr>)
               else (False, r))"
    by (auto simp add: Let_def publishMessage_def reach_inv_def)
qed

text \<open>The hook after a connection, its loss and the first retry: the status is
  \<open>Reconnecting\<close> and a publish returns \<open>False\<close> and sends nothing.\<close>

theorem publishMessage_only_when_connected_witness:
  "library_order False [OnConnect, OnClose, OnOffline, OnReconnect]
   \<and> mqtt_connectionStatus (state (client_run [OnConnect, OnClose, OnOffline, OnReconnect]
        (connectToMQTT None hook_init))) = Reconnecting
   \<and> fst (publishMessage (client_run [OnConnect, OnClose, OnOffline, OnReconnect]
        (connectToMQTT None hook_init)) ''userxyz/device/control/left'' ''1'') = False
   \<and> published (snd (publishMessage (client_run [OnConnect, OnClose, OnOffline, OnReconnect]
        (connectToMQTT None hook_init)) ''userxyz/device/control/left'' ''1'')) = []"
  using publishMessage_only_when_connected
    [of "client_run [OnConnect, OnClose, OnOffline, OnReconnect] (connectToMQTT None hook_init)"
        "''userxyz/device/control/left''" "''1''"
        "[OnConnect, OnClose, OnOffline, OnReconnect]" None]
  by (simp add: Let_def connectToMQTT_def hook_init_def useState_init_def)

lemma switch_control:
  "switch (''userxyz/device/control/'' @ d, ''1'', q) S = insert d S"
  "switch (''userxyz/device/control/'' @ d, ''0'', q) S = S - {d}"
  "switch (''userxyz/device/cam/capture'', v, q) S = S"
  by (simp_all add: switch_def control_of_def)

lemma switched_on_snoc: "switched_on (log @ [m]) = switch m (switched_on log)"
  by (simp add: switched_on_def)

lemma page_step_switched:
  assumes "activeControls p = switched_on (published (mqtt p))"
  shows "activeControls (page_step e p) = switched_on (published (mqtt (page_step e p)))"
proof (cases e)
  case (Press d)
  with assms show ?thesis
    by (simp add: handleControlPress_def publishMessage_def Let_def switched_on_snoc
        switch_control [simplified])
next
  case (Release d)
  with assms show ?thesis
    by (simp add: handleControlRelease_def publishMessage_def Let_def switched_on_snoc
        switch_control [simplified])
next
  case Capture
  with assms show ?thesis
    by (simp add: handleCapture_def publishMessage_def switched_on_snoc
        switch_control [simplified])
next
  case (Broker b)
  with assms show ?thesis by (cases b) (simp_all add: page_on_def)
qed

lemma page_run_switched:
  "activeControls p = switched_on (published (mqtt p)) \<Longrightarrow>
   activeControls (page_run es p) = switched_on (published (mqtt (page_run es p)))"
proof (induction es arbitrary: p)
  case Nil
  then show ?case by simp
next
  case (Cons e es)
  from Cons.IH [OF page_step_switched [OF Cons.prems]] show ?case by simp
qed

lemma page_init_switched:
  "activeControls (page_init\<lparr>mqtt := connectToMQTT t hook_init\<rparr>)
     = switched_on (published (mqtt (page_init\<lparr>mqtt := connectToMQTT t hook_init\<rparr>)))"
  by (simp add: page_init_def connectToMQTT_def hook_init_def switched_on_def split: option.splits)

text \<open>
  Claim C10. A control press hands the payload \<open>1\<close> on the direction's control topic to
  the broker client and adds the direction to the active set when the hook holds a
  client and is connected, which is when \<open>publishMessage\<close> returns \<open>True\<close>; otherwise it
  publishes nothing and leaves the page as it is. A release does the same with the
  payload \<open>0\<close> and removes the direction: while the broker is not connected it neither
  publishes \<open>0\<close> nor clears the direction. So after any presses, releases, captures and
  broker events, whether or not the client could be created, the active set is exactly
  the set of directions that the published control messages leave switched on.
\<close>

theorem activeControls_change_only_on_publish:
  "handleControlPress d p =
     (if mqtt_client (state (mqtt p)) \<and> mqtt_isConnected (state (mqtt p))
      then p\<lparr>mqtt := (mqtt p)\<lparr>published := published (mqtt p) @
                 [(''userxyz/device/control/'' @ d, ''1'', 1)]\<rparr>,
             activeControls := insert d (activeControls p)\<rparr>
      else p)
   \<and> handleControlRelease d p =
     (if mqtt_client (state (mqtt p)) \<and> mqtt_isConnected (state (mqtt p))
      then p\<lparr>mqtt := (mqtt p)\<lparr>published := published (mqtt p) @
                 [(''userxyz/device/control/'' @ d, ''0'', 1)]\<rparr>,
             activeControls := activeControls p - {d}\<rparr>
      else p)
   \<and> fst (publishMessage (mqtt p) topic payload)
       = (mqtt_client (state (mqtt p)) \<and> mqtt_isConnected (state (mqtt p)))
   \<and> activeControls (page_run es (page_init\<lparr>mqtt := connectToMQTT t hook_init\<rparr>))
       = switched_on (published (mqtt
           (page_run es (page_init\<lparr>mqtt := connectToMQTT t hook_init\<rparr>))))"
proof (intro conjI)
  show "handleControlPress d p =
     (if mqtt_client (state (mqtt p)) \<and> mqtt_isConnected (state (mqtt p))
      then p\<lparr>mqtt := (mqtt p)\<lparr>published := published (mqtt p) @
                 [(''userxyz/device/control/'' @ d, ''1'', 1)]\<rparr>,
             activeControls := insert d (activeControls p)\<rparr>
      else p)"
    by (simp add: handleControlPress_def publishMessage_def Let_def)
  show "handleControlRelease d p =
     (if mqtt_client (state (mqtt p)) \<and> mqtt_isConnected (state (mqtt p))
      then p\<lparr>mqtt := (mqtt p)\<lparr>published := published (mqtt p) @
                 [(''userxyz/device/control/'' @ d, ''0'', 1)]\<rparr>,
             activeControls := activeControls p - {d}\<rparr>
      else p)"
    by (simp add: handleControlRelease_def publishMessage_def Let_def)
  show "fst (publishMessage (mqtt p) topic payload)
       = (mqtt_client (state (mqtt p)) \<and> mqtt_isConnected (state (mqtt p)))"
    by (simp add: publishMessage_def)
  show "activeControls (page_run es (page_init\<lparr>mqtt := connectToMQTT t hook_init\<rparr>))
       = switched_on (published (mqtt
           (page_run es (page_init\<lparr>mqtt := connectToMQTT t hook_init\<rparr>))))"
    by (rule page_run_switched [OF page_init_switched])
qed

text \<open>A control pressed while connected and released after the broker went offline
  stays active, and the only message handed to the broker client is the press.\<close>

theorem activeControls_change_only_on_publish_witness:
  "handleControlRelease ''forward'' pressed_then_offline = pressed_then_offline
   \<and> handleControlPress ''left'' pressed_then_offline = pressed_then_offline
   \<and> activeControls (page_run [Broker OnConnect, Press ''forward'', Broker OnOffline,
         Release ''forward''] page_init) = {''forward''}
   \<and> published (mqtt (page_run [Broker OnConnect, Press ''forward'', Broker OnOffline,
         Release ''forward''] page_init)) = [(''userxyz/device/control/forward'', ''1'', 1)]
   \<and> switched_on [(''userxyz/device/control/forward'', ''1'', 1)] = {''forward''}
   \<and> activeControls (page_run [Broker OnConnect, Press ''forward'', Release ''forward'']
         page_init) = {}
   \<and> published (mqtt (page_run [Broker OnConnect, Press ''forward'', Release ''forward'']
         page_init))
       = [(''userxyz/device/control/forward'', ''1'', 1),
          (''userxyz/device/control/forward'', ''0'', 1)]"
proof -
  have i: "page_init\<lparr>mqtt := connectToMQTT None hook_init\<rparr> = page_init"
    by (simp add: page_init_def)
  have o: "\<not> (mqtt_client (state (mqtt pressed_then_offline)) \<and>
       mqtt_isConnected (state (mqtt pressed_then_offline)))"
    by (simp add: pressed_then_offline_def page_on_def page_init_def handleControlPress_def
      publishMessage_def connectToMQTT_def hook_init_def useState_init_def Let_def)
  have p1: "published (mqtt (page_run [Broker OnConnect, Press ''forward'', Broker OnOffline,
         Release ''forward''] page_init)) = [(''userxyz/device/control/forward'', ''1'', 1)]"
    by (simp add: page_on_def page_init_def handleControlPress_def handleControlRelease_def
      publishMessage_def connectToMQTT_def hook_init_def useState_init_def Let_def)
  have p2: "published (mqtt (page_run [Broker OnConnect, Press ''forward'', Release ''forward'']
         page_init))
       = [(''userxyz/device/control/forward'', ''1'', 1),
          (''userxyz/device/control/forward'', ''0'', 1)]"
    by (simp add: page_on_def page_init_def handleControlPress_def handleControlRelease_def
      publishMessage_def connectToMQTT_def hook_init_def useState_init_def Let_def)
  have s1: "switched_on [(''userxyz/device/control/forward'', ''1'', 1)] = {''forward''}"
    by (simp add: switched_on_def switch_def control_of_def)
  have s2: "switched_on [(''userxyz/device/control/forward'', ''1'', 1),
          (''userxyz/device/control/forward'', ''0'', 1)] = {}"
    by (simp add: switched_on_def switch_def control_of_def)
  from activeControls_change_only_on_publish [of "''forward''" pressed_then_offline _ _
      "[Broker OnConnect, Press ''forward'', Broker OnOffline, Release ''forward'']" None] o i p1 s1
  have a: "handleControlRelease ''forward'' pressed_then_offline = pressed_then_offline"
    "activeControls (page_run [Broker OnConnect, Press ''forward'', Broker OnOffline,
         Release ''forward''] page_init) = {''forward''}"
    by simp_all
  from activeControls_change_only_on_publish [of "''left''" pressed_then_offline _ _
      "[Broker OnConnect, Press ''forward'', Release ''forward'']" None] o i p2 s2
  have b: "handleControlPress ''left'' pressed_then_offline = pressed_then_offline"
    "activeControls (page_run [Broker OnConnect, Press ''forward'', Release ''forward'']
         page_init) = {}"
    by simp_all
  from a b p1 p2 s1 show ?thesis by simp
qed

section \<open>Properties of the stream viewers\<close>

text \<open>The addresses of the two sockets on the host of the example states.\<close>

lemma show_nat_ports: "show_nat 8080 = ''8080''" "show_nat 8081 = ''8081''"
  by (simp_all add: show_nat.simps digit_def)

lemma getWebSocketUrl_init:
  "getWebSocketUrl ''app--5173--local.webcontainer.io'' port path =
     ''ws://app--'' @ show_nat port @ ''--local.webcontainer.io'' @ path"
  by (simp add: getWebSocketUrl_def match_port_def isDigit_def)

lemma getWebSocketUrl_fragment [simp]:
  "CHR ''#'' \<in> set (getWebSocketUrl ''app--5173--local.webcontainer.io'' 8080 path)
     \<longleftrightarrow> CHR ''#'' \<in> set path"
  "CHR ''#'' \<in> set (getWebSocketUrl ''app--5173--local.webcontainer.io'' 8081 path)
     \<longleftrightarrow> CHR ''#'' \<in> set path"
  by (simp_all add: getWebSocketUrl_init show_nat_ports)

text \<open>The definitions a concrete run unfolds.\<close>

lemmas viewer_defs =
  viewer_init_def viewer_mount_def setBroadcastId_def click_connect_wv_def click_connect_sv_def
  connectToStream_wv_def connectToStream_sv_def connectWebRTC_wv_def
  connectWebRTC_sv_def connectWebSocket_wv_def connectWebSocket_sv_def
  catch_wsError_wv_def catch_wsError_sv_def
  reject_connectWebRTC_wv_def reject_connectWebRTC_sv_def
  reject_connectWebSocket_wv_def reject_connectWebSocket_sv_def
  resolve_connectWebRTC_wv_def resolve_connectWebRTC_sv_def
  resolve_connectWebSocket_wv_def resolve_connectWebSocket_sv_def
  signalingWs_onerror_wv_def signalingWs_onerror_sv_def signalingWs_onopen_wv_def
  signalingWs_onopen_sv_def ws_onerror_wv_def ws_onerror_sv_def ws_onopen_wv_def
  ws_onopen_sv_def ws_onclose_wv_def ws_onclose_sv_def set_signaling_def set_ws_def
  has_ws_def ws_pending_def ws_armed_def fb_get_def fb_upd_def
  att_upd_def trim_def isWhiteSpace_def new_WebSocket_def
  new_RTCPeerConnection_def getWebSocketUrl_init show_nat_ports send_def Let_def
  disconnect_wv_def
  disconnect_sv_def click_disconnect_wv_def click_disconnect_sv_def
  click_try_again_wv_def click_try_again_sv_def handleKeyPress_wv_def
  video_onerror_wv_def video_onerror_sv_def js_inc_def
  connectionTimeout_fired_wv_def wsTimeout_fired_wv_def signalingWs_onmessage_wv_def
  signalingWs_onmessage_sv_def signalingWs_onclose_wv_def ontrack_wv_def ontrack_sv_def
  onicecandidate_wv_def onicecandidate_sv_def onconnectionstatechange_wv_def
  onconnectionstatechange_sv_def ws_onmessage_wv_def ws_onmessage_sv_def ws_close_def
  ws_live_def pc_close_def pc_call_def truthy_def orElse_def orZero_def
  getStatusText_def live_transports_def live_of_def live_lone_def

lemmas example_defs = connecting_sv_def fallback_connected_wv_def both_failed_wv_def
  user_disconnected_sv_def both_timed_out_wv_def entered_def unable_wv_def failed_sv_def
  connect_twice_wv_def connect_twice_sv_def connect_once_wv_def connect_once_sv_def
  ice_failed_wv_def webrtc_connected_wv_def webrtc_connected_sv_def

text \<open>The definitions of the handlers, for a step from a state given in full.\<close>

lemmas step_defs =
  connectWebSocket_wv_def connectWebSocket_sv_def
  catch_wsError_wv_def catch_wsError_sv_def
  reject_connectWebRTC_wv_def reject_connectWebRTC_sv_def
  reject_connectWebSocket_wv_def reject_connectWebSocket_sv_def
  resolve_connectWebRTC_wv_def resolve_connectWebRTC_sv_def
  resolve_connectWebSocket_wv_def resolve_connectWebSocket_sv_def
  signalingWs_onerror_wv_def signalingWs_onerror_sv_def
  signalingWs_onopen_wv_def signalingWs_onopen_sv_def
  ws_onerror_wv_def ws_onerror_sv_def ws_onopen_wv_def ws_onopen_sv_def
  ws_onclose_wv_def ws_onclose_sv_def set_signaling_def set_ws_def has_ws_def
  ws_pending_def ws_armed_def fb_get_def fb_upd_def att_upd_def
  new_WebSocket_def send_def Let_def
  disconnect_wv_def disconnect_sv_def connectionTimeout_fired_wv_def wsTimeout_fired_wv_def
  signalingWs_onmessage_wv_def signalingWs_onmessage_sv_def signalingWs_onclose_wv_def
  ontrack_wv_def ontrack_sv_def onicecandidate_wv_def onicecandidate_sv_def
  onconnectionstatechange_wv_def onconnectionstatechange_sv_def
  ws_onmessage_wv_def ws_onmessage_sv_def ws_close_def pc_close_def pc_call_def
  video_onerror_wv_def video_onerror_sv_def

subsection \<open>Places of fallback sockets\<close>

lemma fb_get_upd: "fb_get sl (fb_upd sl f s) = map_option f (fb_get sl s)"
  by (cases sl) (auto simp add: fb_get_def fb_upd_def att_upd_def)

lemma fb_get_shared [simp]:
  "fb_get sl (s\<lparr>error := e\<rparr>) = fb_get sl s"
  "fb_get sl (s\<lparr>isConnecting := b\<rparr>) = fb_get sl s"
  "fb_get sl (s\<lparr>isConnected := b\<rparr>) = fb_get sl s"
  "fb_get sl (s\<lparr>connectionType := c\<rparr>) = fb_get sl s"
  "fb_get sl (s\<lparr>websocketRef := r\<rparr>) = fb_get sl s"
  by (cases sl; simp add: fb_get_def)+

lemma fb_upd_shared [simp]:
  "error (fb_upd sl f s) = error s"
  "isConnecting (fb_upd sl f s) = isConnecting s"
  "isConnected (fb_upd sl f s) = isConnected s"
  "connectionType (fb_upd sl f s) = connectionType s"
  "viewerCount (fb_upd sl f s) = viewerCount s"
  "streamQuality (fb_upd sl f s) = streamQuality s"
  "videoRef (fb_upd sl f s) = videoRef s"
  "hostname (fb_upd sl f s) = hostname s"
  "pageSecure (fb_upd sl f s) = pageSecure s"
  "length (attempts (fb_upd sl f s)) = length (attempts s)"
  by (cases sl; simp add: fb_upd_def att_upd_def)+

subsection \<open>When the constructor of a socket throws\<close>

lemma dropWhile_keeps: "x \<in> set xs \<Longrightarrow> \<not> P x \<Longrightarrow> x \<in> set (dropWhile P xs)"
  by (induction xs) auto

lemma trim_keeps: "\<not> isWhiteSpace x \<Longrightarrow> x \<in> set (trim b) \<longleftrightarrow> x \<in> set b"
proof
  assume "x \<in> set (trim b)"
  then have "x \<in> set (dropWhile isWhiteSpace (rev (dropWhile isWhiteSpace b)))"
    by (simp add: trim_def)
  then have "x \<in> set (dropWhile isWhiteSpace b)" using set_dropWhileD by fastforce
  then show "x \<in> set b" by (rule set_dropWhileD)
next
  assume "\<not> isWhiteSpace x" "x \<in> set b"
  then have "x \<in> set (rev (dropWhile isWhiteSpace b))" by (simp add: dropWhile_keeps)
  with \<open>\<not> isWhiteSpace x\<close> show "x \<in> set (trim b)" by (simp add: trim_def dropWhile_keeps)
qed

lemma fragment_trim: "CHR ''#'' \<in> set (trim b) \<longleftrightarrow> CHR ''#'' \<in> set b"
  by (rule trim_keeps) (simp add: isWhiteSpace_def)

lemma replace_port_keeps:
  "x \<notin> set r \<Longrightarrow> x \<notin> set r' \<Longrightarrow>
   x \<in> set (replace_port h r) \<longleftrightarrow> x \<in> set (replace_port h r')"
  by (induction h) (auto split: option.splits)

lemma fragment_url:
  "CHR ''#'' \<in> set (getWebSocketUrl h 8080 (''/signaling/viewer/'' @ b))
     \<longleftrightarrow> CHR ''#'' \<in> set (getWebSocketUrl h 8081 (''/stream/'' @ trim b))"
proof -
  have "CHR ''#'' \<in> set (replace_port h (''--'' @ show_nat 8080 @ ''--''))
     \<longleftrightarrow> CHR ''#'' \<in> set (replace_port h (''--'' @ show_nat 8081 @ ''--''))"
    by (rule replace_port_keeps) (simp_all add: show_nat_ports)
  then show ?thesis by (simp add: getWebSocketUrl_def fragment_trim)
qed

text \<open>The two addresses differ in the port and the path only, so the constructor throws
  for the stream address exactly when it throws for the signaling address.\<close>

lemma constructor_throws_twice:
  "new_WebSocket secure (getWebSocketUrl h 8080 (''/signaling/viewer/'' @ b)) = Inl e \<longleftrightarrow>
   new_WebSocket secure (getWebSocketUrl h 8081 (''/stream/'' @ trim b)) = Inl e"
  using fragment_url [of h b] by (auto simp add: new_WebSocket_def)

lemma constructor_throws_twice_sv:
  "new_WebSocket secure (getWebSocketUrl h 8080 (''/signaling/viewer/'' @ b)) = Inl e \<longleftrightarrow>
   new_WebSocket secure (getWebSocketUrl h 8081 (''/stream/'' @ b)) = Inl e"
proof -
  have "CHR ''#'' \<in> set (replace_port h (''--'' @ show_nat 8080 @ ''--''))
     \<longleftrightarrow> CHR ''#'' \<in> set (replace_port h (''--'' @ show_nat 8081 @ ''--''))"
    by (rule replace_port_keeps) (simp_all add: show_nat_ports)
  then show ?thesis by (auto simp add: new_WebSocket_def getWebSocketUrl_def)
qed

lemma connect_throws_wv:
  assumes "trim (broadcastId s) \<noteq> []"
    and "new_WebSocket (pageSecure s)
           (getWebSocketUrl (hostname s) 8080 (''/signaling/viewer/'' @ broadcastId s)) = Inl e"
  shows "connectToStream_wv s =
           catch_wsError_wv (s\<lparr>isConnecting := True, error := None, connectionType := None\<rparr>)"
proof -
  from assms(2) have "new_WebSocket (pageSecure s)
      (getWebSocketUrl (hostname s) 8081 (''/stream/'' @ trim (broadcastId s))) = Inl e"
    by (rule iffD1 [OF constructor_throws_twice])
  with assms show ?thesis
    by (simp add: connectToStream_wv_def connectWebRTC_wv_def connectWebSocket_wv_def)
qed

lemma connect_throws_sv:
  assumes "trim (broadcastId s) \<noteq> []"
    and "new_WebSocket (pageSecure s)
           (getWebSocketUrl (hostname s) 8080 (''/signaling/viewer/'' @ broadcastId s)) = Inl e"
  shows "connectToStream_sv s = catch_wsError_sv (s\<lparr>isConnecting := True, error := None\<rparr>)"
proof -
  from assms(2) have "new_WebSocket (pageSecure s)
      (getWebSocketUrl (hostname s) 8081 (''/stream/'' @ broadcastId s)) = Inl e"
    by (rule iffD1 [OF constructor_throws_twice_sv])
  with assms show ?thesis
    by (simp add: connectToStream_sv_def connectWebRTC_sv_def connectWebSocket_sv_def)
qed

lemma connect_ok_wv:
  assumes "trim (broadcastId s) \<noteq> []"
    and "new_WebSocket (pageSecure s)
           (getWebSocketUrl (hostname s) 8080 (''/signaling/viewer/'' @ broadcastId s)) = Inr w"
  shows "attempts (connectToStream_wv s) = attempts s @
           [\<lparr>broadcastId_c = broadcastId s, isConnected_c = isConnected s, signalingWs = w,
             connectionTimeout = Some 10000, peerConnection = new_RTCPeerConnection,
             webrtc = Pending, fallback = None\<rparr>]
       \<and> isConnecting (connectToStream_wv s) \<and> error (connectToStream_wv s) = None"
  using assms by (simp add: connectToStream_wv_def connectWebRTC_wv_def)

lemma connect_ok_sv:
  assumes "trim (broadcastId s) \<noteq> []"
    and "new_WebSocket (pageSecure s)
           (getWebSocketUrl (hostname s) 8080 (''/signaling/viewer/'' @ broadcastId s)) = Inr w"
  shows "attempts (connectToStream_sv s) = attempts s @
           [\<lparr>broadcastId_c = broadcastId s, isConnected_c = isConnected s, signalingWs = w,
             connectionTimeout = None, peerConnection = new_RTCPeerConnection,
             webrtc = Pending, fallback = None\<rparr>]
       \<and> isConnecting (connectToStream_sv s) \<and> error (connectToStream_sv s) = None"
  using assms by (simp add: connectToStream_sv_def connectWebRTC_sv_def)

lemma connect_throws_status:
  assumes "trim (broadcastId s) \<noteq> []"
    and "new_WebSocket (pageSecure s)
           (getWebSocketUrl (hostname s) 8080 (''/signaling/viewer/'' @ broadcastId s)) = Inl x"
  shows "attempts (connectToStream_wv s) = attempts s \<and> lones (connectToStream_wv s) = lones s
       \<and> error (connectToStream_wv s) = Some unable_wv \<and> \<not> isConnecting (connectToStream_wv s)
       \<and> getStatusText (connectToStream_wv s) = StatusError"
    and "attempts (connectToStream_sv s) = attempts s \<and> lones (connectToStream_sv s) = lones s
       \<and> error (connectToStream_sv s) = Some failed_sv \<and> \<not> isConnecting (connectToStream_sv s)
       \<and> getStatusText (connectToStream_sv s) = StatusError"
  by (simp_all add: connect_throws_wv [OF assms] connect_throws_sv [OF assms]
      catch_wsError_wv_def catch_wsError_sv_def unable_wv_def failed_sv_def getStatusText_def
      truthy_def)

lemma new_WebSocket_url: "new_WebSocket secure u = Inr w \<Longrightarrow> url w = u"
  by (auto simp add: new_WebSocket_def split: if_splits)

subsection \<open>What \<open>disconnect\<close> does to an attempt\<close>

lemma disconnect_wv_attempt:
  "a < length (attempts s) \<Longrightarrow>
   attempts (disconnect_wv s) ! a =
     (let x = attempts s ! a;
          x1 = (if peerConnectionRef s = Some a
                then x\<lparr>peerConnection := pc_close (peerConnection x)\<rparr> else x);
          x2 = (if signalingWsRef s = Some a
                then x1\<lparr>signalingWs := ws_close (signalingWs x1)\<rparr> else x1)
      in if websocketRef s = Some (OfAttempt a)
         then x2\<lparr>fallback := map_option (\<lambda>f. f\<lparr>ws := ws_close (ws f)\<rparr>) (fallback x2)\<rparr>
         else x2)"
  by (simp add: disconnect_wv_def att_upd_def fb_upd_def Let_def nth_list_update
      split: option.splits slot.splits)

lemma disconnect_sv_attempt:
  "a < length (attempts s) \<Longrightarrow>
   attempts (disconnect_sv s) ! a =
     (let x = attempts s ! a;
          x1 = (if peerConnectionRef s = Some a
                then x\<lparr>peerConnection := pc_close (peerConnection x)\<rparr> else x)
      in if websocketRef s = Some (OfAttempt a)
         then x1\<lparr>fallback := map_option (\<lambda>f. f\<lparr>ws := ws_close (ws f)\<rparr>) (fallback x1)\<rparr>
         else x1)"
  by (simp add: disconnect_sv_def att_upd_def fb_upd_def Let_def nth_list_update
      split: option.splits slot.splits)

lemma disconnect_wv_parts:
  assumes "a < length (attempts s)"
  shows "peerConnection (attempts (disconnect_wv s) ! a) =
           (if peerConnectionRef s = Some a then pc_close (peerConnection (attempts s ! a))
            else peerConnection (attempts s ! a))"
    and "signalingWs (attempts (disconnect_wv s) ! a) =
           (if signalingWsRef s = Some a then ws_close (signalingWs (attempts s ! a))
            else signalingWs (attempts s ! a))"
    and "pc_calls (peerConnection (attempts (disconnect_wv s) ! a)) =
           pc_calls (peerConnection (attempts s ! a))"
    and "closure_of (attempts (disconnect_wv s) ! a) = closure_of (attempts s ! a)"
  using assms
  by (simp_all add: disconnect_wv_attempt Let_def pc_close_def closure_of_def option.map_comp
      comp_def)

lemma disconnect_sv_parts:
  assumes "a < length (attempts s)"
  shows "peerConnection (attempts (disconnect_sv s) ! a) =
           (if peerConnectionRef s = Some a then pc_close (peerConnection (attempts s ! a))
            else peerConnection (attempts s ! a))"
    and "signalingWs (attempts (disconnect_sv s) ! a) = signalingWs (attempts s ! a)"
    and "pc_calls (peerConnection (attempts (disconnect_sv s) ! a)) =
           pc_calls (peerConnection (attempts s ! a))"
    and "closure_of (attempts (disconnect_sv s) ! a) = closure_of (attempts s ! a)"
  using assms
  by (simp_all add: disconnect_sv_attempt Let_def pc_close_def closure_of_def option.map_comp
      comp_def)

lemma disconnect_wv_fields:
  "display (disconnect_wv s) =
     (False, False, None, 0, streamQuality s, None,
      map_option (\<lambda>v. v\<lparr>srcObject := None, src := []\<rparr>) (videoRef s))"
  "hostname (disconnect_wv s) = hostname s"
  "pageSecure (disconnect_wv s) = pageSecure s"
  "peerConnectionRef (disconnect_wv s) = None"
  "signalingWsRef (disconnect_wv s) = None"
  "websocketRef (disconnect_wv s) = None"
  "length (attempts (disconnect_wv s)) = length (attempts s)"
  by (simp_all add: disconnect_wv_def att_upd_def fb_upd_def Let_def display_def
      split: option.splits slot.splits)

lemma disconnect_sv_fields:
  "display (disconnect_sv s) =
     (False, False, None, 0, streamQuality s, connectionType s,
      map_option (\<lambda>v. v\<lparr>srcObject := None, src := []\<rparr>) (videoRef s))"
  "hostname (disconnect_sv s) = hostname s"
  "pageSecure (disconnect_sv s) = pageSecure s"
  "peerConnectionRef (disconnect_sv s) = None"
  "websocketRef (disconnect_sv s) = None"
  "length (attempts (disconnect_sv s)) = length (attempts s)"
  by (simp_all add: disconnect_sv_def att_upd_def fb_upd_def Let_def display_def
      split: option.splits slot.splits)

subsection \<open>What a handler leaves alone\<close>

lemma att_upd_nth:
  "a < length (attempts s) \<Longrightarrow>
   attempts (att_upd b f s) ! a = (if a = b then f (attempts s ! a) else attempts s ! a)"
  by (simp add: att_upd_def nth_list_update)

lemma att_upd_length [simp]: "length (attempts (att_upd b f s)) = length (attempts s)"
  by (simp add: att_upd_def)

lemma att_upd_shared [simp]:
  "error (att_upd b f s) = error s"
  "isConnecting (att_upd b f s) = isConnecting s"
  "isConnected (att_upd b f s) = isConnected s"
  "connectionType (att_upd b f s) = connectionType s"
  "viewerCount (att_upd b f s) = viewerCount s"
  "streamQuality (att_upd b f s) = streamQuality s"
  "videoRef (att_upd b f s) = videoRef s"
  "hostname (att_upd b f s) = hostname s"
  "pageSecure (att_upd b f s) = pageSecure s"
  "websocketRef (att_upd b f s) = websocketRef s"
  "peerConnectionRef (att_upd b f s) = peerConnectionRef s"
  "signalingWsRef (att_upd b f s) = signalingWsRef s"
  "lones (att_upd b f s) = lones s"
  by (simp_all add: att_upd_def)

lemma fb_upd_nth:
  "a < length (attempts s) \<Longrightarrow>
   attempts (fb_upd sl f s) ! a =
     (if sl = OfAttempt a
      then (attempts s ! a)\<lparr>fallback := map_option f (fallback (attempts s ! a))\<rparr>
      else attempts s ! a)"
  by (cases sl) (simp_all add: fb_upd_def att_upd_nth)

lemma closure_of_simps [simp]:
  "closure_of (x\<lparr>signalingWs := w\<rparr>) = closure_of x"
  "closure_of (x\<lparr>peerConnection := p\<rparr>) = closure_of x"
  by (simp_all add: closure_of_def)

text \<open>Rejecting the promise of one attempt leaves every other attempt as it is, and a
  settled promise stays as it is.\<close>

lemma reject_connectWebRTC_wv_other:
  assumes "a < length (attempts s)" "a \<noteq> b"
  shows "attempts (reject_connectWebRTC_wv b r s) ! a = attempts s ! a"
  using assms
  by (simp add: reject_connectWebRTC_wv_def connectWebSocket_wv_def catch_wsError_wv_def
      att_upd_nth split: sum.splits)

lemma reject_connectWebRTC_sv_other:
  assumes "a < length (attempts s)" "a \<noteq> b"
  shows "attempts (reject_connectWebRTC_sv b r s) ! a = attempts s ! a"
  using assms
  by (simp add: reject_connectWebRTC_sv_def connectWebSocket_sv_def catch_wsError_sv_def
      att_upd_nth split: sum.splits)

lemma reject_connectWebRTC_length [simp]:
  "length (attempts (reject_connectWebRTC_wv b r s)) = length (attempts s)"
  "length (attempts (reject_connectWebRTC_sv b r s)) = length (attempts s)"
  by (simp_all add: reject_connectWebRTC_wv_def connectWebSocket_wv_def catch_wsError_wv_def
      reject_connectWebRTC_sv_def connectWebSocket_sv_def catch_wsError_sv_def
      split: sum.splits)

lemma resolve_connectWebRTC_other:
  assumes "a < length (attempts s)" "a \<noteq> b"
  shows "attempts (resolve_connectWebRTC_wv b s) ! a = attempts s ! a"
    and "attempts (resolve_connectWebRTC_sv b s) ! a = attempts s ! a"
  using assms
  by (simp_all add: resolve_connectWebRTC_wv_def resolve_connectWebRTC_sv_def att_upd_nth)

lemma reject_connectWebSocket_other:
  assumes "a < length (attempts s)" "sl \<noteq> OfAttempt a"
  shows "attempts (reject_connectWebSocket_wv sl r s) ! a = attempts s ! a"
    and "attempts (reject_connectWebSocket_sv sl r s) ! a = attempts s ! a"
    and "attempts (resolve_connectWebSocket_wv sl s) ! a = attempts s ! a"
    and "attempts (resolve_connectWebSocket_sv sl s) ! a = attempts s ! a"
  using assms
  by (simp_all add: reject_connectWebSocket_wv_def reject_connectWebSocket_sv_def
      resolve_connectWebSocket_wv_def resolve_connectWebSocket_sv_def
      catch_wsError_wv_def catch_wsError_sv_def fb_upd_nth)

lemma connectToStream_nth:
  assumes "a < length (attempts s)"
  shows "attempts (connectToStream_wv s) ! a = attempts s ! a"
    and "attempts (connectToStream_sv s) ! a = attempts s ! a"
  using assms
  by (simp_all add: connectToStream_wv_def connectWebRTC_wv_def connectWebSocket_wv_def
      catch_wsError_wv_def connectToStream_sv_def connectWebRTC_sv_def connectWebSocket_sv_def
      catch_wsError_sv_def nth_append split: sum.splits)

lemma owner_slot: "owner (WsOpen sl) \<noteq> Some a \<Longrightarrow> sl \<noteq> OfAttempt a"
  "owner (WsError sl) \<noteq> Some a \<Longrightarrow> sl \<noteq> OfAttempt a"
  "owner (WsTimeout sl) \<noteq> Some a \<Longrightarrow> sl \<noteq> OfAttempt a"
  "owner (WsMessage sl d) \<noteq> Some a \<Longrightarrow> sl \<noteq> OfAttempt a"
  "owner (WsClose sl code) \<noteq> Some a \<Longrightarrow> sl \<noteq> OfAttempt a"
  by (cases sl; simp)+

text \<open>An event that does not belong to an attempt leaves the closure of its handlers as
  it is.\<close>

lemma others_keep_closure_wv:
  assumes "a < length (attempts s)" "owner ev \<noteq> Some a"
  shows "closure_of (attempts (step_wv ev s) ! a) = closure_of (attempts s ! a)"
proof (cases ev)
  case (SigOpen b)
  with assms show ?thesis by (simp add: signalingWs_onopen_wv_def set_signaling_def att_upd_nth)
next
  case (SigError b)
  with assms show ?thesis
    by (simp add: signalingWs_onerror_wv_def set_signaling_def att_upd_nth
        reject_connectWebRTC_wv_other)
next
  case (SigTimeout b)
  with assms show ?thesis
    by (simp add: connectionTimeout_fired_wv_def att_upd_nth reject_connectWebRTC_wv_other)
next
  case (SigMessage b m)
  with assms show ?thesis
    by (cases m)
      (simp_all add: signalingWs_onmessage_wv_def att_upd_nth reject_connectWebRTC_wv_other
        disconnect_wv_parts split: option.splits)
next
  case (SigClose b)
  with assms show ?thesis by (simp add: signalingWs_onclose_wv_def set_signaling_def att_upd_nth)
next
  case (Track b st)
  with assms show ?thesis
    by (simp add: ontrack_wv_def resolve_connectWebRTC_other split: option.splits)
next
  case (LocalCandidate b c)
  with assms show ?thesis by (simp add: onicecandidate_wv_def att_upd_nth split: option.splits)
next
  case (ConnectionStateChange b st)
  with assms show ?thesis by (cases st) (simp_all add: onconnectionstatechange_wv_def)
next
  case (WsOpen sl)
  with assms owner_slot(1) [of sl a] show ?thesis
    by (simp add: ws_onopen_wv_def set_ws_def reject_connectWebSocket_other fb_upd_nth)
next
  case (WsError sl)
  with assms owner_slot(2) [of sl a] show ?thesis
    by (simp add: ws_onerror_wv_def set_ws_def reject_connectWebSocket_other fb_upd_nth)
next
  case (WsTimeout sl)
  with assms owner_slot(3) [of sl a] show ?thesis
    by (simp add: wsTimeout_fired_wv_def reject_connectWebSocket_other fb_upd_nth)
next
  case (WsMessage sl d)
  show ?thesis
  proof (cases d)
    case (Blob u)
    with WsMessage assms show ?thesis by (simp add: ws_onmessage_wv_def split: option.splits)
  next
    case (Text m)
    with WsMessage assms owner_slot(4) [of sl d a] show ?thesis
      by (cases m)
        (simp_all add: ws_onmessage_wv_def reject_connectWebSocket_other disconnect_wv_parts)
  qed
next
  case (WsClose sl code)
  with assms owner_slot(5) [of sl code a] show ?thesis
    by (simp add: ws_onclose_wv_def set_ws_def fb_upd_nth Let_def)
next
  case ClickConnect
  with assms show ?thesis by (simp add: click_connect_wv_def connectToStream_nth)
next
  case ClickDisconnect
  with assms show ?thesis by (simp add: click_disconnect_wv_def disconnect_wv_parts)
next
  case ClickTryAgain
  with assms show ?thesis by (simp add: click_try_again_wv_def connectToStream_nth)
next
  case KeyEnter
  with assms show ?thesis by (simp add: handleKeyPress_wv_def connectToStream_nth)
next
  case Unmount
  with assms show ?thesis by (simp add: disconnect_wv_parts)
qed (simp_all add: video_onerror_wv_def setBroadcastId_def)

lemma others_keep_closure_sv:
  assumes "a < length (attempts s)" "owner ev \<noteq> Some a"
  shows "closure_of (attempts (step_sv ev s) ! a) = closure_of (attempts s ! a)"
proof (cases ev)
  case (SigOpen b)
  with assms show ?thesis by (simp add: signalingWs_onopen_sv_def set_signaling_def att_upd_nth)
next
  case (SigError b)
  with assms show ?thesis
    by (simp add: signalingWs_onerror_sv_def set_signaling_def att_upd_nth
        reject_connectWebRTC_sv_other)
next
  case (SigMessage b m)
  with assms show ?thesis
    by (cases m)
      (simp_all add: signalingWs_onmessage_sv_def att_upd_nth reject_connectWebRTC_sv_other
        disconnect_sv_parts split: option.splits)
next
  case (SigClose b)
  with assms show ?thesis by (simp add: set_signaling_def att_upd_nth)
next
  case (Track b st)
  with assms show ?thesis
    by (simp add: ontrack_sv_def resolve_connectWebRTC_other split: option.splits)
next
  case (LocalCandidate b c)
  with assms show ?thesis by (simp add: onicecandidate_sv_def att_upd_nth split: option.splits)
next
  case (ConnectionStateChange b st)
  with assms show ?thesis
    by (simp add: onconnectionstatechange_sv_def reject_connectWebRTC_sv_other)
next
  case (WsOpen sl)
  with assms owner_slot(1) [of sl a] show ?thesis
    by (simp add: ws_onopen_sv_def set_ws_def reject_connectWebSocket_other fb_upd_nth)
next
  case (WsError sl)
  with assms owner_slot(2) [of sl a] show ?thesis
    by (simp add: ws_onerror_sv_def set_ws_def reject_connectWebSocket_other fb_upd_nth)
next
  case (WsMessage sl d)
  show ?thesis
  proof (cases d)
    case (Blob u)
    with WsMessage assms show ?thesis by (simp add: ws_onmessage_sv_def split: option.splits)
  next
    case (Text m)
    with WsMessage assms owner_slot(4) [of sl d a] show ?thesis
      by (cases m) (simp_all add: ws_onmessage_sv_def reject_connectWebSocket_other)
  qed
next
  case (WsClose sl code)
  with assms owner_slot(5) [of sl code a] show ?thesis
    by (simp add: ws_onclose_sv_def set_ws_def fb_upd_nth)
next
  case ClickConnect
  with assms show ?thesis by (simp add: click_connect_sv_def connectToStream_nth)
next
  case ClickDisconnect
  with assms show ?thesis by (simp add: click_disconnect_sv_def disconnect_sv_parts)
next
  case ClickTryAgain
  with assms show ?thesis by (simp add: click_try_again_sv_def disconnect_sv_parts)
next
  case Unmount
  with assms show ?thesis by (simp add: disconnect_sv_parts)
qed (simp_all add: video_onerror_sv_def setBroadcastId_def)

subsection \<open>What a handler leaves alone of a fallback socket\<close>

lemma ws_pending_cong:
  "attempts s' = attempts s \<Longrightarrow> lones s' = lones s \<Longrightarrow> ws_pending sl s' = ws_pending sl s"
  by (cases sl) (simp_all add: ws_pending_def fb_get_def)

lemma fb_get_att_upd:
  "(\<And>x. fallback (f x) = fallback x) \<Longrightarrow> fb_get sl (att_upd b f s) = fb_get sl s"
  by (cases sl) (simp_all add: fb_get_def att_upd_nth)

lemma fb_get_fb_upd_other: "sl \<noteq> sl' \<Longrightarrow> fb_get sl (fb_upd sl' f s) = fb_get sl s"
  by (cases sl; cases sl') (auto simp add: fb_get_def fb_upd_def att_upd_nth)

lemma ws_pending_fb_upd:
  "(\<And>g. wsPromise (f g) = wsPromise g) \<Longrightarrow> ws_pending sl (fb_upd sl' f s) = ws_pending sl s"
  by (cases "sl = sl'")
    (simp_all add: ws_pending_def fb_get_upd fb_get_fb_upd_other option.map_comp comp_def)

lemma ws_pending_att_upd:
  "(\<And>x. fallback (f x) = fallback x) \<Longrightarrow> ws_pending sl (att_upd b f s) = ws_pending sl s"
  by (simp add: ws_pending_def fb_get_att_upd)

lemma ws_pending_disconnect:
  "ws_pending sl (disconnect_wv s) = ws_pending sl s"
  "ws_pending sl (disconnect_sv s) = ws_pending sl s"
proof -
  have a: "\<And>r c e v b t. ws_pending sl (t\<lparr>videoRef := r, isConnected := b, isConnecting := c,
      error := e, viewerCount := v, connectionType := None\<rparr>) = ws_pending sl t"
    by (rule ws_pending_cong) simp_all
  have b: "\<And>r c e v b t. ws_pending sl (t\<lparr>videoRef := r, isConnected := b, isConnecting := c,
      error := e, viewerCount := v\<rparr>) = ws_pending sl t"
    by (rule ws_pending_cong) simp_all
  have p: "\<And>t. ws_pending sl (t\<lparr>peerConnectionRef := None\<rparr>) = ws_pending sl t"
    "\<And>t. ws_pending sl (t\<lparr>signalingWsRef := None\<rparr>) = ws_pending sl t"
    "\<And>t. ws_pending sl (t\<lparr>websocketRef := None\<rparr>) = ws_pending sl t"
    by (rule ws_pending_cong; simp)+
  show "ws_pending sl (disconnect_wv s) = ws_pending sl s"
    by (simp add: disconnect_wv_def Let_def a p ws_pending_att_upd ws_pending_fb_upd
        split: option.splits)
  show "ws_pending sl (disconnect_sv s) = ws_pending sl s"
    by (simp add: disconnect_sv_def Let_def b p ws_pending_att_upd ws_pending_fb_upd
        split: option.splits)
qed

lemma ws_pending_connectWebSocket:
  assumes "ws_pending sl s"
  shows "ws_pending sl (connectWebSocket_wv ow bid s)"
    and "ws_pending sl (connectWebSocket_sv ow bid s)"
  using assms
  by (cases sl; cases ow;
      auto simp add: connectWebSocket_wv_def connectWebSocket_sv_def catch_wsError_wv_def
        catch_wsError_sv_def ws_pending_def fb_get_def att_upd_nth nth_append
        split: sum.splits if_splits)+

lemma ws_pending_reject_connectWebRTC:
  assumes "ws_pending sl s"
  shows "ws_pending sl (reject_connectWebRTC_wv b r s)"
    and "ws_pending sl (reject_connectWebRTC_sv b r s)"
  using assms
  by (simp_all add: reject_connectWebRTC_wv_def reject_connectWebRTC_sv_def
      ws_pending_connectWebSocket ws_pending_att_upd)

lemma ws_pending_resolve_connectWebRTC:
  "ws_pending sl (resolve_connectWebRTC_wv b s) = ws_pending sl s"
  "ws_pending sl (resolve_connectWebRTC_sv b s) = ws_pending sl s"
proof -
  have "\<And>t c. ws_pending sl (t\<lparr>connectionType := c\<rparr>) = ws_pending sl t"
    by (rule ws_pending_cong) simp_all
  then show "ws_pending sl (resolve_connectWebRTC_wv b s) = ws_pending sl s"
    "ws_pending sl (resolve_connectWebRTC_sv b s) = ws_pending sl s"
    by (simp_all add: resolve_connectWebRTC_wv_def resolve_connectWebRTC_sv_def
        ws_pending_att_upd)
qed

lemma ws_pending_connectWebRTC:
  assumes "ws_pending sl s"
  shows "ws_pending sl (connectWebRTC_wv s)" and "ws_pending sl (connectWebRTC_sv s)"
proof -
  show "ws_pending sl (connectWebRTC_wv s)"
  proof (cases "new_WebSocket (pageSecure s)
      (getWebSocketUrl (hostname s) 8080 (''/signaling/viewer/'' @ broadcastId s))")
    case (Inl e)
    with assms show ?thesis
      by (simp only: connectWebRTC_wv_def sum.case ws_pending_connectWebSocket)
  next
    case (Inr w)
    from assms have "ws_pending sl (s\<lparr>attempts := attempts s @
               [\<lparr>broadcastId_c = broadcastId s, isConnected_c = isConnected s,
                 signalingWs = w, connectionTimeout = Some 10000,
                 peerConnection = new_RTCPeerConnection,
                 webrtc = Pending, fallback = None\<rparr>],
            signalingWsRef := Some (length (attempts s)),
            peerConnectionRef := Some (length (attempts s))\<rparr>)"
      by (cases sl) (auto simp add: ws_pending_def fb_get_def nth_append split: if_splits)
    with Inr show ?thesis by (simp only: connectWebRTC_wv_def sum.case)
  qed
  show "ws_pending sl (connectWebRTC_sv s)"
  proof (cases "new_WebSocket (pageSecure s)
      (getWebSocketUrl (hostname s) 8080 (''/signaling/viewer/'' @ broadcastId s))")
    case (Inl e)
    with assms show ?thesis
      by (simp only: connectWebRTC_sv_def sum.case ws_pending_connectWebSocket)
  next
    case (Inr w)
    from assms have "ws_pending sl (s\<lparr>attempts := attempts s @
               [\<lparr>broadcastId_c = broadcastId s, isConnected_c = isConnected s,
                 signalingWs = w, connectionTimeout = None,
                 peerConnection = new_RTCPeerConnection,
                 webrtc = Pending, fallback = None\<rparr>],
            peerConnectionRef := Some (length (attempts s))\<rparr>)"
      by (cases sl) (auto simp add: ws_pending_def fb_get_def nth_append split: if_splits)
    with Inr show ?thesis by (simp only: connectWebRTC_sv_def sum.case)
  qed
qed

lemma ws_pending_connectToStream:
  assumes "ws_pending sl s"
  shows "ws_pending sl (connectToStream_wv s)" and "ws_pending sl (connectToStream_sv s)"
proof -
  have e: "\<And>t e. ws_pending sl (t\<lparr>error := e\<rparr>) = ws_pending sl t"
    by (rule ws_pending_cong) simp_all
  have "ws_pending sl (s\<lparr>isConnecting := True, error := None, connectionType := None\<rparr>)
      = ws_pending sl s"
    by (rule ws_pending_cong) simp_all
  with assms show "ws_pending sl (connectToStream_wv s)"
    by (simp add: connectToStream_wv_def e ws_pending_connectWebRTC)
  have "ws_pending sl (s\<lparr>isConnecting := True, error := None\<rparr>) = ws_pending sl s"
    by (rule ws_pending_cong) simp_all
  with assms show "ws_pending sl (connectToStream_sv s)"
    by (simp add: connectToStream_sv_def e ws_pending_connectWebRTC)
qed

lemma ws_pending_shared [simp]:
  "ws_pending sl (s\<lparr>error := e\<rparr>) = ws_pending sl s"
  "ws_pending sl (s\<lparr>isConnecting := b\<rparr>) = ws_pending sl s"
  "ws_pending sl (s\<lparr>isConnected := b\<rparr>) = ws_pending sl s"
  "ws_pending sl (s\<lparr>connectionType := c\<rparr>) = ws_pending sl s"
  "ws_pending sl (s\<lparr>viewerCount := n\<rparr>) = ws_pending sl s"
  "ws_pending sl (s\<lparr>streamQuality := q\<rparr>) = ws_pending sl s"
  "ws_pending sl (s\<lparr>videoRef := v\<rparr>) = ws_pending sl s"
  "ws_pending sl (s\<lparr>broadcastId := i\<rparr>) = ws_pending sl s"
  "ws_pending sl (s\<lparr>websocketRef := r\<rparr>) = ws_pending sl s"
  by (rule ws_pending_cong; simp)+

lemma ws_pending_fb_upd_other:
  "sl \<noteq> sl' \<Longrightarrow> ws_pending sl (fb_upd sl' f s) = ws_pending sl s"
  by (simp add: ws_pending_def fb_get_fb_upd_other)

lemma ws_pending_connectWebSocket_other:
  assumes "sl \<noteq> sl'"
  shows "ws_pending sl (resolve_connectWebSocket_wv sl' s) = ws_pending sl s"
    and "ws_pending sl (reject_connectWebSocket_wv sl' r s) = ws_pending sl s"
    and "ws_pending sl (resolve_connectWebSocket_sv sl' s) = ws_pending sl s"
    and "ws_pending sl (reject_connectWebSocket_sv sl' r s) = ws_pending sl s"
  using assms
  by (simp_all add: resolve_connectWebSocket_wv_def reject_connectWebSocket_wv_def
      resolve_connectWebSocket_sv_def reject_connectWebSocket_sv_def catch_wsError_wv_def
      catch_wsError_sv_def ws_pending_fb_upd_other)

text \<open>An event that is not one of a fallback socket leaves the promise of its
  \<open>connectWebSocket\<close> pending.\<close>

lemma others_keep_pending_wv:
  assumes "ws_pending sl s" "ws_slot ev \<noteq> Some sl"
  shows "ws_pending sl (step_wv ev s)"
proof (cases ev)
  case (SigOpen b)
  with assms show ?thesis
    by (simp add: signalingWs_onopen_wv_def set_signaling_def ws_pending_att_upd)
next
  case (SigError b)
  with assms show ?thesis
    by (simp add: signalingWs_onerror_wv_def set_signaling_def ws_pending_att_upd
        ws_pending_reject_connectWebRTC)
next
  case (SigTimeout b)
  with assms show ?thesis
    by (simp add: connectionTimeout_fired_wv_def ws_pending_att_upd
        ws_pending_reject_connectWebRTC)
next
  case (SigMessage b m)
  with assms show ?thesis
    by (cases m)
      (simp_all add: signalingWs_onmessage_wv_def ws_pending_att_upd
        ws_pending_reject_connectWebRTC ws_pending_disconnect split: option.splits)
next
  case (SigClose b)
  with assms show ?thesis
    by (simp add: signalingWs_onclose_wv_def set_signaling_def ws_pending_att_upd)
next
  case (Track b st)
  with assms show ?thesis
    by (simp add: ontrack_wv_def ws_pending_resolve_connectWebRTC split: option.splits)
next
  case (LocalCandidate b c)
  with assms show ?thesis
    by (simp add: onicecandidate_wv_def ws_pending_att_upd split: option.splits)
next
  case (ConnectionStateChange b st)
  with assms show ?thesis by (cases st) (simp_all add: onconnectionstatechange_wv_def)
next
  case (WsOpen sl')
  with assms show ?thesis
    by (simp add: ws_onopen_wv_def set_ws_def ws_pending_connectWebSocket_other
        ws_pending_fb_upd_other)
next
  case (WsError sl')
  with assms show ?thesis
    by (simp add: ws_onerror_wv_def set_ws_def ws_pending_connectWebSocket_other
        ws_pending_fb_upd_other)
next
  case (WsTimeout sl')
  with assms show ?thesis
    by (simp add: wsTimeout_fired_wv_def ws_pending_connectWebSocket_other
        ws_pending_fb_upd_other)
next
  case (WsMessage sl' d)
  show ?thesis
  proof (cases d)
    case (Blob u)
    with WsMessage assms show ?thesis by (simp add: ws_onmessage_wv_def split: option.splits)
  next
    case (Text m)
    with WsMessage assms show ?thesis
      by (cases m)
        (simp_all add: ws_onmessage_wv_def ws_pending_connectWebSocket_other
          ws_pending_disconnect)
  qed
next
  case (WsClose sl' code)
  with assms show ?thesis
    by (simp add: ws_onclose_wv_def set_ws_def ws_pending_fb_upd_other Let_def)
next
  case ClickConnect
  with assms show ?thesis by (simp add: click_connect_wv_def ws_pending_connectToStream)
next
  case ClickDisconnect
  with assms show ?thesis by (simp add: click_disconnect_wv_def ws_pending_disconnect)
next
  case ClickTryAgain
  with assms show ?thesis by (simp add: click_try_again_wv_def ws_pending_connectToStream)
next
  case KeyEnter
  with assms show ?thesis by (simp add: handleKeyPress_wv_def ws_pending_connectToStream)
next
  case Unmount
  with assms show ?thesis by (simp add: ws_pending_disconnect)
qed (use assms in \<open>simp_all add: video_onerror_wv_def setBroadcastId_def\<close>)

lemma others_keep_pending_sv:
  assumes "ws_pending sl s" "ws_slot ev \<noteq> Some sl"
  shows "ws_pending sl (step_sv ev s)"
proof (cases ev)
  case (SigOpen b)
  with assms show ?thesis
    by (simp add: signalingWs_onopen_sv_def set_signaling_def ws_pending_att_upd)
next
  case (SigError b)
  with assms show ?thesis
    by (simp add: signalingWs_onerror_sv_def set_signaling_def ws_pending_att_upd
        ws_pending_reject_connectWebRTC)
next
  case (SigMessage b m)
  with assms show ?thesis
    by (cases m)
      (simp_all add: signalingWs_onmessage_sv_def ws_pending_att_upd
        ws_pending_reject_connectWebRTC ws_pending_disconnect split: option.splits)
next
  case (SigClose b)
  with assms show ?thesis by (simp add: set_signaling_def ws_pending_att_upd)
next
  case (Track b st)
  with assms show ?thesis
    by (simp add: ontrack_sv_def ws_pending_resolve_connectWebRTC split: option.splits)
next
  case (LocalCandidate b c)
  with assms show ?thesis
    by (simp add: onicecandidate_sv_def ws_pending_att_upd split: option.splits)
next
  case (ConnectionStateChange b st)
  with assms show ?thesis
    by (simp add: onconnectionstatechange_sv_def ws_pending_reject_connectWebRTC)
next
  case (WsOpen sl')
  with assms show ?thesis
    by (simp add: ws_onopen_sv_def set_ws_def ws_pending_connectWebSocket_other
        ws_pending_fb_upd_other)
next
  case (WsError sl')
  with assms show ?thesis
    by (simp add: ws_onerror_sv_def set_ws_def ws_pending_connectWebSocket_other
        ws_pending_fb_upd_other)
next
  case (WsMessage sl' d)
  show ?thesis
  proof (cases d)
    case (Blob u)
    with WsMessage assms show ?thesis by (simp add: ws_onmessage_sv_def split: option.splits)
  next
    case (Text m)
    with WsMessage assms show ?thesis
      by (cases m) (simp_all add: ws_onmessage_sv_def ws_pending_connectWebSocket_other)
  qed
next
  case (WsClose sl' code)
  with assms show ?thesis by (simp add: ws_onclose_sv_def set_ws_def ws_pending_fb_upd_other)
next
  case ClickConnect
  with assms show ?thesis by (simp add: click_connect_sv_def ws_pending_connectToStream)
next
  case ClickDisconnect
  with assms show ?thesis by (simp add: click_disconnect_sv_def ws_pending_disconnect)
next
  case ClickTryAgain
  with assms show ?thesis by (simp add: click_try_again_sv_def ws_pending_disconnect)
next
  case Unmount
  with assms show ?thesis by (simp add: ws_pending_disconnect)
qed (use assms in \<open>simp_all add: video_onerror_sv_def setBroadcastId_def\<close>)

subsection \<open>Blank ids\<close>

lemma dropWhile_all: "(\<forall>x\<in>set (dropWhile P xs). P x) \<longleftrightarrow> (\<forall>x\<in>set xs. P x)"
proof
  assume h: "\<forall>x\<in>set (dropWhile P xs). P x"
  have "dropWhile P xs = []"
  proof (rule ccontr)
    assume ne: "dropWhile P xs \<noteq> []"
    then have "\<not> P (hd (dropWhile P xs))" by (rule hd_dropWhile)
    moreover from ne have "hd (dropWhile P xs) \<in> set (dropWhile P xs)" by simp
    ultimately show False using h by blast
  qed
  then show "\<forall>x\<in>set xs. P x" by (simp add: dropWhile_eq_Nil_conv)
next
  assume "\<forall>x\<in>set xs. P x"
  then show "\<forall>x\<in>set (dropWhile P xs). P x" by (meson set_dropWhileD)
qed

lemma trim_blank: "trim b = [] \<longleftrightarrow> (\<forall>c\<in>set b. isWhiteSpace c)"
  by (simp add: trim_def dropWhile_eq_Nil_conv dropWhile_all)

text \<open>
  Claim C5. Called with a broadcast id that is empty or has only white space,
  \<open>connectToStream\<close> sets the validation message at once and changes nothing else:
  no transport is created, nothing is sent, the status flags and the refs stay.
\<close>

theorem connectToStream_blank_rejected:
  assumes "\<forall>c\<in>set (broadcastId s). isWhiteSpace c"
  shows "connectToStream_wv s = s\<lparr>error := Some ''Please enter a valid Broadcast ID''\<rparr>
       \<and> connectToStream_sv s = s\<lparr>error := Some ''Please enter a valid Broadcast ID''\<rparr>
       \<and> attempts (connectToStream_wv s) = attempts s
       \<and> attempts (connectToStream_sv s) = attempts s"
  using assms by (simp add: connectToStream_wv_def connectToStream_sv_def trim_blank)

text \<open>An id of two spaces: the error is set and no transport exists.\<close>

theorem connectToStream_blank_rejected_witness:
  "isWhiteSpace CHR '' ''
   \<and> connectToStream_wv (setBroadcastId ''  '' viewer_init)
       = (setBroadcastId ''  '' viewer_init)\<lparr>error := Some ''Please enter a valid Broadcast ID''\<rparr>
   \<and> connectToStream_sv (setBroadcastId ''  '' viewer_init)
       = (setBroadcastId ''  '' viewer_init)\<lparr>error := Some ''Please enter a valid Broadcast ID''\<rparr>
   \<and> live_transports (connectToStream_wv (setBroadcastId ''  '' viewer_init)) = []
   \<and> live_transports (connectToStream_sv (setBroadcastId ''  '' viewer_init)) = []"
proof -
  have w: "isWhiteSpace CHR '' ''" by (simp add: isWhiteSpace_def)
  then have h: "\<forall>c\<in>set (broadcastId (setBroadcastId ''  '' viewer_init)). isWhiteSpace c"
    by (simp add: setBroadcastId_def viewer_init_def viewer_mount_def)
  from connectToStream_blank_rejected [OF h] w show ?thesis
    by (simp add: live_transports_def setBroadcastId_def viewer_init_def viewer_mount_def)
qed

subsection \<open>Disconnecting\<close>

text \<open>
  Claim C4 on \<open>StreamViewer\<close>, connected over the peer connection for the id \<open>A\<close>: the
  peer connection and the signaling socket are live, and after the disconnect button the
  status is \<open>Disconnected\<close> but the signaling socket is still open; it is in no ref and
  a second call of \<open>disconnect\<close> changes nothing. A stream-info message that arrives on
  it afterwards sets the viewer count again. The socket stays open as well when the
  component is unmounted while it connects. \<open>WebcamViewer\<close>, which keeps the socket in \<open>signalingWsRef\<close>, closes it at
  the same input. In both viewers \<open>disconnect\<close> sets the \<open>src\<close> of the video element to
  the empty string; the error event that the element fires for it runs the handler of the
  view, and the status ends as \<open>Error\<close>.
\<close>

theorem disconnect_sv_leaves_signaling_open:
  "getStatusText webrtc_connected_sv = StatusConnected
   \<and> live_transports webrtc_connected_sv = [PeerOf 0, SignalingOf 0]
   \<and> getStatusText (step_sv ClickDisconnect webrtc_connected_sv) = StatusDisconnected
   \<and> live_transports (step_sv ClickDisconnect webrtc_connected_sv) = [SignalingOf 0]
   \<and> disconnect_sv (disconnect_sv webrtc_connected_sv) = disconnect_sv webrtc_connected_sv
   \<and> live_transports (disconnect_sv (disconnect_sv webrtc_connected_sv)) = [SignalingOf 0]
   \<and> viewerCount (run_sv [ClickDisconnect, SigMessage 0 (StreamInfo (Some 5) None)]
         webrtc_connected_sv) = 5
   \<and> live_transports connecting_sv = [PeerOf 0, SignalingOf 0]
   \<and> live_transports (step_sv Unmount connecting_sv) = [SignalingOf 0]
   \<and> live_transports webrtc_connected_wv = [PeerOf 0, SignalingOf 0]
   \<and> live_transports (step_wv ClickDisconnect webrtc_connected_wv) = []
   \<and> map_option src (videoRef (step_sv ClickDisconnect webrtc_connected_sv)) = Some []
   \<and> getStatusText (run_sv [ClickDisconnect, VideoError] webrtc_connected_sv) = StatusError
   \<and> getStatusText (run_wv [ClickDisconnect, VideoError] webrtc_connected_wv) = StatusError"
  by (simp add: example_defs viewer_defs)

subsection \<open>The closing of the fallback socket\<close>

text \<open>
  Claim C9 on \<open>WebcamViewer\<close>, connected through the fallback socket for the id \<open>A\<close>.
  The user clicks the disconnect button: \<open>disconnect\<close> calls \<open>close\<close> on the socket
  without a code and the status is \<open>Disconnected\<close>. The close event that follows carries
  the code 1005, the handler takes it for a closure that is not normal, and the status
  ends as \<open>Error\<close> with \<open>Connection lost\<close>. In \<open>StreamViewer\<close> the close that follows
  the user's disconnect raises it with every code, the normal code 1000 too. A fallback
  socket that never opened raises it as well when it closes, over the message of the
  failed connect.
\<close>

theorem connection_lost_after_user_disconnect:
  "getStatusText fallback_connected_wv = StatusConnected
   \<and> websocketRef fallback_connected_wv = Some (OfAttempt 0)
   \<and> getStatusText (step_wv ClickDisconnect fallback_connected_wv) = StatusDisconnected
   \<and> map_option (\<lambda>f. readyState (ws f))
         (fallback (attempts (step_wv ClickDisconnect fallback_connected_wv) ! 0)) = Some CLOSING
   \<and> error (run_wv [ClickDisconnect, WsClose (OfAttempt 0) 1005] fallback_connected_wv)
       = Some ''Connection lost''
   \<and> getStatusText (run_wv [ClickDisconnect, WsClose (OfAttempt 0) 1005] fallback_connected_wv)
       = StatusError
   \<and> error (run_wv [ClickDisconnect, WsClose (OfAttempt 0) 1000] fallback_connected_wv) = None
   \<and> error user_disconnected_sv = None
   \<and> getStatusText user_disconnected_sv = StatusDisconnected
   \<and> error (step_sv (WsClose (OfAttempt 0) 1000) user_disconnected_sv) = Some ''Connection lost''
   \<and> error (step_sv (WsClose (OfAttempt 0) 1005) user_disconnected_sv) = Some ''Connection lost''
   \<and> error both_failed_wv = Some unable_wv
   \<and> error (step_wv (WsClose (OfAttempt 0) 1006) both_failed_wv) = Some ''Connection lost''"
  by (simp add: example_defs viewer_defs)

subsection \<open>Timeouts\<close>

text \<open>
  Claim C8, as stated, fails. \<open>StreamViewer\<close> sets no timer for either socket: while
  the signaling socket neither opens nor fails the viewer stays \<open>Connecting\<close>, and so
  it does while the fallback socket neither opens nor fails. In \<open>WebcamViewer\<close> the
  reason of a timeout is not distinct from every rejection by the protocol: an error
  message with the timeout's text rejects the promise with the very same reason.
\<close>

theorem timeouts_missing_or_not_distinct:
  "getStatusText connecting_sv = StatusConnecting
   \<and> webrtc (attempts connecting_sv ! 0) = Pending
   \<and> connectionTimeout (attempts connecting_sv ! 0) = None
   \<and> step_sv (SigTimeout 0) connecting_sv = connecting_sv
   \<and> fallback (attempts (step_sv (SigError 0) connecting_sv) ! 0)
       = Some \<lparr>ws = \<lparr>url = ''ws://app--8081--local.webcontainer.io/stream/A'',
                       readyState = CONNECTING, sent = []\<rparr>,
               wsTimeout = None, wsPromise = Pending\<rparr>
   \<and> step_sv (WsTimeout (OfAttempt 0)) (step_sv (SigError 0) connecting_sv)
       = step_sv (SigError 0) connecting_sv
   \<and> getStatusText (step_sv (SigError 0) connecting_sv) = StatusConnecting
   \<and> webrtc (attempts (step_wv (SigTimeout 0) (connect_once_wv ''A'')) ! 0)
       = Rejected ''Signaling connection timeout''
   \<and> webrtc (attempts (step_wv (SigMessage 0 (ErrorMsg (Some ''Signaling connection timeout'')))
         (connect_once_wv ''A'')) ! 0)
       = Rejected ''Signaling connection timeout''"
  by (simp add: example_defs viewer_defs)

lemma connect_wv_timer:
  assumes "trim (broadcastId s) \<noteq> []"
  shows "new_WebSocket (pageSecure s)
           (getWebSocketUrl (hostname s) 8080 (''/signaling/viewer/'' @ broadcastId s)) = Inr w \<Longrightarrow>
         attempts (connectToStream_wv s) = attempts s @
           [\<lparr>broadcastId_c = broadcastId s, isConnected_c = isConnected s, signalingWs = w,
             connectionTimeout = Some 10000, peerConnection = new_RTCPeerConnection,
             webrtc = Pending, fallback = None\<rparr>]"
    and "new_WebSocket (pageSecure s)
           (getWebSocketUrl (hostname s) 8080 (''/signaling/viewer/'' @ broadcastId s)) = Inl e \<Longrightarrow>
         connectToStream_wv s =
           catch_wsError_wv (s\<lparr>isConnecting := True, error := None, connectionType := None\<rparr>)"
  using assms
  by (simp_all add: connect_throws_wv) (simp add: connectToStream_wv_def connectWebRTC_wv_def)

lemma fallback_wv_timer:
  assumes "a < length (attempts s)" "webrtc (attempts s ! a) = Pending"
    and "new_WebSocket (pageSecure s)
           (getWebSocketUrl (hostname s) 8081
              (''/stream/'' @ trim (broadcastId_c (attempts s ! a)))) = Inr w"
  shows "fb_get (OfAttempt a) (reject_connectWebRTC_wv a r s)
           = Some \<lparr>ws = w, wsTimeout = Some 10000, wsPromise = Pending\<rparr>"
  using assms
  by (simp add: reject_connectWebRTC_wv_def connectWebSocket_wv_def att_upd_def fb_get_def)

lemma signaling_timeout_wv:
  assumes "a < length (attempts s)" "connectionTimeout (attempts s ! a) \<noteq> None"
    "webrtc (attempts s ! a) = Pending"
  shows "webrtc (attempts (step_wv (SigTimeout a) s) ! a) = Rejected ''Signaling connection timeout''"
    and "connectionTimeout (attempts (step_wv (SigTimeout a) s) ! a) = None"
    and "webrtc (attempts (step_wv (SigError a) s) ! a) = Rejected ''Signaling server connection failed''"
    and "webrtc (attempts (step_wv (SigMessage a StreamNotFound) s) ! a)
           = Rejected ''Broadcast ID not found. Please check the ID and try again.''"
    and "webrtc (attempts (step_wv (SigMessage a (ErrorMsg m)) s) ! a)
           = Rejected (orElse m ''Stream connection failed'')"
  using assms
  by (auto simp add: connectionTimeout_fired_wv_def signalingWs_onerror_wv_def
      signalingWs_onmessage_wv_def set_signaling_def catch_wsError_wv_def
      reject_connectWebRTC_wv_def connectWebSocket_wv_def att_upd_def split: sum.splits)

lemma orElse_timeout:
  "orElse m ''Stream connection failed'' = ''Signaling connection timeout''
     \<longleftrightarrow> m = Some ''Signaling connection timeout''"
  by (cases m) (auto simp add: orElse_def)

lemma signaling_open_clears_wv:
  assumes "a < length (attempts s)"
  shows "connectionTimeout (attempts (step_wv (SigOpen a) s) ! a) = None"
    and "step_wv (SigTimeout a) (step_wv (SigOpen a) s) = step_wv (SigOpen a) s"
    and "connectionTimeout (attempts (step_wv (SigError a) s) ! a) = None"
    and "step_wv (SigTimeout a) (step_wv (SigError a) s) = step_wv (SigError a) s"
  using assms
  by (simp_all add: signalingWs_onopen_wv_def signalingWs_onerror_wv_def set_signaling_def
      reject_connectWebRTC_wv_def connectWebSocket_wv_def catch_wsError_wv_def att_upd_def
      split: sum.splits)

lemma ws_timeout_wv:
  assumes "ws_armed sl s" "ws_pending sl s"
  shows "map_option wsPromise (fb_get sl (step_wv (WsTimeout sl) s))
           = Some (Rejected ''WebSocket connection timeout'')"
    and "\<not> ws_armed sl (step_wv (WsTimeout sl) s)"
    and "getStatusText (step_wv (WsTimeout sl) s) = StatusError"
    and "map_option wsPromise (fb_get sl (step_wv (WsError sl) s))
           = Some (Rejected ''WebSocket connection failed'')"
    and "map_option wsPromise (fb_get sl (step_wv (WsMessage sl (Text (ErrorMsg m))) s))
           = Some (Rejected (case m of None \<Rightarrow> [] | Some t \<Rightarrow> t))"
  using assms
  by (auto simp add: wsTimeout_fired_wv_def ws_onerror_wv_def ws_onmessage_wv_def set_ws_def
      has_ws_def ws_armed_def ws_pending_def reject_connectWebSocket_wv_def catch_wsError_wv_def
      fb_get_upd getStatusText_def truthy_def option.map_comp comp_def
      split: option.splits)

lemma ws_open_clears_wv:
  assumes "has_ws sl s"
  shows "\<not> ws_armed sl (step_wv (WsOpen sl) s)"
    and "step_wv (WsTimeout sl) (step_wv (WsOpen sl) s) = step_wv (WsOpen sl) s"
    and "\<not> ws_armed sl (step_wv (WsError sl) s)"
    and "step_wv (WsTimeout sl) (step_wv (WsError sl) s) = step_wv (WsError sl) s"
  using assms
  by (auto simp add: ws_onopen_wv_def ws_onerror_wv_def set_ws_def has_ws_def ws_armed_def
      ws_pending_def resolve_connectWebSocket_wv_def reject_connectWebSocket_wv_def
      catch_wsError_wv_def fb_get_upd option.map_comp comp_def split: option.splits)

text \<open>
  Claim C8, amended. In \<open>WebcamViewer\<close> every transport open attempt is bounded by a
  timer of 10000 ms, set as soon as the socket has been created: \<open>connectToStream\<close>
  arms one for the signaling socket and \<open>connectWebSocket\<close> arms one for the frame
  socket; when the constructor of the signaling socket throws, that of the frame socket
  throws too, and \<open>connectToStream\<close> fails at once with no socket and no timer. An
  armed timer that fires while the promise is pending rejects it with a timeout reason,
  which differs from the reasons of a socket error and of \<open>stream-not-found\<close>, and from
  the reason of every error message but one that carries the timeout's own text. The
  opening and the failing of the socket clear the timer, which then never fires.
\<close>

theorem open_attempts_time_out_wv:
  "(trim (broadcastId s) \<noteq> []
      \<and> new_WebSocket (pageSecure s)
           (getWebSocketUrl (hostname s) 8080 (''/signaling/viewer/'' @ broadcastId s)) = Inr w \<longrightarrow>
      attempts (connectToStream_wv s) = attempts s @
        [\<lparr>broadcastId_c = broadcastId s, isConnected_c = isConnected s, signalingWs = w,
          connectionTimeout = Some 10000, peerConnection = new_RTCPeerConnection,
          webrtc = Pending, fallback = None\<rparr>])
   \<and> (trim (broadcastId s) \<noteq> []
      \<and> new_WebSocket (pageSecure s)
           (getWebSocketUrl (hostname s) 8080 (''/signaling/viewer/'' @ broadcastId s)) = Inl e \<longrightarrow>
      connectToStream_wv s =
        catch_wsError_wv (s\<lparr>isConnecting := True, error := None, connectionType := None\<rparr>))
   \<and> (a < length (attempts s) \<and> webrtc (attempts s ! a) = Pending
      \<and> new_WebSocket (pageSecure s)
           (getWebSocketUrl (hostname s) 8081
              (''/stream/'' @ trim (broadcastId_c (attempts s ! a)))) = Inr w' \<longrightarrow>
      fb_get (OfAttempt a) (reject_connectWebRTC_wv a r s)
        = Some \<lparr>ws = w', wsTimeout = Some 10000, wsPromise = Pending\<rparr>)
   \<and> (a < length (attempts s) \<and> connectionTimeout (attempts s ! a) \<noteq> None
        \<and> webrtc (attempts s ! a) = Pending \<longrightarrow>
      webrtc (attempts (step_wv (SigTimeout a) s) ! a) = Rejected ''Signaling connection timeout''
      \<and> connectionTimeout (attempts (step_wv (SigTimeout a) s) ! a) = None
      \<and> webrtc (attempts (step_wv (SigTimeout a) s) ! a)
          \<noteq> webrtc (attempts (step_wv (SigError a) s) ! a)
      \<and> webrtc (attempts (step_wv (SigTimeout a) s) ! a)
          \<noteq> webrtc (attempts (step_wv (SigMessage a StreamNotFound) s) ! a)
      \<and> (webrtc (attempts (step_wv (SigTimeout a) s) ! a)
            = webrtc (attempts (step_wv (SigMessage a (ErrorMsg m)) s) ! a)
          \<longleftrightarrow> m = Some ''Signaling connection timeout''))
   \<and> (a < length (attempts s) \<longrightarrow>
      connectionTimeout (attempts (step_wv (SigOpen a) s) ! a) = None
      \<and> step_wv (SigTimeout a) (step_wv (SigOpen a) s) = step_wv (SigOpen a) s
      \<and> connectionTimeout (attempts (step_wv (SigError a) s) ! a) = None
      \<and> step_wv (SigTimeout a) (step_wv (SigError a) s) = step_wv (SigError a) s)
   \<and> (ws_armed sl s \<and> ws_pending sl s \<longrightarrow>
      map_option wsPromise (fb_get sl (step_wv (WsTimeout sl) s))
        = Some (Rejected ''WebSocket connection timeout'')
      \<and> \<not> ws_armed sl (step_wv (WsTimeout sl) s)
      \<and> getStatusText (step_wv (WsTimeout sl) s) = StatusError
      \<and> map_option wsPromise (fb_get sl (step_wv (WsTimeout sl) s))
          \<noteq> map_option wsPromise (fb_get sl (step_wv (WsError sl) s))
      \<and> (map_option wsPromise (fb_get sl (step_wv (WsTimeout sl) s))
            = map_option wsPromise (fb_get sl (step_wv (WsMessage sl (Text (ErrorMsg m))) s))
          \<longleftrightarrow> m = Some ''WebSocket connection timeout''))
   \<and> (has_ws sl s \<longrightarrow>
      \<not> ws_armed sl (step_wv (WsOpen sl) s)
      \<and> step_wv (WsTimeout sl) (step_wv (WsOpen sl) s) = step_wv (WsOpen sl) s
      \<and> \<not> ws_armed sl (step_wv (WsError sl) s)
      \<and> step_wv (WsTimeout sl) (step_wv (WsError sl) s) = step_wv (WsError sl) s)"
proof (intro conjI impI; (elim conjE)?)
  assume h: "a < length (attempts s)" "connectionTimeout (attempts s ! a) \<noteq> None"
    "webrtc (attempts s ! a) = Pending"
  note t = signaling_timeout_wv [OF h]
  show "webrtc (attempts (step_wv (SigTimeout a) s) ! a) = Rejected ''Signaling connection timeout''"
    by (rule t)
  show "connectionTimeout (attempts (step_wv (SigTimeout a) s) ! a) = None" by (rule t)
  show "webrtc (attempts (step_wv (SigTimeout a) s) ! a)
          \<noteq> webrtc (attempts (step_wv (SigError a) s) ! a)" by (simp only: t) simp
  show "webrtc (attempts (step_wv (SigTimeout a) s) ! a)
          \<noteq> webrtc (attempts (step_wv (SigMessage a StreamNotFound) s) ! a)"
    by (simp only: t) simp
  show "webrtc (attempts (step_wv (SigTimeout a) s) ! a)
            = webrtc (attempts (step_wv (SigMessage a (ErrorMsg m)) s) ! a)
          \<longleftrightarrow> m = Some ''Signaling connection timeout''"
    by (simp only: t promise.inject) (metis orElse_timeout)
next
  assume h: "ws_armed sl s" "ws_pending sl s"
  note t = ws_timeout_wv [OF h]
  show "map_option wsPromise (fb_get sl (step_wv (WsTimeout sl) s))
        = Some (Rejected ''WebSocket connection timeout'')" by (rule t)
  show "\<not> ws_armed sl (step_wv (WsTimeout sl) s)" by (rule t)
  show "getStatusText (step_wv (WsTimeout sl) s) = StatusError" by (rule t)
  show "map_option wsPromise (fb_get sl (step_wv (WsTimeout sl) s))
          \<noteq> map_option wsPromise (fb_get sl (step_wv (WsError sl) s))"
    by (simp only: t) simp
  show "map_option wsPromise (fb_get sl (step_wv (WsTimeout sl) s))
            = map_option wsPromise (fb_get sl (step_wv (WsMessage sl (Text (ErrorMsg m))) s))
          \<longleftrightarrow> m = Some ''WebSocket connection timeout''"
    by (simp only: t) (cases m; auto)
next
  assume "trim (broadcastId s) \<noteq> []"
    "new_WebSocket (pageSecure s)
       (getWebSocketUrl (hostname s) 8080 (''/signaling/viewer/'' @ broadcastId s)) = Inr w"
  then show "attempts (connectToStream_wv s) = attempts s @
        [\<lparr>broadcastId_c = broadcastId s, isConnected_c = isConnected s, signalingWs = w,
          connectionTimeout = Some 10000, peerConnection = new_RTCPeerConnection,
          webrtc = Pending, fallback = None\<rparr>]"
    by (rule connect_wv_timer)
next
  assume "trim (broadcastId s) \<noteq> []"
    "new_WebSocket (pageSecure s)
       (getWebSocketUrl (hostname s) 8080 (''/signaling/viewer/'' @ broadcastId s)) = Inl e"
  then show "connectToStream_wv s =
        catch_wsError_wv (s\<lparr>isConnecting := True, error := None, connectionType := None\<rparr>)"
    by (rule connect_wv_timer)
next
  assume "a < length (attempts s)" "webrtc (attempts s ! a) = Pending"
    "new_WebSocket (pageSecure s)
       (getWebSocketUrl (hostname s) 8081
          (''/stream/'' @ trim (broadcastId_c (attempts s ! a)))) = Inr w'"
  then show "fb_get (OfAttempt a) (reject_connectWebRTC_wv a r s)
        = Some \<lparr>ws = w', wsTimeout = Some 10000, wsPromise = Pending\<rparr>"
    by (rule fallback_wv_timer)
qed (simp_all add: signaling_open_clears_wv ws_open_clears_wv del: step_wv.simps)

text \<open>Both timers firing in turn after a connect, an error message with the text of the
  timeout, and an id for which the constructor throws.\<close>

theorem open_attempts_time_out_wv_witness:
  "connectionTimeout (attempts (connectToStream_wv entered) ! 0) = Some 10000
   \<and> url (signalingWs (attempts (connectToStream_wv entered) ! 0))
       = ''ws://app--8080--local.webcontainer.io/signaling/viewer/ A ''
   \<and> webrtc (attempts (step_wv (SigTimeout 0) (connectToStream_wv entered)) ! 0)
       = Rejected ''Signaling connection timeout''
   \<and> webrtc (attempts (step_wv (SigMessage 0 (ErrorMsg (Some ''Signaling connection timeout'')))
         (connectToStream_wv entered)) ! 0)
       = Rejected ''Signaling connection timeout''
   \<and> fb_get (OfAttempt 0) (step_wv (SigTimeout 0) (connectToStream_wv entered))
       = Some \<lparr>ws = \<lparr>url = ''ws://app--8081--local.webcontainer.io/stream/A'',
                       readyState = CONNECTING, sent = []\<rparr>,
               wsTimeout = Some 10000, wsPromise = Pending\<rparr>
   \<and> map_option wsPromise (fb_get (OfAttempt 0) (step_wv (WsTimeout (OfAttempt 0))
         (step_wv (SigTimeout 0) (connectToStream_wv entered))))
       = Some (Rejected ''WebSocket connection timeout'')
   \<and> getStatusText (step_wv (WsTimeout (OfAttempt 0))
         (step_wv (SigTimeout 0) (connectToStream_wv entered))) = StatusError
   \<and> step_wv (SigTimeout 0) (step_wv (SigOpen 0) (connectToStream_wv entered))
       = step_wv (SigOpen 0) (connectToStream_wv entered)
   \<and> step_wv (WsTimeout (OfAttempt 0)) (step_wv (WsOpen (OfAttempt 0))
         (step_wv (SigTimeout 0) (connectToStream_wv entered)))
       = step_wv (WsOpen (OfAttempt 0)) (step_wv (SigTimeout 0) (connectToStream_wv entered))
   \<and> getStatusText (connectToStream_wv (setBroadcastId ''A#B'' viewer_init)) = StatusError
   \<and> attempts (connectToStream_wv (setBroadcastId ''A#B'' viewer_init)) = []
   \<and> lones (connectToStream_wv (setBroadcastId ''A#B'' viewer_init)) = []"
proof -
  let ?c = "connectToStream_wv entered"
  let ?t = "step_wv (SigTimeout 0) ?c"
  let ?d = "att_upd 0 (\<lambda>x. x\<lparr>connectionTimeout := None\<rparr>) ?c"
  let ?f = "setBroadcastId ''A#B'' viewer_init"
  let ?w = "\<lparr>url = ''ws://app--8080--local.webcontainer.io/signaling/viewer/ A '',
            readyState = CONNECTING, sent = []\<rparr>"
  let ?w' = "\<lparr>url = ''ws://app--8081--local.webcontainer.io/stream/A'',
            readyState = CONNECTING, sent = []\<rparr>"
  have n: "trim (broadcastId entered) \<noteq> []"
    "new_WebSocket (pageSecure entered)
       (getWebSocketUrl (hostname entered) 8080 (''/signaling/viewer/'' @ broadcastId entered))
     = Inr ?w"
    by (simp_all add: example_defs viewer_defs)
  have e: "attempts entered = []" "broadcastId entered = '' A ''" "isConnected entered = False"
    by (simp_all add: example_defs viewer_defs)
  from n open_attempts_time_out_wv [of entered ?w "[]" 0 ?w' "[]" None "OfAttempt 0"]
  have "attempts ?c = attempts entered @
        [\<lparr>broadcastId_c = broadcastId entered, isConnected_c = isConnected entered,
          signalingWs = ?w, connectionTimeout = Some 10000,
          peerConnection = new_RTCPeerConnection, webrtc = Pending, fallback = None\<rparr>]"
    by blast
  with e have a: "attempts ?c =
        [\<lparr>broadcastId_c = '' A '', isConnected_c = False,
          signalingWs = ?w, connectionTimeout = Some 10000,
          peerConnection = new_RTCPeerConnection, webrtc = Pending, fallback = None\<rparr>]"
    by simp
  have h: "hostname ?c = ''app--5173--local.webcontainer.io''" "pageSecure ?c = False"
    by (simp_all add: example_defs viewer_defs)
  from a have p: "0 < length (attempts ?c)" "webrtc (attempts ?c ! 0) = Pending"
    "connectionTimeout (attempts ?c ! 0) \<noteq> None" by simp_all
  from p open_attempts_time_out_wv [of ?c ?w "[]" 0 ?w' "''Signaling connection timeout''"
      "Some ''Signaling connection timeout''" "OfAttempt 0"]
  have b: "webrtc (attempts ?t ! 0) = Rejected ''Signaling connection timeout''"
    "webrtc (attempts ?t ! 0)
       = webrtc (attempts (step_wv (SigMessage 0 (ErrorMsg (Some ''Signaling connection timeout''))) ?c) ! 0)"
    "step_wv (SigTimeout 0) (step_wv (SigOpen 0) ?c) = step_wv (SigOpen 0) ?c"
    by blast+
  have r: "?t = reject_connectWebRTC_wv 0 ''Signaling connection timeout'' ?d"
    using p by (simp add: connectionTimeout_fired_wv_def)
  from a h have pd: "0 < length (attempts ?d)" "webrtc (attempts ?d ! 0) = Pending"
    "new_WebSocket (pageSecure ?d)
       (getWebSocketUrl (hostname ?d) 8081 (''/stream/'' @ trim (broadcastId_c (attempts ?d ! 0))))
     = Inr ?w'"
    by (simp_all add: att_upd_def new_WebSocket_def getWebSocketUrl_init show_nat_ports trim_def
        isWhiteSpace_def)
  from pd open_attempts_time_out_wv [of ?d ?w "[]" 0 ?w' "''Signaling connection timeout''"
      None "OfAttempt 0"]
  have "fb_get (OfAttempt 0) (reject_connectWebRTC_wv 0 ''Signaling connection timeout'' ?d)
       = Some \<lparr>ws = ?w', wsTimeout = Some 10000, wsPromise = Pending\<rparr>"
    by blast
  then have f: "fb_get (OfAttempt 0) ?t
       = Some \<lparr>ws = ?w', wsTimeout = Some 10000, wsPromise = Pending\<rparr>"
    by (simp only: r)
  then have q: "ws_armed (OfAttempt 0) ?t" "ws_pending (OfAttempt 0) ?t" "has_ws (OfAttempt 0) ?t"
    by (simp_all add: ws_armed_def ws_pending_def has_ws_def)
  from q open_attempts_time_out_wv [of ?t ?w "[]" 0 ?w' "[]" None "OfAttempt 0"]
  have c: "map_option wsPromise (fb_get (OfAttempt 0) (step_wv (WsTimeout (OfAttempt 0)) ?t))
       = Some (Rejected ''WebSocket connection timeout'')"
    "getStatusText (step_wv (WsTimeout (OfAttempt 0)) ?t) = StatusError"
    "step_wv (WsTimeout (OfAttempt 0)) (step_wv (WsOpen (OfAttempt 0)) ?t)
       = step_wv (WsOpen (OfAttempt 0)) ?t"
    by blast+
  have m: "trim (broadcastId ?f) \<noteq> []"
    "new_WebSocket (pageSecure ?f)
       (getWebSocketUrl (hostname ?f) 8080 (''/signaling/viewer/'' @ broadcastId ?f))
     = Inl ''SyntaxError''"
    by (simp_all add: viewer_defs)
  from m open_attempts_time_out_wv [of ?f ?w "''SyntaxError''" 0 ?w' "[]" None "OfAttempt 0"]
  have g: "connectToStream_wv ?f =
        catch_wsError_wv (?f\<lparr>isConnecting := True, error := None, connectionType := None\<rparr>)"
    by blast
  have k: "getStatusText (connectToStream_wv ?f) = StatusError"
    "attempts (connectToStream_wv ?f) = []" "lones (connectToStream_wv ?f) = []"
    by (simp_all only: g) (simp_all add: viewer_defs)
  from a b(1) b(2) [symmetric] b(3) f c k show ?thesis by (simp del: step_wv.simps)
qed

subsection \<open>Fallback after a failed primary attempt\<close>

lemma closure_webrtc: "closure_of x = closure_of y \<Longrightarrow> webrtc x = webrtc y"
  by (simp add: closure_of_def)

lemma owner_cases:
  assumes "owner ev = Some a"
  obtains "ev = SigOpen a" | "ev = SigError a" | "ev = SigTimeout a"
    | m where "ev = SigMessage a m" | "ev = SigClose a" | st where "ev = Track a st"
    | c where "ev = LocalCandidate a c" | st where "ev = ConnectionStateChange a st"
    | "ev = WsOpen (OfAttempt a)" | "ev = WsError (OfAttempt a)"
    | "ev = WsTimeout (OfAttempt a)" | d where "ev = WsMessage (OfAttempt a) d"
    | code where "ev = WsClose (OfAttempt a) code"
  using assms by (cases ev rule: owner.cases) auto

text \<open>What rejecting a pending promise of \<open>connectWebRTC\<close> leads to.\<close>

lemma reject_connectWebRTC_wv_pending:
  assumes "a < length (attempts s)" "webrtc (attempts s ! a) = Pending"
  shows "new_WebSocket (pageSecure s) (getWebSocketUrl (hostname s) 8081
           (''/stream/'' @ trim (broadcastId_c (attempts s ! a)))) = Inr w \<Longrightarrow>
         fb_get (OfAttempt a) (reject_connectWebRTC_wv a r s)
           = Some \<lparr>ws = w, wsTimeout = Some 10000, wsPromise = Pending\<rparr>
         \<and> websocketRef (reject_connectWebRTC_wv a r s) = Some (OfAttempt a)
         \<and> isConnecting (reject_connectWebRTC_wv a r s) = isConnecting s"
    and "new_WebSocket (pageSecure s) (getWebSocketUrl (hostname s) 8081
           (''/stream/'' @ trim (broadcastId_c (attempts s ! a)))) = Inl x \<Longrightarrow>
         error (reject_connectWebRTC_wv a r s) = Some unable_wv
         \<and> \<not> isConnecting (reject_connectWebRTC_wv a r s)
         \<and> getStatusText (reject_connectWebRTC_wv a r s) = StatusError"
  using assms
  by (simp_all add: reject_connectWebRTC_wv_def connectWebSocket_wv_def catch_wsError_wv_def
      att_upd_nth fb_get_def unable_wv_def getStatusText_def truthy_def)

lemma reject_connectWebRTC_sv_pending:
  assumes "a < length (attempts s)" "webrtc (attempts s ! a) = Pending"
  shows "new_WebSocket (pageSecure s) (getWebSocketUrl (hostname s) 8081
           (''/stream/'' @ broadcastId_c (attempts s ! a))) = Inr w \<Longrightarrow>
         fb_get (OfAttempt a) (reject_connectWebRTC_sv a r s)
           = Some \<lparr>ws = w, wsTimeout = None, wsPromise = Pending\<rparr>
         \<and> websocketRef (reject_connectWebRTC_sv a r s) = Some (OfAttempt a)
         \<and> isConnecting (reject_connectWebRTC_sv a r s) = isConnecting s"
    and "new_WebSocket (pageSecure s) (getWebSocketUrl (hostname s) 8081
           (''/stream/'' @ broadcastId_c (attempts s ! a))) = Inl x \<Longrightarrow>
         error (reject_connectWebRTC_sv a r s) = Some failed_sv
         \<and> \<not> isConnecting (reject_connectWebRTC_sv a r s)
         \<and> getStatusText (reject_connectWebRTC_sv a r s) = StatusError"
  using assms
  by (simp_all add: reject_connectWebRTC_sv_def connectWebSocket_sv_def catch_wsError_sv_def
      att_upd_nth fb_get_def failed_sv_def getStatusText_def truthy_def)

text \<open>The outcome of the fallback that follows the rejection of attempt \<open>a\<close> in state
  \<open>s\<close>, as a property of the state \<open>t\<close> after it.\<close>

lemma reject_wv_from:
  assumes "a < length (attempts s')" "webrtc (attempts s' ! a) = Pending"
    and "hostname s' = hostname s" "pageSecure s' = pageSecure s"
    and "broadcastId_c (attempts s' ! a) = broadcastId_c (attempts s ! a)"
    and "isConnecting s' = isConnecting s"
  shows "new_WebSocket (pageSecure s) (getWebSocketUrl (hostname s) 8081
           (''/stream/'' @ trim (broadcastId_c (attempts s ! a)))) = Inr w \<Longrightarrow>
         fb_get (OfAttempt a) (reject_connectWebRTC_wv a r s')
           = Some \<lparr>ws = w, wsTimeout = Some 10000, wsPromise = Pending\<rparr>
         \<and> websocketRef (reject_connectWebRTC_wv a r s') = Some (OfAttempt a)
         \<and> isConnecting (reject_connectWebRTC_wv a r s') = isConnecting s"
    and "new_WebSocket (pageSecure s) (getWebSocketUrl (hostname s) 8081
           (''/stream/'' @ trim (broadcastId_c (attempts s ! a)))) = Inl x \<Longrightarrow>
         error (reject_connectWebRTC_wv a r s') = Some unable_wv
         \<and> \<not> isConnecting (reject_connectWebRTC_wv a r s')
         \<and> getStatusText (reject_connectWebRTC_wv a r s') = StatusError"
  using reject_connectWebRTC_wv_pending [OF assms(1,2)] assms(3-6) by simp_all

lemma reject_sv_from:
  assumes "a < length (attempts s')" "webrtc (attempts s' ! a) = Pending"
    and "hostname s' = hostname s" "pageSecure s' = pageSecure s"
    and "broadcastId_c (attempts s' ! a) = broadcastId_c (attempts s ! a)"
    and "isConnecting s' = isConnecting s"
  shows "new_WebSocket (pageSecure s) (getWebSocketUrl (hostname s) 8081
           (''/stream/'' @ broadcastId_c (attempts s ! a))) = Inr w \<Longrightarrow>
         fb_get (OfAttempt a) (reject_connectWebRTC_sv a r s')
           = Some \<lparr>ws = w, wsTimeout = None, wsPromise = Pending\<rparr>
         \<and> websocketRef (reject_connectWebRTC_sv a r s') = Some (OfAttempt a)
         \<and> isConnecting (reject_connectWebRTC_sv a r s') = isConnecting s"
    and "new_WebSocket (pageSecure s) (getWebSocketUrl (hostname s) 8081
           (''/stream/'' @ broadcastId_c (attempts s ! a))) = Inl x \<Longrightarrow>
         error (reject_connectWebRTC_sv a r s') = Some failed_sv
         \<and> \<not> isConnecting (reject_connectWebRTC_sv a r s')
         \<and> getStatusText (reject_connectWebRTC_sv a r s') = StatusError"
  using reject_connectWebRTC_sv_pending [OF assms(1,2)] assms(3-6) by simp_all

lemma webrtc_kept [simp]:
  "a < length (attempts s) \<Longrightarrow> webrtc (attempts (fb_upd sl f s) ! a) = webrtc (attempts s ! a)"
  "a < length (attempts s) \<Longrightarrow>
     webrtc (attempts (disconnect_wv s) ! a) = webrtc (attempts s ! a)"
  "a < length (attempts s) \<Longrightarrow>
     webrtc (attempts (disconnect_sv s) ! a) = webrtc (attempts s ! a)"
  using disconnect_wv_parts(4) [of a s] disconnect_sv_parts(4) [of a s]
  by (simp_all add: fb_upd_nth closure_of_def)

lemma webrtc_kept_ws [simp]:
  "a < length (attempts s) \<Longrightarrow>
     webrtc (attempts (reject_connectWebSocket_wv sl r s) ! a) = webrtc (attempts s ! a)"
  "a < length (attempts s) \<Longrightarrow>
     webrtc (attempts (resolve_connectWebSocket_wv sl s) ! a) = webrtc (attempts s ! a)"
  "a < length (attempts s) \<Longrightarrow>
     webrtc (attempts (reject_connectWebSocket_sv sl r s) ! a) = webrtc (attempts s ! a)"
  "a < length (attempts s) \<Longrightarrow>
     webrtc (attempts (resolve_connectWebSocket_sv sl s) ! a) = webrtc (attempts s ! a)"
  by (simp_all add: reject_connectWebSocket_wv_def resolve_connectWebSocket_wv_def
      reject_connectWebSocket_sv_def resolve_connectWebSocket_sv_def catch_wsError_wv_def
      catch_wsError_sv_def)

text \<open>Whenever an event turns the pending promise of an attempt into a rejected one, the
  handler has called \<open>reject\<close> for that attempt, in a state that differs from the one
  before the event by a cleared timer or a changed ready state at most.\<close>

lemma rejected_by_wv:
  assumes "a < length (attempts s)" "webrtc (attempts s ! a) = Pending"
    and "webrtc (attempts (step_wv ev s) ! a) = Rejected r"
  obtains r' s' where "step_wv ev s = reject_connectWebRTC_wv a r' s'"
    "a < length (attempts s')" "webrtc (attempts s' ! a) = Pending"
    "hostname s' = hostname s" "pageSecure s' = pageSecure s"
    "broadcastId_c (attempts s' ! a) = broadcastId_c (attempts s ! a)"
    "isConnecting s' = isConnecting s"
proof (cases "owner ev = Some a")
  case False
  from others_keep_closure_wv [OF assms(1) False] assms(2,3) show ?thesis
    by (simp add: closure_of_def)
next
  case True
  then show ?thesis
  proof (cases rule: owner_cases)
    case 1
    with assms show ?thesis
      by (simp add: signalingWs_onopen_wv_def set_signaling_def att_upd_nth)
  next
    case 2
    with assms that [of "''Signaling server connection failed''"
        "att_upd a (\<lambda>x. x\<lparr>connectionTimeout := None\<rparr>) (set_signaling a CLOSED s)"]
    show ?thesis
      by (simp add: signalingWs_onerror_wv_def set_signaling_def att_upd_nth)
  next
    case 3
    with assms that [of "''Signaling connection timeout''"
        "att_upd a (\<lambda>x. x\<lparr>connectionTimeout := None\<rparr>) s"]
    show ?thesis
      by (simp add: connectionTimeout_fired_wv_def att_upd_nth split: if_splits)
  next
    case (4 m)
    show ?thesis
    proof (cases m)
      case (ErrorMsg msg)
      with 4 assms that [of "orElse msg ''Stream connection failed''" s] show ?thesis
        by (simp add: signalingWs_onmessage_wv_def)
    next
      case StreamNotFound
      with 4 assms
        that [of "''Broadcast ID not found. Please check the ID and try again.''" s]
      show ?thesis by (simp add: signalingWs_onmessage_wv_def)
    qed (use 4 assms in \<open>simp_all add: signalingWs_onmessage_wv_def att_upd_nth
          split: option.splits if_splits\<close>)
  next
    case 5
    with assms show ?thesis
      by (simp add: signalingWs_onclose_wv_def set_signaling_def att_upd_nth split: if_splits)
  next
    case (6 st)
    with assms show ?thesis
      by (simp add: ontrack_wv_def resolve_connectWebRTC_wv_def att_upd_nth
          split: option.splits if_splits)
  next
    case (7 c)
    with assms show ?thesis
      by (simp add: onicecandidate_wv_def att_upd_nth split: option.splits if_splits)
  next
    case (8 st)
    with assms show ?thesis by (cases st) (simp_all add: onconnectionstatechange_wv_def)
  next
    case 9
    with assms show ?thesis by (simp add: ws_onopen_wv_def set_ws_def split: if_splits)
  next
    case 10
    with assms show ?thesis by (simp add: ws_onerror_wv_def set_ws_def split: if_splits)
  next
    case 11
    with assms show ?thesis by (simp add: wsTimeout_fired_wv_def split: if_splits)
  next
    case (12 d)
    show ?thesis
    proof (cases d)
      case (Blob u)
      with 12 assms show ?thesis
        by (simp add: ws_onmessage_wv_def split: if_splits option.splits)
    next
      case (Text m)
      with 12 assms show ?thesis
        by (cases m) (simp_all add: ws_onmessage_wv_def split: if_splits)
    qed
  next
    case (13 code)
    with assms show ?thesis
      by (simp add: ws_onclose_wv_def set_ws_def Let_def split: if_splits)
  qed
qed

lemma rejected_by_sv:
  assumes "a < length (attempts s)" "webrtc (attempts s ! a) = Pending"
    and "webrtc (attempts (step_sv ev s) ! a) = Rejected r"
  obtains r' s' where "step_sv ev s = reject_connectWebRTC_sv a r' s'"
    "a < length (attempts s')" "webrtc (attempts s' ! a) = Pending"
    "hostname s' = hostname s" "pageSecure s' = pageSecure s"
    "broadcastId_c (attempts s' ! a) = broadcastId_c (attempts s ! a)"
    "isConnecting s' = isConnecting s"
proof (cases "owner ev = Some a")
  case False
  from others_keep_closure_sv [OF assms(1) False] assms(2,3) show ?thesis
    by (simp add: closure_of_def)
next
  case True
  then show ?thesis
  proof (cases rule: owner_cases)
    case 1
    with assms show ?thesis
      by (simp add: signalingWs_onopen_sv_def set_signaling_def att_upd_nth)
  next
    case 2
    with assms that [of "''Signaling connection failed''" "set_signaling a CLOSED s"]
    show ?thesis
      by (simp add: signalingWs_onerror_sv_def set_signaling_def att_upd_nth)
  next
    case 3
    with assms show ?thesis by simp
  next
    case (4 m)
    show ?thesis
    proof (cases m)
      case (ErrorMsg msg)
      with 4 assms that [of "orElse msg ''Stream connection failed''" s] show ?thesis
        by (simp add: signalingWs_onmessage_sv_def)
    qed (use 4 assms in \<open>simp_all add: signalingWs_onmessage_sv_def att_upd_nth
          split: option.splits if_splits\<close>)
  next
    case 5
    with assms show ?thesis by (simp add: set_signaling_def att_upd_nth)
  next
    case (6 st)
    with assms show ?thesis
      by (simp add: ontrack_sv_def resolve_connectWebRTC_sv_def att_upd_nth
          split: option.splits if_splits)
  next
    case (7 c)
    with assms show ?thesis
      by (simp add: onicecandidate_sv_def att_upd_nth split: option.splits if_splits)
  next
    case (8 st)
    with assms that [of "''WebRTC connection failed''" s] show ?thesis
      by (simp add: onconnectionstatechange_sv_def split: if_splits)
  next
    case 9
    with assms show ?thesis by (simp add: ws_onopen_sv_def set_ws_def split: if_splits)
  next
    case 10
    with assms show ?thesis by (simp add: ws_onerror_sv_def set_ws_def split: if_splits)
  next
    case 11
    with assms show ?thesis by simp
  next
    case (12 d)
    show ?thesis
    proof (cases d)
      case (Blob u)
      with 12 assms show ?thesis
        by (simp add: ws_onmessage_sv_def split: if_splits option.splits)
    next
      case (Text m)
      with 12 assms show ?thesis
        by (cases m) (simp_all add: ws_onmessage_sv_def split: if_splits)
    qed
  next
    case (13 code)
    with assms show ?thesis by (simp add: ws_onclose_sv_def set_ws_def split: if_splits)
  qed
qed

lemma primary_rejected_wv:
  assumes "a < length (attempts s)" "webrtc (attempts s ! a) = Pending"
    and "webrtc (attempts (step_wv ev s) ! a) = Rejected r"
  shows "new_WebSocket (pageSecure s) (getWebSocketUrl (hostname s) 8081
           (''/stream/'' @ trim (broadcastId_c (attempts s ! a)))) = Inr w \<Longrightarrow>
         fb_get (OfAttempt a) (step_wv ev s)
           = Some \<lparr>ws = w, wsTimeout = Some 10000, wsPromise = Pending\<rparr>
         \<and> websocketRef (step_wv ev s) = Some (OfAttempt a)
         \<and> isConnecting (step_wv ev s) = isConnecting s"
    and "new_WebSocket (pageSecure s) (getWebSocketUrl (hostname s) 8081
           (''/stream/'' @ trim (broadcastId_c (attempts s ! a)))) = Inl x \<Longrightarrow>
         error (step_wv ev s) = Some unable_wv
         \<and> \<not> isConnecting (step_wv ev s)
         \<and> getStatusText (step_wv ev s) = StatusError"
proof -
  from assms obtain r' s' where e: "step_wv ev s = reject_connectWebRTC_wv a r' s'"
    and h: "a < length (attempts s')" "webrtc (attempts s' ! a) = Pending"
    "hostname s' = hostname s" "pageSecure s' = pageSecure s"
    "broadcastId_c (attempts s' ! a) = broadcastId_c (attempts s ! a)"
    "isConnecting s' = isConnecting s"
    by (rule rejected_by_wv)
  note t = reject_wv_from [OF h]
  show "new_WebSocket (pageSecure s) (getWebSocketUrl (hostname s) 8081
           (''/stream/'' @ trim (broadcastId_c (attempts s ! a)))) = Inr w \<Longrightarrow>
         fb_get (OfAttempt a) (step_wv ev s)
           = Some \<lparr>ws = w, wsTimeout = Some 10000, wsPromise = Pending\<rparr>
         \<and> websocketRef (step_wv ev s) = Some (OfAttempt a)
         \<and> isConnecting (step_wv ev s) = isConnecting s"
    by (simp only: e) (rule t)
  show "new_WebSocket (pageSecure s) (getWebSocketUrl (hostname s) 8081
           (''/stream/'' @ trim (broadcastId_c (attempts s ! a)))) = Inl x \<Longrightarrow>
         error (step_wv ev s) = Some unable_wv
         \<and> \<not> isConnecting (step_wv ev s)
         \<and> getStatusText (step_wv ev s) = StatusError"
    by (simp only: e) (rule t)
qed

lemma primary_rejected_sv:
  assumes "a < length (attempts s)" "webrtc (attempts s ! a) = Pending"
    and "webrtc (attempts (step_sv ev s) ! a) = Rejected r"
  shows "new_WebSocket (pageSecure s) (getWebSocketUrl (hostname s) 8081
           (''/stream/'' @ broadcastId_c (attempts s ! a))) = Inr w \<Longrightarrow>
         fb_get (OfAttempt a) (step_sv ev s)
           = Some \<lparr>ws = w, wsTimeout = None, wsPromise = Pending\<rparr>
         \<and> websocketRef (step_sv ev s) = Some (OfAttempt a)
         \<and> isConnecting (step_sv ev s) = isConnecting s"
    and "new_WebSocket (pageSecure s) (getWebSocketUrl (hostname s) 8081
           (''/stream/'' @ broadcastId_c (attempts s ! a))) = Inl x \<Longrightarrow>
         error (step_sv ev s) = Some failed_sv
         \<and> \<not> isConnecting (step_sv ev s)
         \<and> getStatusText (step_sv ev s) = StatusError"
proof -
  from assms obtain r' s' where e: "step_sv ev s = reject_connectWebRTC_sv a r' s'"
    and h: "a < length (attempts s')" "webrtc (attempts s' ! a) = Pending"
    "hostname s' = hostname s" "pageSecure s' = pageSecure s"
    "broadcastId_c (attempts s' ! a) = broadcastId_c (attempts s ! a)"
    "isConnecting s' = isConnecting s"
    by (rule rejected_by_sv)
  note t = reject_sv_from [OF h]
  show "new_WebSocket (pageSecure s) (getWebSocketUrl (hostname s) 8081
           (''/stream/'' @ broadcastId_c (attempts s ! a))) = Inr w \<Longrightarrow>
         fb_get (OfAttempt a) (step_sv ev s)
           = Some \<lparr>ws = w, wsTimeout = None, wsPromise = Pending\<rparr>
         \<and> websocketRef (step_sv ev s) = Some (OfAttempt a)
         \<and> isConnecting (step_sv ev s) = isConnecting s"
    by (simp only: e) (rule t)
  show "new_WebSocket (pageSecure s) (getWebSocketUrl (hostname s) 8081
           (''/stream/'' @ broadcastId_c (attempts s ! a))) = Inl x \<Longrightarrow>
         error (step_sv ev s) = Some failed_sv
         \<and> \<not> isConnecting (step_sv ev s)
         \<and> getStatusText (step_sv ev s) = StatusError"
    by (simp only: e) (rule t)
qed

text \<open>Whenever an event turns the pending promise of \<open>connectWebSocket\<close> into a rejected
  one, the second \<open>catch\<close> of \<open>connectToStream\<close> has run.\<close>

lemma reject_connectWebSocket_result:
  assumes "ws_pending sl s"
  shows "error (reject_connectWebSocket_wv sl r s) = Some unable_wv
       \<and> \<not> isConnecting (reject_connectWebSocket_wv sl r s)
       \<and> getStatusText (reject_connectWebSocket_wv sl r s) = StatusError"
    and "error (reject_connectWebSocket_sv sl r s) = Some failed_sv
       \<and> \<not> isConnecting (reject_connectWebSocket_sv sl r s)
       \<and> getStatusText (reject_connectWebSocket_sv sl r s) = StatusError"
  using assms
  by (simp_all add: reject_connectWebSocket_wv_def reject_connectWebSocket_sv_def
      catch_wsError_wv_def catch_wsError_sv_def unable_wv_def failed_sv_def getStatusText_def
      truthy_def)

lemma ws_slot_cases:
  assumes "ws_slot ev = Some sl"
  obtains "ev = WsOpen sl" | "ev = WsError sl" | "ev = WsTimeout sl"
    | d where "ev = WsMessage sl d" | code where "ev = WsClose sl code"
  using assms by (cases ev) auto

lemma not_pending: "ws_pending sl s \<Longrightarrow> map_option wsPromise (fb_get sl s) \<noteq> Some (Rejected r)"
  by (auto simp add: ws_pending_def)

lemma fallback_rejected_wv:
  assumes "ws_pending sl s"
    and "map_option wsPromise (fb_get sl (step_wv ev s)) = Some (Rejected r)"
  shows "error (step_wv ev s) = Some unable_wv \<and> \<not> isConnecting (step_wv ev s)
       \<and> getStatusText (step_wv ev s) = StatusError"
proof (cases "ws_slot ev = Some sl")
  case False
  from others_keep_pending_wv [OF assms(1) False] assms(2) show ?thesis
    by (simp add: ws_pending_def)
next
  case True
  from assms(1) have h: "has_ws sl s" by (auto simp add: ws_pending_def has_ws_def)
  from True show ?thesis
  proof (cases rule: ws_slot_cases)
    case 1
    with assms h show ?thesis
      by (simp add: ws_onopen_wv_def set_ws_def resolve_connectWebSocket_wv_def
          ws_pending_fb_upd fb_get_upd option.map_comp comp_def ws_pending_def)
  next
    case 2
    have "ws_pending sl (fb_upd sl (\<lambda>f. f\<lparr>wsTimeout := None\<rparr>) (set_ws sl CLOSED s))"
      using assms(1) by (simp add: set_ws_def ws_pending_fb_upd)
    from reject_connectWebSocket_result(1) [OF this] 2 h show ?thesis
      by (simp add: ws_onerror_wv_def)
  next
    case 3
    have p: "ws_pending sl (fb_upd sl (\<lambda>f. f\<lparr>wsTimeout := None\<rparr>) s)"
      using assms(1) by (simp add: ws_pending_fb_upd)
    show ?thesis
    proof (cases "ws_armed sl s")
      case True
      with reject_connectWebSocket_result(1) [OF p] 3 show ?thesis
        by (simp add: wsTimeout_fired_wv_def)
    next
      case False
      with 3 assms(2) not_pending [OF assms(1), of r] show ?thesis by auto
    qed
  next
    case (4 d)
    show ?thesis
    proof (cases d)
      case (Blob u)
      have "\<And>v. ws_pending sl (s\<lparr>videoRef := v\<rparr>)" using assms(1) by simp
      from this [THEN not_pending, of _ r] not_pending [OF assms(1), of r] 4 Blob h assms(2)
      show ?thesis by (auto simp add: ws_onmessage_wv_def split: option.splits)
    next
      case (Text m)
      show ?thesis
      proof (cases m)
        case (ErrorMsg msg)
        have "ws_pending sl (s\<lparr>error := msg\<rparr>)" using assms(1) by simp
        from reject_connectWebSocket_result(1) [OF this] 4 Text ErrorMsg h show ?thesis
          by (simp add: ws_onmessage_wv_def)
      next
        case StreamEnded
        have "ws_pending sl (disconnect_wv (s\<lparr>error := Some ''Stream has ended''\<rparr>))"
          using assms(1) by (simp add: ws_pending_disconnect)
        from not_pending [OF this, of r] 4 Text StreamEnded h assms(2) show ?thesis
          by (auto simp add: ws_onmessage_wv_def)
      next
        case (StreamInfo v q)
        have "ws_pending sl (s\<lparr>viewerCount := orZero v, streamQuality := orElse q ''HD''\<rparr>)"
          using assms(1) by simp
        from not_pending [OF this, of r] 4 Text StreamInfo h assms(2) show ?thesis
          by (auto simp add: ws_onmessage_wv_def)
      qed (use 4 Text h assms not_pending [OF assms(1), of r] in
            \<open>auto simp add: ws_onmessage_wv_def\<close>)
    qed
  next
    case (5 code)
    have "ws_pending sl ((set_ws sl CLOSED s)\<lparr>isConnected := False\<rparr>)"
      "ws_pending sl ((set_ws sl CLOSED s)\<lparr>isConnected := False,
          error := Some ''Connection lost''\<rparr>)"
      using assms(1) by (simp_all add: set_ws_def ws_pending_fb_upd)
    from this [THEN not_pending, of r] 5 h assms(2) show ?thesis
      by (auto simp add: ws_onclose_wv_def Let_def split: if_splits)
  qed
qed

lemma fallback_rejected_sv:
  assumes "ws_pending sl s"
    and "map_option wsPromise (fb_get sl (step_sv ev s)) = Some (Rejected r)"
  shows "error (step_sv ev s) = Some failed_sv \<and> \<not> isConnecting (step_sv ev s)
       \<and> getStatusText (step_sv ev s) = StatusError"
proof (cases "ws_slot ev = Some sl")
  case False
  from others_keep_pending_sv [OF assms(1) False] assms(2) show ?thesis
    by (simp add: ws_pending_def)
next
  case True
  from assms(1) have h: "has_ws sl s" by (auto simp add: ws_pending_def has_ws_def)
  from True show ?thesis
  proof (cases rule: ws_slot_cases)
    case 1
    with assms h show ?thesis
      by (simp add: ws_onopen_sv_def set_ws_def resolve_connectWebSocket_sv_def
          ws_pending_fb_upd fb_get_upd option.map_comp comp_def ws_pending_def)
  next
    case 2
    have "ws_pending sl (set_ws sl CLOSED s)"
      using assms(1) by (simp add: set_ws_def ws_pending_fb_upd)
    from reject_connectWebSocket_result(2) [OF this] 2 h show ?thesis
      by (simp add: ws_onerror_sv_def)
  next
    case 3
    with assms(2) not_pending [OF assms(1), of r] show ?thesis by simp
  next
    case (4 d)
    show ?thesis
    proof (cases d)
      case (Blob u)
      have "\<And>v. ws_pending sl (s\<lparr>videoRef := v\<rparr>)" using assms(1) by simp
      from this [THEN not_pending, of _ r] not_pending [OF assms(1), of r] 4 Blob h assms(2)
      show ?thesis by (auto simp add: ws_onmessage_sv_def split: option.splits)
    next
      case (Text m)
      show ?thesis
      proof (cases m)
        case (ErrorMsg msg)
        have "ws_pending sl (s\<lparr>error := msg\<rparr>)" using assms(1) by simp
        from reject_connectWebSocket_result(2) [OF this] 4 Text ErrorMsg h show ?thesis
          by (auto simp add: ws_onmessage_sv_def)
      next
        case (StreamInfo v q)
        have "ws_pending sl (s\<lparr>viewerCount := orZero v, streamQuality := orElse q ''HD''\<rparr>)"
          using assms(1) by simp
        from not_pending [OF this, of r] 4 Text StreamInfo h assms(2) show ?thesis
          by (auto simp add: ws_onmessage_sv_def)
      qed (use 4 Text h assms not_pending [OF assms(1), of r] in
            \<open>auto simp add: ws_onmessage_sv_def\<close>)
    qed
  next
    case (5 code)
    have "ws_pending sl ((set_ws sl CLOSED s)\<lparr>isConnected := False,
          error := Some ''Connection lost''\<rparr>)"
      using assms(1) by (simp add: set_ws_def ws_pending_fb_upd)
    from this [THEN not_pending, of r] 5 h assms(2) show ?thesis
      by (auto simp add: ws_onclose_sv_def)
  qed
qed

text \<open>
  Claim C1, as stated, fails: after both transports failed the status is \<open>Error\<close> but
  live transports remain. The peer connection is never closed on this path and stays in
  \<open>peerConnectionRef\<close>; after two timeouts both sockets are still connecting as well.
\<close>

theorem both_failed_leaves_transports_open:
  "getStatusText both_failed_wv = StatusError
   \<and> error both_failed_wv = Some unable_wv
   \<and> peerConnectionRef both_failed_wv = Some 0
   \<and> live_transports both_failed_wv = [PeerOf 0]
   \<and> getStatusText both_timed_out_wv = StatusError
   \<and> live_transports both_timed_out_wv = [PeerOf 0, SignalingOf 0, StreamOf (OfAttempt 0)]
   \<and> getStatusText (run_sv [Input ''A'', ClickConnect, SigError 0, WsError (OfAttempt 0)]
         viewer_init) = StatusError
   \<and> live_transports (run_sv [Input ''A'', ClickConnect, SigError 0, WsError (OfAttempt 0)]
         viewer_init) = [PeerOf 0]"
  by (simp add: example_defs viewer_defs)

text \<open>
  Claim C1, amended. For every non-blank broadcast id, \<open>connectToStream\<close> starts an
  attempt that keeps the id, unless the socket cannot be created. Whenever an event
  turns the pending promise of the primary attempt into a rejected one, a fallback socket
  is opened for the same id (trimmed of white space in \<open>WebcamViewer\<close>) and kept in
  \<open>websocketRef\<close>, and the viewer stays connecting. Whenever an event turns the pending
  promise of the fallback into a rejected one, and whenever a socket cannot be created,
  the status is \<open>Error\<close> with the viewer's message and the viewer no longer connects.
\<close>

theorem fallback_after_primary_failure:
  "(trim (broadcastId s) \<noteq> []
      \<and> new_WebSocket (pageSecure s)
           (getWebSocketUrl (hostname s) 8080 (''/signaling/viewer/'' @ broadcastId s)) = Inr w \<longrightarrow>
      attempts (connectToStream_wv s) = attempts s @
        [\<lparr>broadcastId_c = broadcastId s, isConnected_c = isConnected s, signalingWs = w,
          connectionTimeout = Some 10000, peerConnection = new_RTCPeerConnection,
          webrtc = Pending, fallback = None\<rparr>]
      \<and> isConnecting (connectToStream_wv s) \<and> error (connectToStream_wv s) = None)
   \<and> (trim (broadcastId s) \<noteq> []
      \<and> new_WebSocket (pageSecure s)
           (getWebSocketUrl (hostname s) 8080 (''/signaling/viewer/'' @ broadcastId s)) = Inl x \<longrightarrow>
      attempts (connectToStream_wv s) = attempts s \<and> lones (connectToStream_wv s) = lones s
      \<and> error (connectToStream_wv s) = Some unable_wv \<and> \<not> isConnecting (connectToStream_wv s)
      \<and> getStatusText (connectToStream_wv s) = StatusError)
   \<and> (a < length (attempts s) \<and> webrtc (attempts s ! a) = Pending
      \<and> webrtc (attempts (step_wv ev s) ! a) = Rejected r
      \<and> new_WebSocket (pageSecure s) (getWebSocketUrl (hostname s) 8081
           (''/stream/'' @ trim (broadcastId_c (attempts s ! a)))) = Inr w' \<longrightarrow>
      fb_get (OfAttempt a) (step_wv ev s)
        = Some \<lparr>ws = w', wsTimeout = Some 10000, wsPromise = Pending\<rparr>
      \<and> url w' = getWebSocketUrl (hostname s) 8081 (''/stream/'' @ trim (broadcastId_c (attempts s ! a)))
      \<and> websocketRef (step_wv ev s) = Some (OfAttempt a)
      \<and> isConnecting (step_wv ev s) = isConnecting s)
   \<and> (a < length (attempts s) \<and> webrtc (attempts s ! a) = Pending
      \<and> webrtc (attempts (step_wv ev s) ! a) = Rejected r
      \<and> new_WebSocket (pageSecure s) (getWebSocketUrl (hostname s) 8081
           (''/stream/'' @ trim (broadcastId_c (attempts s ! a)))) = Inl x \<longrightarrow>
      error (step_wv ev s) = Some unable_wv \<and> \<not> isConnecting (step_wv ev s)
      \<and> getStatusText (step_wv ev s) = StatusError)
   \<and> (ws_pending sl s
      \<and> map_option wsPromise (fb_get sl (step_wv ev s)) = Some (Rejected r) \<longrightarrow>
      error (step_wv ev s) = Some unable_wv \<and> \<not> isConnecting (step_wv ev s)
      \<and> getStatusText (step_wv ev s) = StatusError)
   \<and> (trim (broadcastId s) \<noteq> []
      \<and> new_WebSocket (pageSecure s)
           (getWebSocketUrl (hostname s) 8080 (''/signaling/viewer/'' @ broadcastId s)) = Inr w \<longrightarrow>
      attempts (connectToStream_sv s) = attempts s @
        [\<lparr>broadcastId_c = broadcastId s, isConnected_c = isConnected s, signalingWs = w,
          connectionTimeout = None, peerConnection = new_RTCPeerConnection,
          webrtc = Pending, fallback = None\<rparr>]
      \<and> isConnecting (connectToStream_sv s) \<and> error (connectToStream_sv s) = None)
   \<and> (trim (broadcastId s) \<noteq> []
      \<and> new_WebSocket (pageSecure s)
           (getWebSocketUrl (hostname s) 8080 (''/signaling/viewer/'' @ broadcastId s)) = Inl x \<longrightarrow>
      attempts (connectToStream_sv s) = attempts s \<and> lones (connectToStream_sv s) = lones s
      \<and> error (connectToStream_sv s) = Some failed_sv \<and> \<not> isConnecting (connectToStream_sv s)
      \<and> getStatusText (connectToStream_sv s) = StatusError)
   \<and> (a < length (attempts s) \<and> webrtc (attempts s ! a) = Pending
      \<and> webrtc (attempts (step_sv ev s) ! a) = Rejected r
      \<and> new_WebSocket (pageSecure s) (getWebSocketUrl (hostname s) 8081
           (''/stream/'' @ broadcastId_c (attempts s ! a))) = Inr w' \<longrightarrow>
      fb_get (OfAttempt a) (step_sv ev s)
        = Some \<lparr>ws = w', wsTimeout = None, wsPromise = Pending\<rparr>
      \<and> url w' = getWebSocketUrl (hostname s) 8081 (''/stream/'' @ broadcastId_c (attempts s ! a))
      \<and> websocketRef (step_sv ev s) = Some (OfAttempt a)
      \<and> isConnecting (step_sv ev s) = isConnecting s)
   \<and> (a < length (attempts s) \<and> webrtc (attempts s ! a) = Pending
      \<and> webrtc (attempts (step_sv ev s) ! a) = Rejected r
      \<and> new_WebSocket (pageSecure s) (getWebSocketUrl (hostname s) 8081
           (''/stream/'' @ broadcastId_c (attempts s ! a))) = Inl x \<longrightarrow>
      error (step_sv ev s) = Some failed_sv \<and> \<not> isConnecting (step_sv ev s)
      \<and> getStatusText (step_sv ev s) = StatusError)
   \<and> (ws_pending sl s
      \<and> map_option wsPromise (fb_get sl (step_sv ev s)) = Some (Rejected r) \<longrightarrow>
      error (step_sv ev s) = Some failed_sv \<and> \<not> isConnecting (step_sv ev s)
      \<and> getStatusText (step_sv ev s) = StatusError)"
proof (intro conjI impI; (elim conjE)?)
  assume h: "a < length (attempts s)" "webrtc (attempts s ! a) = Pending"
    "webrtc (attempts (step_wv ev s) ! a) = Rejected r"
    and n: "new_WebSocket (pageSecure s) (getWebSocketUrl (hostname s) 8081
           (''/stream/'' @ trim (broadcastId_c (attempts s ! a)))) = Inr w'"
  note t = primary_rejected_wv(1) [OF h n]
  from t show "fb_get (OfAttempt a) (step_wv ev s)
        = Some \<lparr>ws = w', wsTimeout = Some 10000, wsPromise = Pending\<rparr>" by (rule conjunct1)
  from n show "url w' = getWebSocketUrl (hostname s) 8081
      (''/stream/'' @ trim (broadcastId_c (attempts s ! a)))" by (rule new_WebSocket_url)
  from t show "websocketRef (step_wv ev s) = Some (OfAttempt a)" by blast
  from t show "isConnecting (step_wv ev s) = isConnecting s" by blast
next
  assume h: "a < length (attempts s)" "webrtc (attempts s ! a) = Pending"
    "webrtc (attempts (step_wv ev s) ! a) = Rejected r"
    and n: "new_WebSocket (pageSecure s) (getWebSocketUrl (hostname s) 8081
           (''/stream/'' @ trim (broadcastId_c (attempts s ! a)))) = Inl x"
  note t = primary_rejected_wv(2) [OF h n]
  from t show "error (step_wv ev s) = Some unable_wv" by blast
  from t show "\<not> isConnecting (step_wv ev s)" by blast
  from t show "getStatusText (step_wv ev s) = StatusError" by blast
next
  assume h: "ws_pending sl s"
    "map_option wsPromise (fb_get sl (step_wv ev s)) = Some (Rejected r)"
  note t = fallback_rejected_wv [OF h]
  from t show "error (step_wv ev s) = Some unable_wv" by blast
  from t show "\<not> isConnecting (step_wv ev s)" by blast
  from t show "getStatusText (step_wv ev s) = StatusError" by blast
next
  assume h: "a < length (attempts s)" "webrtc (attempts s ! a) = Pending"
    "webrtc (attempts (step_sv ev s) ! a) = Rejected r"
    and n: "new_WebSocket (pageSecure s) (getWebSocketUrl (hostname s) 8081
           (''/stream/'' @ broadcastId_c (attempts s ! a))) = Inr w'"
  note t = primary_rejected_sv(1) [OF h n]
  from t show "fb_get (OfAttempt a) (step_sv ev s)
        = Some \<lparr>ws = w', wsTimeout = None, wsPromise = Pending\<rparr>" by (rule conjunct1)
  from n show "url w' = getWebSocketUrl (hostname s) 8081
      (''/stream/'' @ broadcastId_c (attempts s ! a))" by (rule new_WebSocket_url)
  from t show "websocketRef (step_sv ev s) = Some (OfAttempt a)" by blast
  from t show "isConnecting (step_sv ev s) = isConnecting s" by blast
next
  assume h: "a < length (attempts s)" "webrtc (attempts s ! a) = Pending"
    "webrtc (attempts (step_sv ev s) ! a) = Rejected r"
    and n: "new_WebSocket (pageSecure s) (getWebSocketUrl (hostname s) 8081
           (''/stream/'' @ broadcastId_c (attempts s ! a))) = Inl x"
  note t = primary_rejected_sv(2) [OF h n]
  from t show "error (step_sv ev s) = Some failed_sv" by blast
  from t show "\<not> isConnecting (step_sv ev s)" by blast
  from t show "getStatusText (step_sv ev s) = StatusError" by blast
next
  assume h: "ws_pending sl s"
    "map_option wsPromise (fb_get sl (step_sv ev s)) = Some (Rejected r)"
  note t = fallback_rejected_sv [OF h]
  from t show "error (step_sv ev s) = Some failed_sv" by blast
  from t show "\<not> isConnecting (step_sv ev s)" by blast
  from t show "getStatusText (step_sv ev s) = StatusError" by blast
next
  assume h: "trim (broadcastId s) \<noteq> []"
    "new_WebSocket (pageSecure s)
       (getWebSocketUrl (hostname s) 8080 (''/signaling/viewer/'' @ broadcastId s)) = Inr w"
  note t = connect_ok_wv [OF h] connect_ok_sv [OF h]
  from t(1) show "attempts (connectToStream_wv s) = attempts s @
        [\<lparr>broadcastId_c = broadcastId s, isConnected_c = isConnected s, signalingWs = w,
          connectionTimeout = Some 10000, peerConnection = new_RTCPeerConnection,
          webrtc = Pending, fallback = None\<rparr>]" by (rule conjunct1)
  from t(1) show "isConnecting (connectToStream_wv s)" by blast
  from t(1) show "error (connectToStream_wv s) = None" by blast
  from t(2) show "attempts (connectToStream_sv s) = attempts s @
        [\<lparr>broadcastId_c = broadcastId s, isConnected_c = isConnected s, signalingWs = w,
          connectionTimeout = None, peerConnection = new_RTCPeerConnection,
          webrtc = Pending, fallback = None\<rparr>]" by (rule conjunct1)
  from t(2) show "isConnecting (connectToStream_sv s)" by blast
  from t(2) show "error (connectToStream_sv s) = None" by blast
next
  assume h: "trim (broadcastId s) \<noteq> []"
    "new_WebSocket (pageSecure s)
       (getWebSocketUrl (hostname s) 8080 (''/signaling/viewer/'' @ broadcastId s)) = Inl x"
  note t = connect_throws_status [OF h]
  from t(1) show "attempts (connectToStream_wv s) = attempts s" by blast
  from t(1) show "lones (connectToStream_wv s) = lones s" by blast
  from t(1) show "error (connectToStream_wv s) = Some unable_wv" by blast
  from t(1) show "\<not> isConnecting (connectToStream_wv s)" by blast
  from t(1) show "getStatusText (connectToStream_wv s) = StatusError" by blast
  from t(2) show "attempts (connectToStream_sv s) = attempts s" by blast
  from t(2) show "lones (connectToStream_sv s) = lones s" by blast
  from t(2) show "error (connectToStream_sv s) = Some failed_sv" by blast
  from t(2) show "\<not> isConnecting (connectToStream_sv s)" by blast
  from t(2) show "getStatusText (connectToStream_sv s) = StatusError" by blast
qed

text \<open>An id entered with spaces around it: the signaling address keeps them, the stream
  address of \<open>WebcamViewer\<close> does not. A timeout in \<open>WebcamViewer\<close> and a failed peer
  connection in \<open>StreamViewer\<close> start the fallback, an error of its socket ends in the
  error status; so does at once an id for which the constructor throws.\<close>

theorem fallback_after_primary_failure_witness:
  "attempts (connectToStream_wv entered) =
     [\<lparr>broadcastId_c = '' A '', isConnected_c = False,
       signalingWs = \<lparr>url = ''ws://app--8080--local.webcontainer.io/signaling/viewer/ A '',
                       readyState = CONNECTING, sent = []\<rparr>,
       connectionTimeout = Some 10000, peerConnection = new_RTCPeerConnection,
       webrtc = Pending, fallback = None\<rparr>]
   \<and> webrtc (attempts (step_wv (SigTimeout 0) (connectToStream_wv entered)) ! 0)
       = Rejected ''Signaling connection timeout''
   \<and> fb_get (OfAttempt 0) (step_wv (SigTimeout 0) (connectToStream_wv entered))
       = Some \<lparr>ws = \<lparr>url = ''ws://app--8081--local.webcontainer.io/stream/A'',
                       readyState = CONNECTING, sent = []\<rparr>,
               wsTimeout = Some 10000, wsPromise = Pending\<rparr>
   \<and> isConnecting (step_wv (SigTimeout 0) (connectToStream_wv entered))
   \<and> map_option wsPromise (fb_get (OfAttempt 0)
         (step_wv (WsError (OfAttempt 0)) (step_wv (SigTimeout 0) (connectToStream_wv entered))))
       = Some (Rejected ''WebSocket connection failed'')
   \<and> getStatusText (step_wv (WsError (OfAttempt 0))
         (step_wv (SigTimeout 0) (connectToStream_wv entered))) = StatusError
   \<and> webrtc (attempts (step_sv (ConnectionStateChange 0 PcFailed)
         (connectToStream_sv entered)) ! 0) = Rejected ''WebRTC connection failed''
   \<and> fb_get (OfAttempt 0) (step_sv (ConnectionStateChange 0 PcFailed)
         (connectToStream_sv entered))
       = Some \<lparr>ws = \<lparr>url = ''ws://app--8081--local.webcontainer.io/stream/ A '',
                       readyState = CONNECTING, sent = []\<rparr>,
               wsTimeout = None, wsPromise = Pending\<rparr>
   \<and> error (step_sv (WsError (OfAttempt 0)) (step_sv (ConnectionStateChange 0 PcFailed)
         (connectToStream_sv entered))) = Some failed_sv
   \<and> getStatusText (connectToStream_wv (setBroadcastId ''A#B'' viewer_init)) = StatusError
   \<and> attempts (connectToStream_wv (setBroadcastId ''A#B'' viewer_init)) = []
   \<and> getStatusText (connectToStream_sv (setBroadcastId ''A#B'' viewer_init)) = StatusError"
proof -
  let ?cw = "connectToStream_wv entered"
  let ?cs = "connectToStream_sv entered"
  let ?tw = "step_wv (SigTimeout 0) ?cw"
  let ?ts = "step_sv (ConnectionStateChange 0 PcFailed) ?cs"
  let ?f = "setBroadcastId ''A#B'' viewer_init"
  let ?w = "\<lparr>url = ''ws://app--8080--local.webcontainer.io/signaling/viewer/ A '',
            readyState = CONNECTING, sent = []\<rparr>"
  let ?ww = "\<lparr>url = ''ws://app--8081--local.webcontainer.io/stream/A'',
            readyState = CONNECTING, sent = []\<rparr>"
  let ?ws = "\<lparr>url = ''ws://app--8081--local.webcontainer.io/stream/ A '',
            readyState = CONNECTING, sent = []\<rparr>"
  note T = fallback_after_primary_failure
  have n: "trim (broadcastId entered) \<noteq> []"
    "new_WebSocket (pageSecure entered)
       (getWebSocketUrl (hostname entered) 8080 (''/signaling/viewer/'' @ broadcastId entered))
     = Inr ?w"
    by (simp_all add: example_defs viewer_defs)
  have e: "attempts entered = []" "broadcastId entered = '' A ''" "isConnected entered = False"
    by (simp_all add: example_defs viewer_defs)
  note E = T [where s = entered and w = ?w and x = "[]" and a = 0 and ev = "SigTimeout 0"
      and r = "[]" and w' = ?ww and sl = "OfAttempt 0"]
  from n E [THEN conjunct1] E [THEN conjunct2, THEN conjunct2, THEN conjunct2, THEN conjunct2, THEN conjunct2, THEN conjunct1]
  have "attempts ?cw = attempts entered @
        [\<lparr>broadcastId_c = broadcastId entered, isConnected_c = isConnected entered,
          signalingWs = ?w, connectionTimeout = Some 10000,
          peerConnection = new_RTCPeerConnection, webrtc = Pending, fallback = None\<rparr>]"
    "attempts ?cs = attempts entered @
        [\<lparr>broadcastId_c = broadcastId entered, isConnected_c = isConnected entered,
          signalingWs = ?w, connectionTimeout = None,
          peerConnection = new_RTCPeerConnection, webrtc = Pending, fallback = None\<rparr>]"
    "isConnecting ?cw" "isConnecting ?cs"
    by blast+
  with e have a: "attempts ?cw =
        [\<lparr>broadcastId_c = '' A '', isConnected_c = False,
          signalingWs = ?w, connectionTimeout = Some 10000,
          peerConnection = new_RTCPeerConnection, webrtc = Pending, fallback = None\<rparr>]"
    "attempts ?cs =
        [\<lparr>broadcastId_c = '' A '', isConnected_c = False,
          signalingWs = ?w, connectionTimeout = None,
          peerConnection = new_RTCPeerConnection, webrtc = Pending, fallback = None\<rparr>]"
    "isConnecting ?cw" "isConnecting ?cs"
    by simp_all
  have h: "hostname ?cw = ''app--5173--local.webcontainer.io''" "pageSecure ?cw = False"
    "hostname ?cs = ''app--5173--local.webcontainer.io''" "pageSecure ?cs = False"
    by (simp_all add: example_defs viewer_defs)
  have rw: "webrtc (attempts ?tw ! 0) = Rejected ''Signaling connection timeout''"
    by (simp add: a connectionTimeout_fired_wv_def reject_connectWebRTC_wv_def
      connectWebSocket_wv_def catch_wsError_wv_def att_upd_def split: sum.splits)
  have rs: "webrtc (attempts ?ts ! 0) = Rejected ''WebRTC connection failed''"
    by (simp add: a onconnectionstatechange_sv_def reject_connectWebRTC_sv_def
      connectWebSocket_sv_def catch_wsError_sv_def att_upd_def split: sum.splits)
  from a h have pw: "0 < length (attempts ?cw)" "webrtc (attempts ?cw ! 0) = Pending"
    "new_WebSocket (pageSecure ?cw)
       (getWebSocketUrl (hostname ?cw) 8081 (''/stream/'' @ trim (broadcastId_c (attempts ?cw ! 0))))
     = Inr ?ww"
    by (simp_all add: new_WebSocket_def getWebSocketUrl_init show_nat_ports trim_def
        isWhiteSpace_def)
  from a h have ps: "0 < length (attempts ?cs)" "webrtc (attempts ?cs ! 0) = Pending"
    "new_WebSocket (pageSecure ?cs)
       (getWebSocketUrl (hostname ?cs) 8081 (''/stream/'' @ broadcastId_c (attempts ?cs ! 0)))
     = Inr ?ws"
    by (simp_all add: new_WebSocket_def getWebSocketUrl_init show_nat_ports)
  from pw rw T [where s = ?cw and w = ?w and x = "[]" and a = 0 and ev = "SigTimeout 0"
      and r = "''Signaling connection timeout''" and w' = ?ww and sl = "OfAttempt 0", THEN conjunct2, THEN conjunct2, THEN conjunct1]
  have fw: "fb_get (OfAttempt 0) ?tw
       = Some \<lparr>ws = ?ww, wsTimeout = Some 10000, wsPromise = Pending\<rparr>"
    "isConnecting ?tw = isConnecting ?cw"
    by blast+
  from ps rs T [where s = ?cs and w = ?w and x = "[]" and a = 0
      and ev = "ConnectionStateChange 0 PcFailed"
      and r = "''WebRTC connection failed''" and w' = ?ws and sl = "OfAttempt 0", THEN conjunct2, THEN conjunct2, THEN conjunct2, THEN conjunct2, THEN conjunct2, THEN conjunct2, THEN conjunct2, THEN conjunct1]
  have fs: "fb_get (OfAttempt 0) ?ts
       = Some \<lparr>ws = ?ws, wsTimeout = None, wsPromise = Pending\<rparr>"
    by blast
  from fw fs have q: "ws_pending (OfAttempt 0) ?tw" "ws_pending (OfAttempt 0) ?ts"
    by (simp_all add: ws_pending_def)
  have xw: "map_option wsPromise (fb_get (OfAttempt 0) (step_wv (WsError (OfAttempt 0)) ?tw))
       = Some (Rejected ''WebSocket connection failed'')"
    using fw(1) q(1)
    by (simp add: has_ws_def ws_onerror_wv_def set_ws_def reject_connectWebSocket_wv_def
        catch_wsError_wv_def ws_pending_fb_upd fb_get_upd del: step_wv.simps(6)
        add: step_wv.simps(10))
  have xs: "map_option wsPromise (fb_get (OfAttempt 0) (step_sv (WsError (OfAttempt 0)) ?ts))
       = Some (Rejected ''WebSocket connection failed'')"
    using fs q(2)
    by (simp add: has_ws_def ws_onerror_sv_def set_ws_def reject_connectWebSocket_sv_def
        catch_wsError_sv_def ws_pending_fb_upd fb_get_upd)
  from q(1) xw T [where s = ?tw and w = ?w and x = "[]" and a = 0
      and ev = "WsError (OfAttempt 0)"
      and r = "''WebSocket connection failed''" and w' = ?ww and sl = "OfAttempt 0", THEN conjunct2, THEN conjunct2, THEN conjunct2, THEN conjunct2, THEN conjunct1]
  have yw: "getStatusText (step_wv (WsError (OfAttempt 0)) ?tw) = StatusError" by blast
  from q(2) xs T [where s = ?ts and w = ?w and x = "[]" and a = 0
      and ev = "WsError (OfAttempt 0)"
      and r = "''WebSocket connection failed''" and w' = ?ws and sl = "OfAttempt 0", THEN conjunct2, THEN conjunct2, THEN conjunct2, THEN conjunct2, THEN conjunct2, THEN conjunct2, THEN conjunct2, THEN conjunct2, THEN conjunct2]
  have ys: "error (step_sv (WsError (OfAttempt 0)) ?ts) = Some failed_sv" by blast
  have m: "trim (broadcastId ?f) \<noteq> []"
    "new_WebSocket (pageSecure ?f)
       (getWebSocketUrl (hostname ?f) 8080 (''/signaling/viewer/'' @ broadcastId ?f))
     = Inl ''SyntaxError''" "attempts ?f = []"
    by (simp_all add: viewer_defs)
  note F = T [where s = ?f and w = ?w and x = "''SyntaxError''" and a = 0
      and ev = "SigTimeout 0" and r = "[]" and w' = ?ww and sl = "OfAttempt 0"]
  from m(1,2) F [THEN conjunct2, THEN conjunct1] F [THEN conjunct2, THEN conjunct2, THEN conjunct2, THEN conjunct2, THEN conjunct2, THEN conjunct2, THEN conjunct1]
  have "getStatusText (connectToStream_wv ?f) = StatusError"
    "attempts (connectToStream_wv ?f) = attempts ?f"
    "getStatusText (connectToStream_sv ?f) = StatusError"
    by blast+
  with m(3) have z: "getStatusText (connectToStream_wv ?f) = StatusError"
    "attempts (connectToStream_wv ?f) = []"
    "getStatusText (connectToStream_sv ?f) = StatusError"
    by simp_all
  from a(1) rw fw a(3) xw yw rs fs ys z show ?thesis
    by (simp del: step_wv.simps step_sv.simps)
qed

subsection \<open>Re-entrant connects\<close>

text \<open>
  Claim C7 on \<open>WebcamViewer\<close>, connected over the peer connection for the id \<open>A\<close>. The
  id input stays enabled while connected and its enter key tests only that the viewer
  is not connecting: pressing it calls \<open>connectToStream\<close> again, and a second
  negotiation runs beside the live transports of the first. The connect button is not
  shown in that state and a click on it does nothing. The retry button of the error
  panel calls \<open>connectToStream\<close> without any test of the state: after a failed peer
  connection state during the negotiation the panel shows while the viewer is still
  connecting, and the button starts a second negotiation while the first is pending.
\<close>

theorem concurrent_negotiations_wv:
  "getStatusText webrtc_connected_wv = StatusConnected
   \<and> live_transports webrtc_connected_wv = [PeerOf 0, SignalingOf 0]
   \<and> step_wv ClickConnect webrtc_connected_wv = webrtc_connected_wv
   \<and> map webrtc (attempts (step_wv KeyEnter webrtc_connected_wv)) = [Fulfilled, Pending]
   \<and> isConnecting (step_wv KeyEnter webrtc_connected_wv)
   \<and> isConnected (step_wv KeyEnter webrtc_connected_wv)
   \<and> live_transports (step_wv KeyEnter webrtc_connected_wv)
       = [PeerOf 0, SignalingOf 0, PeerOf 1, SignalingOf 1]
   \<and> map webrtc (attempts ice_failed_wv) = [Pending]
   \<and> isConnecting ice_failed_wv
   \<and> getStatusText ice_failed_wv = StatusError
   \<and> step_wv ClickConnect ice_failed_wv = ice_failed_wv
   \<and> step_wv KeyEnter ice_failed_wv = ice_failed_wv
   \<and> map webrtc (attempts (step_wv ClickTryAgain ice_failed_wv)) = [Pending, Pending]
   \<and> live_transports (step_wv ClickTryAgain ice_failed_wv)
       = [PeerOf 0, SignalingOf 0, PeerOf 1, SignalingOf 1]"
  by (simp add: example_defs viewer_defs)

subsection \<open>Events of a superseded attempt\<close>

lemma const_map: "map_option (\<lambda>_. c) fo = (if fo = None then None else Some c)"
  by (cases fo) simp_all

lemma slot_alt:
  "has_ws (OfAttempt a) s \<longleftrightarrow> a < length (attempts s) \<and> fallback (attempts s ! a) \<noteq> None"
  "ws_pending (OfAttempt a) s \<longleftrightarrow>
     a < length (attempts s) \<and> map_option wsPromise (fallback (attempts s ! a)) = Some Pending"
  "ws_armed (OfAttempt a) s \<longleftrightarrow>
     a < length (attempts s) \<and>
     map_option wsTimeout (fallback (attempts s ! a)) \<noteq> None \<and>
     map_option wsTimeout (fallback (attempts s ! a)) \<noteq> Some None"
  by (auto simp add: has_ws_def ws_pending_def ws_armed_def fb_get_def split: option.splits)

lemma disconnect_same:
  assumes "same_for a s t"
  shows "same_for a (disconnect_wv s) (disconnect_wv t)"
    and "same_for a (disconnect_sv s) (disconnect_sv t)"
  using assms
  by (simp_all add: same_for_def disconnect_wv_fields disconnect_sv_fields disconnect_wv_parts
      disconnect_sv_parts) (simp_all add: display_def)

lemma catch_same:
  assumes "same_for a s t"
  shows "same_for a (catch_wsError_wv s) (catch_wsError_wv t)"
    and "same_for a (catch_wsError_sv s) (catch_wsError_sv t)"
  using assms by (simp_all add: same_for_def catch_wsError_wv_def catch_wsError_sv_def display_def)

lemma attempt_fallback_same:
  assumes "same_for a s t"
  shows "same_for a ((att_upd a (\<lambda>x. x\<lparr>fallback := Some f\<rparr>) s)\<lparr>websocketRef := r\<rparr>)
                    ((att_upd a (\<lambda>x. x\<lparr>fallback := Some f\<rparr>) t)\<lparr>websocketRef := r\<rparr>)"
  using assms by (simp add: same_for_def display_def closure_of_def att_upd_nth)

lemma connectWebSocket_same:
  assumes "same_for a s t"
  shows "same_for a (connectWebSocket_wv (Some a) bid s) (connectWebSocket_wv (Some a) bid t)"
    and "same_for a (connectWebSocket_sv (Some a) bid s) (connectWebSocket_sv (Some a) bid t)"
proof -
  from assms have e: "hostname t = hostname s" "pageSecure t = pageSecure s"
    by (simp_all add: same_for_def)
  show "same_for a (connectWebSocket_wv (Some a) bid s) (connectWebSocket_wv (Some a) bid t)"
  proof (cases "new_WebSocket (pageSecure s)
      (getWebSocketUrl (hostname s) 8081 (''/stream/'' @ trim bid))")
    case (Inl x)
    with e catch_same(1) [OF assms] show ?thesis
      by (simp only: connectWebSocket_wv_def sum.case)
  next
    case (Inr w)
    with e attempt_fallback_same [OF assms] show ?thesis
      by (simp only: connectWebSocket_wv_def sum.case option.case)
  qed
  show "same_for a (connectWebSocket_sv (Some a) bid s) (connectWebSocket_sv (Some a) bid t)"
  proof (cases "new_WebSocket (pageSecure s)
      (getWebSocketUrl (hostname s) 8081 (''/stream/'' @ bid))")
    case (Inl x)
    with e catch_same(2) [OF assms] show ?thesis
      by (simp only: connectWebSocket_sv_def sum.case)
  next
    case (Inr w)
    with e attempt_fallback_same [OF assms] show ?thesis
      by (simp only: connectWebSocket_sv_def sum.case option.case)
  qed
qed

lemma reject_connectWebRTC_same:
  assumes "same_for a s t"
  shows "same_for a (reject_connectWebRTC_wv a r s) (reject_connectWebRTC_wv a r t)"
    and "same_for a (reject_connectWebRTC_sv a r s) (reject_connectWebRTC_sv a r t)"
proof -
  from assms have w: "webrtc (attempts t ! a) = webrtc (attempts s ! a)"
    "broadcastId_c (attempts t ! a) = broadcastId_c (attempts s ! a)"
    by (simp_all add: same_for_def closure_of_def)
  from assms
  have u: "same_for a (att_upd a (\<lambda>x. x\<lparr>webrtc := Rejected r\<rparr>) s)
                      (att_upd a (\<lambda>x. x\<lparr>webrtc := Rejected r\<rparr>) t)"
    by (simp add: same_for_def display_def closure_of_def att_upd_nth)
  show "same_for a (reject_connectWebRTC_wv a r s) (reject_connectWebRTC_wv a r t)"
  proof (cases "webrtc (attempts s ! a) = Pending")
    case True
    with w connectWebSocket_same(1) [OF u] show ?thesis
      by (simp add: reject_connectWebRTC_wv_def)
  next
    case False
    with w assms show ?thesis by (simp add: reject_connectWebRTC_wv_def)
  qed
  show "same_for a (reject_connectWebRTC_sv a r s) (reject_connectWebRTC_sv a r t)"
  proof (cases "webrtc (attempts s ! a) = Pending")
    case True
    with w connectWebSocket_same(2) [OF u] show ?thesis
      by (simp add: reject_connectWebRTC_sv_def)
  next
    case False
    with w assms show ?thesis by (simp add: reject_connectWebRTC_sv_def)
  qed
qed

lemma att_upd_same:
  assumes "same_for a s t"
    and "\<And>x. closure_of (f x) = closure_of x" "\<And>x. closure_of (g x) = closure_of x"
  shows "same_for a (att_upd a f s) (att_upd a g t)"
  using assms by (simp add: same_for_def display_def att_upd_nth)

lemma timer_same:
  assumes "same_for a s t"
  shows "same_for a (att_upd a (\<lambda>x. x\<lparr>connectionTimeout := None\<rparr>) s)
                    (att_upd a (\<lambda>x. x\<lparr>connectionTimeout := None\<rparr>) t)"
  using assms by (simp add: same_for_def display_def closure_of_def att_upd_nth)

lemma set_signaling_same:
  assumes "same_for a s t"
  shows "same_for a (set_signaling a r s) (set_signaling a r t)"
  using assms by (simp add: set_signaling_def att_upd_same)

lemma fb_upd_same:
  assumes "same_for a s t"
  shows "same_for a (fb_upd (OfAttempt a) (\<lambda>f. f\<lparr>ws := u (ws f)\<rparr>) s)
                    (fb_upd (OfAttempt a) (\<lambda>f. f\<lparr>ws := v (ws f)\<rparr>) t)"
    and "same_for a (fb_upd (OfAttempt a) (\<lambda>f. f\<lparr>wsTimeout := None\<rparr>) s)
                    (fb_upd (OfAttempt a) (\<lambda>f. f\<lparr>wsTimeout := None\<rparr>) t)"
    and "same_for a (fb_upd (OfAttempt a) (\<lambda>f. f\<lparr>wsPromise := p\<rparr>) s)
                    (fb_upd (OfAttempt a) (\<lambda>f. f\<lparr>wsPromise := p\<rparr>) t)"
  using assms
  by (auto simp add: same_for_def display_def closure_of_def fb_upd_nth option.map_comp comp_def
      const_map)

lemma set_ws_same:
  assumes "same_for a s t"
  shows "same_for a (set_ws (OfAttempt a) r s) (set_ws (OfAttempt a) r t)"
  using fb_upd_same(1) [OF assms, of "\<lambda>w. w\<lparr>readyState := r\<rparr>" "\<lambda>w. w\<lparr>readyState := r\<rparr>"]
  by (simp add: set_ws_def)

lemma same_slot:
  assumes "same_for a s t"
  shows "has_ws (OfAttempt a) t = has_ws (OfAttempt a) s"
    and "ws_pending (OfAttempt a) t = ws_pending (OfAttempt a) s"
    and "ws_armed (OfAttempt a) t = ws_armed (OfAttempt a) s"
  using assms by (simp_all add: slot_alt same_for_def closure_of_def)

lemma same_display:
  assumes "same_for a s t"
  shows "same_for a (s\<lparr>isConnected := c\<rparr>) (t\<lparr>isConnected := c\<rparr>)"
    and "same_for a (s\<lparr>isConnecting := c\<rparr>) (t\<lparr>isConnecting := c\<rparr>)"
    and "same_for a (s\<lparr>error := e\<rparr>) (t\<lparr>error := e\<rparr>)"
    and "same_for a (s\<lparr>connectionType := k\<rparr>) (t\<lparr>connectionType := k\<rparr>)"
    and "same_for a (s\<lparr>viewerCount := n\<rparr>) (t\<lparr>viewerCount := n\<rparr>)"
    and "same_for a (s\<lparr>streamQuality := q\<rparr>) (t\<lparr>streamQuality := q\<rparr>)"
    and "same_for a (s\<lparr>videoRef := v\<rparr>) (t\<lparr>videoRef := v\<rparr>)"
  using assms by (simp_all add: same_for_def display_def)

lemma same_fields:
  assumes "same_for a s t"
  shows "videoRef t = videoRef s" "viewerCount t = viewerCount s"
    "isConnected_c (attempts t ! a) = isConnected_c (attempts s ! a)"
    "webrtc (attempts t ! a) = webrtc (attempts s ! a)"
    "connectionTimeout (attempts t ! a) = connectionTimeout (attempts s ! a)"
    "a < length (attempts s)" "a < length (attempts t)"
  using assms by (simp_all add: same_for_def display_def closure_of_def)

lemma connectWebSocket_promise_same:
  assumes "same_for a s t"
  shows "same_for a (resolve_connectWebSocket_wv (OfAttempt a) s)
                    (resolve_connectWebSocket_wv (OfAttempt a) t)"
    and "same_for a (reject_connectWebSocket_wv (OfAttempt a) r s)
                    (reject_connectWebSocket_wv (OfAttempt a) r t)"
    and "same_for a (resolve_connectWebSocket_sv (OfAttempt a) s)
                    (resolve_connectWebSocket_sv (OfAttempt a) t)"
    and "same_for a (reject_connectWebSocket_sv (OfAttempt a) r s)
                    (reject_connectWebSocket_sv (OfAttempt a) r t)"
  using assms same_slot(2) [OF assms]
  by (simp_all add: resolve_connectWebSocket_wv_def reject_connectWebSocket_wv_def
      resolve_connectWebSocket_sv_def reject_connectWebSocket_sv_def
      fb_upd_same same_display catch_same)

lemma resolve_connectWebRTC_same:
  assumes "same_for a s t"
  shows "same_for a (resolve_connectWebRTC_wv a s) (resolve_connectWebRTC_wv a t)"
    and "same_for a (resolve_connectWebRTC_sv a s) (resolve_connectWebRTC_sv a t)"
proof -
  from assms
  have u: "same_for a (att_upd a (\<lambda>x. x\<lparr>webrtc := Fulfilled\<rparr>) s)
                      (att_upd a (\<lambda>x. x\<lparr>webrtc := Fulfilled\<rparr>) t)"
    by (simp add: same_for_def display_def closure_of_def att_upd_nth)
  from u assms same_fields(4) [OF assms]
  show "same_for a (resolve_connectWebRTC_wv a s) (resolve_connectWebRTC_wv a t)"
    and "same_for a (resolve_connectWebRTC_sv a s) (resolve_connectWebRTC_sv a t)"
    by (simp_all add: resolve_connectWebRTC_wv_def resolve_connectWebRTC_sv_def same_display)
qed

lemma att_upd_left:
  assumes "same_for a s t" and "\<And>x. closure_of (f x) = closure_of x"
  shows "same_for a (att_upd a f s) t" and "same_for a s (att_upd a f t)"
  using assms by (simp_all add: same_for_def display_def att_upd_nth)

lemma onopen_same:
  assumes "same_for a s t"
  shows "same_for a (signalingWs_onopen_wv a s) (signalingWs_onopen_wv a t)"
    and "same_for a (signalingWs_onopen_sv a s) (signalingWs_onopen_sv a t)"
  using assms
  by (simp_all add: signalingWs_onopen_wv_def signalingWs_onopen_sv_def same_for_def display_def
      closure_of_def att_upd_nth)

lemmas same_intros = reject_connectWebRTC_same resolve_connectWebRTC_same
  connectWebSocket_promise_same disconnect_same timer_same set_signaling_same set_ws_same
  fb_upd_same same_display onopen_same

text \<open>An event of an attempt is handled alike in two states that agree on the page, on
  what is displayed and on the closure of the attempt's handlers, and the states after it
  agree on them again.\<close>

lemma step_same_wv:
  assumes "same_for a s t" "owner ev = Some a"
  shows "same_for a (step_wv ev s) (step_wv ev t)"
proof -
  note f = same_fields [OF assms(1)] same_slot [OF assms(1)]
  from assms(2) show ?thesis
  proof (cases rule: owner_cases)
    case 1
    with f show ?thesis by simp (intro same_intros assms)
  next
    case 2
    with f show ?thesis
      by (simp add: signalingWs_onerror_wv_def) (intro same_intros assms)
  next
    case 3
    with f show ?thesis
      by (simp add: connectionTimeout_fired_wv_def assms) (intro impI same_intros assms)
  next
    case (4 m)
    show ?thesis
    proof (cases m)
      case (Offer offer)
      with 4 f assms(1) show ?thesis
        by (simp add: signalingWs_onmessage_wv_def att_upd_same)
    next
      case (IceCandidate c)
      with 4 f assms(1) show ?thesis
        by (cases c) (simp_all add: signalingWs_onmessage_wv_def att_upd_same)
    next
      case (StreamInfo v q)
      with 4 f show ?thesis
        by (simp add: signalingWs_onmessage_wv_def) (intro same_intros assms)
    next
      case (ErrorMsg msg)
      with 4 f show ?thesis
        by (simp add: signalingWs_onmessage_wv_def) (intro same_intros assms)
    next
      case StreamEnded
      with 4 f show ?thesis
        by (simp add: signalingWs_onmessage_wv_def) (intro same_intros assms)
    next
      case StreamNotFound
      with 4 f show ?thesis
        by (simp add: signalingWs_onmessage_wv_def) (intro same_intros assms)
    qed (use 4 f assms(1) in \<open>simp_all add: signalingWs_onmessage_wv_def\<close>)
  next
    case 5
    have "same_for a (set_signaling a CLOSED s) (set_signaling a CLOSED t)"
      by (intro same_intros assms)
    with 5 f show ?thesis
      by (simp add: signalingWs_onclose_wv_def set_signaling_def att_upd_nth same_display)
  next
    case (6 st)
    with f assms(1) show ?thesis
      by (cases st; cases "videoRef s")
        (simp_all add: ontrack_wv_def resolve_connectWebRTC_same same_display)
  next
    case (7 c)
    with f assms(1) show ?thesis
      by (cases c) (simp_all add: onicecandidate_wv_def att_upd_same att_upd_left)
  next
    case (8 st)
    with f assms(1) show ?thesis
      by (cases st) (simp_all add: onconnectionstatechange_wv_def same_display)
  next
    case 9
    with f assms(1) show ?thesis
      by (simp add: ws_onopen_wv_def)
        (intro impI connectWebSocket_promise_same same_display fb_upd_same set_ws_same assms)
  next
    case 10
    with f assms(1) show ?thesis
      by (simp add: ws_onerror_wv_def)
        (intro impI connectWebSocket_promise_same fb_upd_same set_ws_same assms)
  next
    case 11
    with f assms(1) show ?thesis
      by (simp add: wsTimeout_fired_wv_def)
        (intro impI connectWebSocket_promise_same fb_upd_same assms)
  next
    case (12 d)
    show ?thesis
    proof (cases d)
      case (Blob u)
      with 12 f assms(1) show ?thesis
        by (cases "videoRef s") (simp_all add: ws_onmessage_wv_def same_display)
    next
      case (Text m)
      with 12 f assms(1) show ?thesis
        by (cases m)
          (simp_all add: ws_onmessage_wv_def same_display connectWebSocket_promise_same
            disconnect_same)
    qed
  next
    case (13 code)
    with f assms(1) show ?thesis
      by (simp add: ws_onclose_wv_def Let_def same_display set_ws_same)
  qed
qed

lemma step_same_sv:
  assumes "same_for a s t" "owner ev = Some a"
  shows "same_for a (step_sv ev s) (step_sv ev t)"
proof -
  note f = same_fields [OF assms(1)] same_slot [OF assms(1)]
  from assms(2) show ?thesis
  proof (cases rule: owner_cases)
    case 1
    with f show ?thesis by simp (intro same_intros assms)
  next
    case 2
    with f show ?thesis
      by (simp add: signalingWs_onerror_sv_def) (intro same_intros assms)
  next
    case 3
    with assms(1) show ?thesis by simp
  next
    case (4 m)
    show ?thesis
    proof (cases m)
      case (Offer offer)
      with 4 f assms(1) show ?thesis
        by (simp add: signalingWs_onmessage_sv_def att_upd_same)
    next
      case (IceCandidate c)
      with 4 f assms(1) show ?thesis
        by (simp add: signalingWs_onmessage_sv_def att_upd_same)
    next
      case (StreamInfo v q)
      with 4 f show ?thesis
        by (simp add: signalingWs_onmessage_sv_def) (intro same_intros assms)
    next
      case (ErrorMsg msg)
      with 4 f show ?thesis
        by (simp add: signalingWs_onmessage_sv_def) (intro same_intros assms)
    next
      case StreamEnded
      with 4 f show ?thesis
        by (simp add: signalingWs_onmessage_sv_def) (intro same_intros assms)
    qed (use 4 f assms(1) in \<open>simp_all add: signalingWs_onmessage_sv_def\<close>)
  next
    case 5
    with f show ?thesis by simp (intro same_intros assms)
  next
    case (6 st)
    with f assms(1) show ?thesis
      by (cases st; cases "videoRef s")
        (simp_all add: ontrack_sv_def resolve_connectWebRTC_same same_display)
  next
    case (7 c)
    with f assms(1) show ?thesis
      by (cases c) (simp_all add: onicecandidate_sv_def att_upd_same)
  next
    case (8 st)
    with f assms(1) show ?thesis
      by (simp add: onconnectionstatechange_sv_def reject_connectWebRTC_same)
  next
    case 9
    with f assms(1) show ?thesis
      by (simp add: ws_onopen_sv_def)
        (intro impI connectWebSocket_promise_same same_display set_ws_same assms)
  next
    case 10
    with f assms(1) show ?thesis
      by (simp add: ws_onerror_sv_def)
        (intro impI connectWebSocket_promise_same set_ws_same assms)
  next
    case 11
    with assms(1) show ?thesis by simp
  next
    case (12 d)
    show ?thesis
    proof (cases d)
      case (Blob u)
      with 12 f assms(1) show ?thesis
        by (cases "videoRef s") (simp_all add: ws_onmessage_sv_def same_display)
    next
      case (Text m)
      with 12 f assms(1) show ?thesis
        by (cases m)
          (simp_all add: ws_onmessage_sv_def same_display connectWebSocket_promise_same)
    qed
  next
    case (13 code)
    with f assms(1) show ?thesis
      by (simp add: ws_onclose_sv_def same_display set_ws_same)
  qed
qed

lemma run_same_wv:
  "same_for a s t \<Longrightarrow> \<forall>e\<in>set es. owner e = Some a \<Longrightarrow>
   same_for a (run_wv es s) (run_wv es t)"
proof (induction es arbitrary: s t)
  case Nil
  then show ?case by simp
next
  case (Cons e es)
  from Cons.prems have "same_for a (step_wv e s) (step_wv e t)"
    by (simp add: step_same_wv)
  with Cons.IH Cons.prems(2) show ?case by (simp del: step_wv.simps)
qed

lemma run_same_sv:
  "same_for a s t \<Longrightarrow> \<forall>e\<in>set es. owner e = Some a \<Longrightarrow>
   same_for a (run_sv es s) (run_sv es t)"
proof (induction es arbitrary: s t)
  case Nil
  then show ?case by simp
next
  case (Cons e es)
  from Cons.prems have "same_for a (step_sv e s) (step_sv e t)"
    by (simp add: step_same_sv)
  with Cons.IH Cons.prems(2) show ?case by (simp del: step_sv.simps)
qed

lemma new_WebSocket_init:
  assumes "CHR ''#'' \<notin> set A"
  shows "new_WebSocket False (getWebSocketUrl ''app--5173--local.webcontainer.io'' 8080
           (''/signaling/viewer/'' @ A))
         = Inr \<lparr>url = ''ws://app--8080--local.webcontainer.io/signaling/viewer/'' @ A,
                readyState = CONNECTING, sent = []\<rparr>"
  using assms by (simp add: new_WebSocket_def getWebSocketUrl_init show_nat_ports)

lemma connect_once_wv_eq:
  assumes "trim A \<noteq> []" "CHR ''#'' \<notin> set A"
  shows "connect_once_wv A =
     \<lparr>hostname = ''app--5173--local.webcontainer.io'', pageSecure = False,
      broadcastId = A, isConnecting = True, isConnected = False, error = None,
      viewerCount = 0, streamQuality = ''HD'', connectionType = None,
      videoRef = Some \<lparr>srcObject = None, src = []\<rparr>,
      peerConnectionRef = Some 0, websocketRef = None, signalingWsRef = Some 0,
      attempts =
        [\<lparr>broadcastId_c = A, isConnected_c = False,
          signalingWs = \<lparr>url = ''ws://app--8080--local.webcontainer.io/signaling/viewer/'' @ A,
                          readyState = CONNECTING, sent = []\<rparr>,
          connectionTimeout = Some 10000,
          peerConnection = \<lparr>pc_closed = False, pc_calls = []\<rparr>,
          webrtc = Pending, fallback = None\<rparr>],
      lones = []\<rparr>"
  using assms new_WebSocket_init [OF assms(2)]
  by (simp add: connect_once_wv_def connectToStream_wv_def connectWebRTC_wv_def
      setBroadcastId_def viewer_init_def viewer_mount_def new_RTCPeerConnection_def)

lemma connect_once_sv_eq:
  assumes "trim A \<noteq> []" "CHR ''#'' \<notin> set A"
  shows "connect_once_sv A =
     \<lparr>hostname = ''app--5173--local.webcontainer.io'', pageSecure = False,
      broadcastId = A, isConnecting = True, isConnected = False, error = None,
      viewerCount = 0, streamQuality = ''HD'', connectionType = None,
      videoRef = Some \<lparr>srcObject = None, src = []\<rparr>,
      peerConnectionRef = Some 0, websocketRef = None, signalingWsRef = None,
      attempts =
        [\<lparr>broadcastId_c = A, isConnected_c = False,
          signalingWs = \<lparr>url = ''ws://app--8080--local.webcontainer.io/signaling/viewer/'' @ A,
                          readyState = CONNECTING, sent = []\<rparr>,
          connectionTimeout = None,
          peerConnection = \<lparr>pc_closed = False, pc_calls = []\<rparr>,
          webrtc = Pending, fallback = None\<rparr>],
      lones = []\<rparr>"
  using assms new_WebSocket_init [OF assms(2)]
  by (simp add: connect_once_sv_def connectToStream_sv_def connectWebRTC_sv_def
      setBroadcastId_def viewer_init_def viewer_mount_def new_RTCPeerConnection_def)

lemma connect_twice_wv_eq:
  assumes "trim A \<noteq> []" "CHR ''#'' \<notin> set A" "trim B \<noteq> []" "CHR ''#'' \<notin> set B"
  shows "connect_twice_wv A B =
     \<lparr>hostname = ''app--5173--local.webcontainer.io'', pageSecure = False,
      broadcastId = B, isConnecting = True, isConnected = False, error = None,
      viewerCount = 0, streamQuality = ''HD'', connectionType = None,
      videoRef = Some \<lparr>srcObject = None, src = []\<rparr>,
      peerConnectionRef = Some 1, websocketRef = None, signalingWsRef = Some 1,
      attempts =
        [\<lparr>broadcastId_c = A, isConnected_c = False,
          signalingWs = \<lparr>url = ''ws://app--8080--local.webcontainer.io/signaling/viewer/'' @ A,
                          readyState = CONNECTING, sent = []\<rparr>,
          connectionTimeout = Some 10000,
          peerConnection = \<lparr>pc_closed = False, pc_calls = []\<rparr>,
          webrtc = Pending, fallback = None\<rparr>,
         \<lparr>broadcastId_c = B, isConnected_c = False,
          signalingWs = \<lparr>url = ''ws://app--8080--local.webcontainer.io/signaling/viewer/'' @ B,
                          readyState = CONNECTING, sent = []\<rparr>,
          connectionTimeout = Some 10000,
          peerConnection = \<lparr>pc_closed = False, pc_calls = []\<rparr>,
          webrtc = Pending, fallback = None\<rparr>],
      lones = []\<rparr>"
proof -
  have "connect_twice_wv A B = connectToStream_wv (setBroadcastId B (connect_once_wv A))"
    by (simp add: connect_twice_wv_def connect_once_wv_def)
  with assms(3) new_WebSocket_init [OF assms(4)] show ?thesis
    by (simp add: connect_once_wv_eq [OF assms(1,2)] connectToStream_wv_def connectWebRTC_wv_def
        setBroadcastId_def new_RTCPeerConnection_def)
qed

lemma connect_twice_sv_eq:
  assumes "trim A \<noteq> []" "CHR ''#'' \<notin> set A" "trim B \<noteq> []" "CHR ''#'' \<notin> set B"
  shows "connect_twice_sv A B =
     \<lparr>hostname = ''app--5173--local.webcontainer.io'', pageSecure = False,
      broadcastId = B, isConnecting = True, isConnected = False, error = None,
      viewerCount = 0, streamQuality = ''HD'', connectionType = None,
      videoRef = Some \<lparr>srcObject = None, src = []\<rparr>,
      peerConnectionRef = Some 1, websocketRef = None, signalingWsRef = None,
      attempts =
        [\<lparr>broadcastId_c = A, isConnected_c = False,
          signalingWs = \<lparr>url = ''ws://app--8080--local.webcontainer.io/signaling/viewer/'' @ A,
                          readyState = CONNECTING, sent = []\<rparr>,
          connectionTimeout = None,
          peerConnection = \<lparr>pc_closed = False, pc_calls = []\<rparr>,
          webrtc = Pending, fallback = None\<rparr>,
         \<lparr>broadcastId_c = B, isConnected_c = False,
          signalingWs = \<lparr>url = ''ws://app--8080--local.webcontainer.io/signaling/viewer/'' @ B,
                          readyState = CONNECTING, sent = []\<rparr>,
          connectionTimeout = None,
          peerConnection = \<lparr>pc_closed = False, pc_calls = []\<rparr>,
          webrtc = Pending, fallback = None\<rparr>],
      lones = []\<rparr>"
proof -
  have "connect_twice_sv A B = connectToStream_sv (setBroadcastId B (connect_once_sv A))"
    by (simp add: connect_twice_sv_def connect_once_sv_def)
  with assms(3) new_WebSocket_init [OF assms(4)] show ?thesis
    by (simp add: connect_once_sv_eq [OF assms(1,2)] connectToStream_sv_def connectWebRTC_sv_def
        setBroadcastId_def new_RTCPeerConnection_def)
qed

lemma superseded_same:
  assumes "trim A \<noteq> []" "CHR ''#'' \<notin> set A" "trim B \<noteq> []" "CHR ''#'' \<notin> set B"
  shows "same_for 0 (connect_twice_wv A B) (connect_once_wv A)"
    and "same_for 0 (connect_twice_sv A B) (connect_once_sv A)"
  by (simp_all add: connect_twice_wv_eq [OF assms] connect_once_wv_eq [OF assms(1,2)]
      connect_twice_sv_eq [OF assms] connect_once_sv_eq [OF assms(1,2)]
      same_for_def display_def closure_of_def)

lemma superseded_display:
  assumes "trim A \<noteq> []" "CHR ''#'' \<notin> set A" "trim B \<noteq> []" "CHR ''#'' \<notin> set B"
    and "\<forall>e\<in>set es. owner e = Some 0"
  shows "display (run_wv es (connect_twice_wv A B)) = display (run_wv es (connect_once_wv A))"
    and "display (run_sv es (connect_twice_sv A B)) = display (run_sv es (connect_once_sv A))"
  using run_same_wv [OF superseded_same(1) [OF assms(1-4)] assms(5)]
    run_same_sv [OF superseded_same(2) [OF assms(1-4)] assms(5)]
  by (simp_all add: same_for_def)

lemma superseded_wv:
  assumes "trim A \<noteq> []" "CHR ''#'' \<notin> set A" "trim B \<noteq> []" "CHR ''#'' \<notin> set B"
  shows "map broadcastId_c (attempts (connect_twice_wv A B)) = [A, B]"
    and "map webrtc (attempts (connect_twice_wv A B)) = [Pending, Pending]"
    and "isConnected (step_wv (Track 0 (Some st)) (connect_twice_wv A B))"
    and "\<not> isConnecting (step_wv (Track 0 (Some st)) (connect_twice_wv A B))"
    and "map_option srcObject (videoRef (step_wv (Track 0 (Some st)) (connect_twice_wv A B)))
           = Some (Some st)"
    and "viewerCount (step_wv (SigMessage 0 (StreamInfo v q)) (connect_twice_wv A B)) = orZero v"
    and "pc_calls (peerConnection
             (attempts (step_wv (SigMessage 0 (Offer offer)) (connect_twice_wv A B)) ! 0))
           = [SetRemoteDescription offer, CreateAnswer, SetLocalDescription (AnswerTo offer)]"
  by (simp_all add: connect_twice_wv_eq [OF assms] step_defs)

lemma superseded_sv:
  assumes "trim A \<noteq> []" "CHR ''#'' \<notin> set A" "trim B \<noteq> []" "CHR ''#'' \<notin> set B"
  shows "map broadcastId_c (attempts (connect_twice_sv A B)) = [A, B]"
    and "map webrtc (attempts (connect_twice_sv A B)) = [Pending, Pending]"
    and "isConnected (step_sv (Track 0 (Some st)) (connect_twice_sv A B))"
    and "\<not> isConnecting (step_sv (Track 0 (Some st)) (connect_twice_sv A B))"
    and "map_option srcObject (videoRef (step_sv (Track 0 (Some st)) (connect_twice_sv A B)))
           = Some (Some st)"
    and "viewerCount (step_sv (SigMessage 0 (StreamInfo v q)) (connect_twice_sv A B)) = orZero v"
    and "pc_calls (peerConnection
             (attempts (step_sv (SigMessage 0 (Offer offer)) (connect_twice_sv A B)) ! 0))
           = [SetRemoteDescription offer, CreateAnswer, SetLocalDescription (AnswerTo offer)]"
  by (simp_all add: connect_twice_sv_eq [OF assms] step_defs)

text \<open>
  Claim C2, as stated, fails: after \<open>connectToStream\<close> for \<open>A\<close> and then for \<open>B\<close>, a
  late offer of attempt \<open>A\<close> is set and answered, a late track event of \<open>A\<close> marks the
  viewer connected and displays the stream of \<open>A\<close> while the attempt for \<open>B\<close> is still
  pending, and a late stream-info message of \<open>A\<close> sets the viewer count.
\<close>

theorem late_events_of_superseded_attempt:
  "map broadcastId_c (attempts (connect_twice_wv ''A'' ''B'')) = [''A'', ''B'']
   \<and> getStatusText (connect_twice_wv ''A'' ''B'') = StatusConnecting
   \<and> pc_calls (peerConnection (attempts (run_wv [SigOpen 0, SigMessage 0 (Offer ''o'')]
         (connect_twice_wv ''A'' ''B'')) ! 0))
       = [SetRemoteDescription ''o'', CreateAnswer, SetLocalDescription (AnswerTo ''o'')]
   \<and> sent (signalingWs (attempts (run_wv [SigOpen 0, SigMessage 0 (Offer ''o'')]
         (connect_twice_wv ''A'' ''B'')) ! 0))
       = [JoinStream ''A'', AnswerMsg (AnswerTo ''o'') ''A'']
   \<and> getStatusText (run_wv [SigOpen 0, SigMessage 0 (Offer ''o''), Track 0 (Some 7)]
         (connect_twice_wv ''A'' ''B'')) = StatusConnected
   \<and> map_option srcObject (videoRef (run_wv [SigOpen 0, SigMessage 0 (Offer ''o''),
         Track 0 (Some 7)] (connect_twice_wv ''A'' ''B''))) = Some (Some 7)
   \<and> map webrtc (attempts (run_wv [SigOpen 0, SigMessage 0 (Offer ''o''), Track 0 (Some 7)]
         (connect_twice_wv ''A'' ''B''))) = [Fulfilled, Pending]
   \<and> viewerCount (run_wv [SigOpen 0, SigMessage 0 (StreamInfo (Some 5) None)]
         (connect_twice_wv ''A'' ''B'')) = 5
   \<and> map broadcastId_c (attempts (connect_twice_sv ''A'' ''B'')) = [''A'', ''B'']
   \<and> getStatusText (connect_twice_sv ''A'' ''B'') = StatusConnecting
   \<and> pc_calls (peerConnection (attempts (run_sv [SigOpen 0, SigMessage 0 (Offer ''o'')]
         (connect_twice_sv ''A'' ''B'')) ! 0))
       = [SetRemoteDescription ''o'', CreateAnswer, SetLocalDescription (AnswerTo ''o'')]
   \<and> sent (signalingWs (attempts (run_sv [SigOpen 0, SigMessage 0 (Offer ''o'')]
         (connect_twice_sv ''A'' ''B'')) ! 0))
       = [JoinStream ''A'', AnswerMsg (AnswerTo ''o'') ''A'']
   \<and> getStatusText (run_sv [SigOpen 0, SigMessage 0 (Offer ''o''), Track 0 (Some 7)]
         (connect_twice_sv ''A'' ''B'')) = StatusConnected
   \<and> map_option srcObject (videoRef (run_sv [SigOpen 0, SigMessage 0 (Offer ''o''),
         Track 0 (Some 7)] (connect_twice_sv ''A'' ''B''))) = Some (Some 7)
   \<and> map webrtc (attempts (run_sv [SigOpen 0, SigMessage 0 (Offer ''o''), Track 0 (Some 7)]
         (connect_twice_sv ''A'' ''B''))) = [Fulfilled, Pending]
   \<and> viewerCount (run_sv [SigOpen 0, SigMessage 0 (StreamInfo (Some 5) None)]
         (connect_twice_sv ''A'' ''B'')) = 5"
  by (simp add: example_defs viewer_defs)

text \<open>
  Claim C2, amended. After two successive calls of \<open>connectToStream\<close>, for \<open>A\<close> and
  then for \<open>B\<close>, both attempts keep their handlers and no generation token is checked:
  every sequence of late events of the superseded attempt \<open>A\<close> leaves the displayed
  connection state exactly as the same events leave it when \<open>connectToStream\<close> was
  never called for \<open>B\<close>. A track event of \<open>A\<close> marks the viewer connected and shows
  its stream, a stream-info message of \<open>A\<close> sets the viewer count, and an offer of \<open>A\<close>
  is set and answered on the peer connection of \<open>A\<close>. The ids are such that the sockets
  can be created: they are not blank and have no \<open>#\<close>.
\<close>

theorem superseded_attempt_not_discarded:
  assumes "trim A \<noteq> []" "CHR ''#'' \<notin> set A" "trim B \<noteq> []" "CHR ''#'' \<notin> set B"
    and "\<forall>e\<in>set es. owner e = Some 0"
  shows "display (run_wv es (connect_twice_wv A B)) = display (run_wv es (connect_once_wv A))
       \<and> display (run_sv es (connect_twice_sv A B)) = display (run_sv es (connect_once_sv A))
       \<and> map broadcastId_c (attempts (connect_twice_wv A B)) = [A, B]
       \<and> map webrtc (attempts (connect_twice_wv A B)) = [Pending, Pending]
       \<and> isConnected (step_wv (Track 0 (Some st)) (connect_twice_wv A B))
       \<and> \<not> isConnecting (step_wv (Track 0 (Some st)) (connect_twice_wv A B))
       \<and> map_option srcObject (videoRef (step_wv (Track 0 (Some st)) (connect_twice_wv A B)))
           = Some (Some st)
       \<and> viewerCount (step_wv (SigMessage 0 (StreamInfo v q)) (connect_twice_wv A B)) = orZero v
       \<and> pc_calls (peerConnection
             (attempts (step_wv (SigMessage 0 (Offer offer)) (connect_twice_wv A B)) ! 0))
           = [SetRemoteDescription offer, CreateAnswer, SetLocalDescription (AnswerTo offer)]
       \<and> map broadcastId_c (attempts (connect_twice_sv A B)) = [A, B]
       \<and> map webrtc (attempts (connect_twice_sv A B)) = [Pending, Pending]
       \<and> isConnected (step_sv (Track 0 (Some st)) (connect_twice_sv A B))
       \<and> \<not> isConnecting (step_sv (Track 0 (Some st)) (connect_twice_sv A B))
       \<and> map_option srcObject (videoRef (step_sv (Track 0 (Some st)) (connect_twice_sv A B)))
           = Some (Some st)
       \<and> viewerCount (step_sv (SigMessage 0 (StreamInfo v q)) (connect_twice_sv A B)) = orZero v
       \<and> pc_calls (peerConnection
             (attempts (step_sv (SigMessage 0 (Offer offer)) (connect_twice_sv A B)) ! 0))
           = [SetRemoteDescription offer, CreateAnswer, SetLocalDescription (AnswerTo offer)]"
  by (intro conjI)
    (rule superseded_display [OF assms] superseded_wv [OF assms(1-4)]
      superseded_sv [OF assms(1-4)])+

text \<open>The ids \<open>A\<close> and \<open>B\<close>: the negotiation of \<open>A\<close> completes after \<open>B\<close> was
  started, and the signaling and the fallback of \<open>A\<close> fail after \<open>B\<close> was started.\<close>

theorem superseded_attempt_not_discarded_witness:
  "trim ''A'' = ''A'' \<and> trim ''B'' = ''B''
   \<and> display (run_wv [SigOpen 0, SigMessage 0 (Offer ''o''), Track 0 (Some 7)]
         (connect_twice_wv ''A'' ''B''))
       = (False, True, None, 1, ''HD'', Some ''WebRTC'', Some \<lparr>srcObject = Some 7, src = []\<rparr>)
   \<and> display (run_sv [SigOpen 0, SigMessage 0 (Offer ''o''), Track 0 (Some 7)]
         (connect_twice_sv ''A'' ''B''))
       = (False, True, None, 0, ''HD'', None, Some \<lparr>srcObject = Some 7, src = []\<rparr>)
   \<and> display (run_wv [SigError 0, WsError (OfAttempt 0)] (connect_twice_wv ''A'' ''B''))
       = (False, False, Some unable_wv, 0, ''HD'', None, Some \<lparr>srcObject = None, src = []\<rparr>)
   \<and> isConnected (step_wv (Track 0 (Some 7)) (connect_twice_wv ''A'' ''B''))
   \<and> isConnected (step_sv (Track 0 (Some 7)) (connect_twice_sv ''A'' ''B''))
   \<and> viewerCount (step_wv (SigMessage 0 (StreamInfo (Some 5) None)) (connect_twice_wv ''A'' ''B''))
       = 5"
proof -
  have t: "trim ''A'' = ''A''" "trim ''B'' = ''B''" by (simp_all add: trim_def isWhiteSpace_def)
  then have n: "trim ''A'' \<noteq> []" "CHR ''#'' \<notin> set ''A''" "trim ''B'' \<noteq> []"
    "CHR ''#'' \<notin> set ''B''" by simp_all
  have o: "\<forall>e\<in>set [SigOpen 0, SigMessage 0 (Offer ''o''), Track 0 (Some 7)]. owner e = Some 0"
    "\<forall>e\<in>set [SigError 0, WsError (OfAttempt 0)]. owner e = Some 0"
    by simp_all
  have d: "display (run_wv [SigOpen 0, SigMessage 0 (Offer ''o''), Track 0 (Some 7)]
         (connect_once_wv ''A''))
       = (False, True, None, 1, ''HD'', Some ''WebRTC'', Some \<lparr>srcObject = Some 7, src = []\<rparr>)"
    "display (run_sv [SigOpen 0, SigMessage 0 (Offer ''o''), Track 0 (Some 7)]
         (connect_once_sv ''A''))
       = (False, True, None, 0, ''HD'', None, Some \<lparr>srcObject = Some 7, src = []\<rparr>)"
    "display (run_wv [SigError 0, WsError (OfAttempt 0)] (connect_once_wv ''A''))
       = (False, False, Some unable_wv, 0, ''HD'', None, Some \<lparr>srcObject = None, src = []\<rparr>)"
    by (simp_all add: display_def example_defs viewer_defs)
  note T1 = superseded_attempt_not_discarded [OF n o(1), of 7 "Some 5" None "''o''"]
  note T2 = superseded_attempt_not_discarded [OF n o(2), of 7 "Some 5" None "''o''"]
  from T1 d have a: "display (run_wv [SigOpen 0, SigMessage 0 (Offer ''o''), Track 0 (Some 7)]
         (connect_twice_wv ''A'' ''B''))
       = (False, True, None, 1, ''HD'', Some ''WebRTC'', Some \<lparr>srcObject = Some 7, src = []\<rparr>)"
    "display (run_sv [SigOpen 0, SigMessage 0 (Offer ''o''), Track 0 (Some 7)]
         (connect_twice_sv ''A'' ''B''))
       = (False, True, None, 0, ''HD'', None, Some \<lparr>srcObject = Some 7, src = []\<rparr>)"
    by (simp_all del: run_wv.simps run_sv.simps)
  from T2 d have b: "display (run_wv [SigError 0, WsError (OfAttempt 0)]
         (connect_twice_wv ''A'' ''B''))
       = (False, False, Some unable_wv, 0, ''HD'', None, Some \<lparr>srcObject = None, src = []\<rparr>)"
    by (simp del: run_wv.simps run_sv.simps)
  from T1 have c: "isConnected (step_wv (Track 0 (Some 7)) (connect_twice_wv ''A'' ''B''))"
    "isConnected (step_sv (Track 0 (Some 7)) (connect_twice_sv ''A'' ''B''))"
    "viewerCount (step_wv (SigMessage 0 (StreamInfo (Some 5) None)) (connect_twice_wv ''A'' ''B''))
       = orZero (Some 5)"
    by (simp_all del: run_wv.simps run_sv.simps step_wv.simps step_sv.simps)
  from t a b c show ?thesis
    by (simp add: orZero_def del: run_wv.simps run_sv.simps step_wv.simps step_sv.simps)
qed

subsection \<open>Candidates from the signaling channel\<close>

lemma ice_calls_append: "ice_calls (xs @ ys) = ice_calls xs @ ice_calls ys"
  by (induction xs rule: ice_calls.induct) simp_all

lemma message_calls_wv:
  assumes "a < length (attempts s)"
  shows "length (attempts (step_wv (SigMessage a m) s)) = length (attempts s)
       \<and> ice_calls (pc_calls (peerConnection (attempts (step_wv (SigMessage a m) s) ! a)))
           = ice_calls (pc_calls (peerConnection (attempts s ! a))) @ candidates_wv [m]"
proof (cases m)
  case (IceCandidate c)
  with assms show ?thesis
    by (cases c) (simp_all add: signalingWs_onmessage_wv_def att_upd_def pc_call_def ice_calls_append)
next
  case StreamEnded
  with assms show ?thesis
    by (simp add: signalingWs_onmessage_wv_def disconnect_wv_parts(3) disconnect_wv_fields(7))
qed (use assms in \<open>simp_all add: signalingWs_onmessage_wv_def att_upd_def pc_call_def
      ice_calls_append reject_connectWebRTC_wv_def connectWebSocket_wv_def catch_wsError_wv_def
      split: sum.splits\<close>)

lemma message_calls_sv:
  assumes "a < length (attempts s)"
  shows "length (attempts (step_sv (SigMessage a m) s)) = length (attempts s)
       \<and> ice_calls (pc_calls (peerConnection (attempts (step_sv (SigMessage a m) s) ! a)))
           = ice_calls (pc_calls (peerConnection (attempts s ! a))) @ candidates_sv [m]"
proof (cases m)
  case StreamEnded
  with assms show ?thesis
    by (simp add: signalingWs_onmessage_sv_def disconnect_sv_parts(3) disconnect_sv_fields(6))
qed (use assms in \<open>simp_all add: signalingWs_onmessage_sv_def att_upd_def pc_call_def
      ice_calls_append reject_connectWebRTC_sv_def connectWebSocket_sv_def catch_wsError_sv_def
      split: sum.splits\<close>)

lemma candidates_wv_Cons: "candidates_wv (m # ms) = candidates_wv [m] @ candidates_wv ms"
proof (cases m)
  case (IceCandidate c)
  then show ?thesis by (cases c) simp_all
qed simp_all

lemma candidates_sv_Cons: "candidates_sv (m # ms) = candidates_sv [m] @ candidates_sv ms"
  by (cases m) simp_all

lemma messages_calls_wv:
  "a < length (attempts s) \<Longrightarrow>
   ice_calls (pc_calls (peerConnection (attempts (run_wv (map (SigMessage a) ms) s) ! a)))
     = ice_calls (pc_calls (peerConnection (attempts s ! a))) @ candidates_wv ms"
proof (induction ms arbitrary: s)
  case Nil
  then show ?case by simp
next
  case (Cons m ms)
  from message_calls_wv [OF Cons.prems, of m]
  have l: "a < length (attempts (step_wv (SigMessage a m) s))"
    and c: "ice_calls (pc_calls (peerConnection (attempts (step_wv (SigMessage a m) s) ! a)))
           = ice_calls (pc_calls (peerConnection (attempts s ! a))) @ candidates_wv [m]"
    using Cons.prems by simp_all
  from Cons.IH [OF l] c show ?case
    by (simp only: list.map run_wv.simps candidates_wv_Cons [of m ms] append_assoc)
qed

lemma messages_calls_sv:
  "a < length (attempts s) \<Longrightarrow>
   ice_calls (pc_calls (peerConnection (attempts (run_sv (map (SigMessage a) ms) s) ! a)))
     = ice_calls (pc_calls (peerConnection (attempts s ! a))) @ candidates_sv ms"
proof (induction ms arbitrary: s)
  case Nil
  then show ?case by simp
next
  case (Cons m ms)
  from message_calls_sv [OF Cons.prems, of m]
  have l: "a < length (attempts (step_sv (SigMessage a m) s))"
    and c: "ice_calls (pc_calls (peerConnection (attempts (step_sv (SigMessage a m) s) ! a)))
           = ice_calls (pc_calls (peerConnection (attempts s ! a))) @ candidates_sv [m]"
    using Cons.prems by simp_all
  from Cons.IH [OF l] c show ?case
    by (simp only: list.map run_sv.simps candidates_sv_Cons [of m ms] append_assoc)
qed

lemma candidate_at_once:
  assumes "a < length (attempts s)"
  shows "pc_calls (peerConnection (attempts (step_wv (SigMessage a (IceCandidate (Some c))) s) ! a))
           = pc_calls (peerConnection (attempts s ! a)) @ [AddIceCandidate (Some c)]"
    and "pc_calls (peerConnection (attempts (step_sv (SigMessage a (IceCandidate c')) s) ! a))
           = pc_calls (peerConnection (attempts s ! a)) @ [AddIceCandidate c']"
  using assms
  by (simp_all add: signalingWs_onmessage_wv_def signalingWs_onmessage_sv_def att_upd_def
      pc_call_def)

text \<open>
  Claim C3, as stated, fails: two candidates that arrive before the offer are handed to
  \<open>addIceCandidate\<close> on arrival, before any remote description is set (a call the
  browser rejects), and nothing is handed over again once the offer has been set.
\<close>

theorem candidates_not_buffered:
  "pc_calls (peerConnection (attempts (run_wv [Input ''A'', ClickConnect, SigOpen 0,
       SigMessage 0 (IceCandidate (Some ''c1'')), SigMessage 0 (IceCandidate (Some ''c2''))]
       viewer_init) ! 0))
     = [AddIceCandidate (Some ''c1''), AddIceCandidate (Some ''c2'')]
   \<and> pc_calls (peerConnection (attempts (run_wv [Input ''A'', ClickConnect, SigOpen 0,
       SigMessage 0 (IceCandidate (Some ''c1'')), SigMessage 0 (IceCandidate (Some ''c2'')),
       SigMessage 0 (Offer ''o'')] viewer_init) ! 0))
     = [AddIceCandidate (Some ''c1''), AddIceCandidate (Some ''c2''),
        SetRemoteDescription ''o'', CreateAnswer, SetLocalDescription (AnswerTo ''o'')]
   \<and> pc_calls (peerConnection (attempts (run_sv [Input ''A'', ClickConnect, SigOpen 0,
       SigMessage 0 (IceCandidate (Some ''c1'')), SigMessage 0 (IceCandidate (Some ''c2'')),
       SigMessage 0 (Offer ''o'')] viewer_init) ! 0))
     = [AddIceCandidate (Some ''c1''), AddIceCandidate (Some ''c2''),
        SetRemoteDescription ''o'', CreateAnswer, SetLocalDescription (AnswerTo ''o'')]"
  by (simp add: viewer_defs)

text \<open>
  Claim C3, amended. For every sequence of signaling messages of one attempt, each
  candidate message is handed to \<open>addIceCandidate\<close> at once on receipt, whether or not
  a remote description has been set, so the candidates reach the peer connection in
  their receipt order; none is buffered and none is replayed. \<open>WebcamViewer\<close> skips a
  message without a candidate, \<open>StreamViewer\<close> hands it over as it is.
\<close>

theorem candidates_passed_at_once_in_order:
  assumes "a < length (attempts s)"
  shows "ice_calls (pc_calls (peerConnection (attempts (run_wv (map (SigMessage a) ms) s) ! a)))
           = ice_calls (pc_calls (peerConnection (attempts s ! a))) @ candidates_wv ms
       \<and> ice_calls (pc_calls (peerConnection (attempts (run_sv (map (SigMessage a) ms) s) ! a)))
           = ice_calls (pc_calls (peerConnection (attempts s ! a))) @ candidates_sv ms
       \<and> pc_calls (peerConnection
             (attempts (step_wv (SigMessage a (IceCandidate (Some c))) s) ! a))
           = pc_calls (peerConnection (attempts s ! a)) @ [AddIceCandidate (Some c)]
       \<and> pc_calls (peerConnection (attempts (step_sv (SigMessage a (IceCandidate c')) s) ! a))
           = pc_calls (peerConnection (attempts s ! a)) @ [AddIceCandidate c']"
  by (intro conjI)
    (rule messages_calls_wv [OF assms] messages_calls_sv [OF assms] candidate_at_once [OF assms])+

text \<open>Candidates before and after an offer, one message without a candidate.\<close>

theorem candidates_passed_at_once_in_order_witness:
  "length (attempts (connectToStream_wv entered)) = 1
   \<and> ice_calls (pc_calls (peerConnection (attempts (run_wv
         [SigMessage 0 (IceCandidate (Some ''c1'')), SigMessage 0 (Offer ''o''),
          SigMessage 0 (IceCandidate None), SigMessage 0 (IceCandidate (Some ''c2''))]
         (connectToStream_wv entered)) ! 0)))
       = [Some ''c1'', Some ''c2'']
   \<and> ice_calls (pc_calls (peerConnection (attempts (run_sv
         [SigMessage 0 (IceCandidate (Some ''c1'')), SigMessage 0 (Offer ''o''),
          SigMessage 0 (IceCandidate None), SigMessage 0 (IceCandidate (Some ''c2''))]
         (connectToStream_wv entered)) ! 0)))
       = [Some ''c1'', None, Some ''c2'']"
proof -
  have l: "length (attempts (connectToStream_wv entered)) = 1"
    "pc_calls (peerConnection (attempts (connectToStream_wv entered) ! 0)) = []"
    by (simp_all add: example_defs viewer_defs)
  then have h: "0 < length (attempts (connectToStream_wv entered))" by simp
  from candidates_passed_at_once_in_order [OF h,
      of "[IceCandidate (Some ''c1''), Offer ''o'', IceCandidate None, IceCandidate (Some ''c2'')]"] l
  show ?thesis by simp
qed

end
